theory Spec2Isabelle
  imports Main "HOL-Library.Sublist" "HOL-Library.Multiset"
begin

section \<open>Durations and errors\<close>

text \<open>
  Go's \<^verbatim>\<open>time.Duration\<close> is a signed count of nanoseconds. The code below only compares
  durations and multiplies small constants, so they are integers here. An \<^verbatim>\<open>error\<close> value
  is its message.
\<close>

type_synonym Duration = int

type_synonym go_error = string

definition Millisecond :: Duration where
  "Millisecond = 1000000"

definition Second :: Duration where
  "Second = 1000 * Millisecond"

definition Minute :: Duration where
  "Minute = 60 * Second"

definition Hour :: Duration where
  "Hour = 60 * Minute"

section \<open>The wisp reaper patrol (package daemon)\<close>

subsection \<open>Constants and configuration\<close>

definition defaultWispReaperInterval :: Duration where
  "defaultWispReaperInterval = 30 * Minute"

definition wispReaperQueryTimeout :: Duration where
  "wispReaperQueryTimeout = 30 * Second"

definition defaultWispMaxAge :: Duration where
  "defaultWispMaxAge = 24 * Hour"

definition wispAlertThreshold :: int where
  "wispAlertThreshold = 500"

record WispReaperConfig =
  Enabled :: bool
  IntervalStr :: string
  MaxAgeStr :: string
  Databases :: "string list"

text \<open>
  \<^verbatim>\<open>DaemonPatrolConfig\<close> and its \<^verbatim>\<open>Patrols\<close> struct are declared elsewhere in the package;
  the reaper reads the pointer chain \<^verbatim>\<open>config.Patrols.WispReaper\<close> only. A pointer is an
  option: \<open>None\<close> is nil.
\<close>

record PatrolsConfig =
  WispReaper :: "WispReaperConfig option"

record DaemonPatrolConfig =
  Patrols :: "PatrolsConfig option"

text \<open>
  \<^verbatim>\<open>time.ParseDuration\<close> belongs to the Go standard library. Both accessors take it as
  the parameter \<open>parse\<close>: \<open>Inl\<close> is its error, \<open>Inr d\<close> its duration.
\<close>

definition wispReaperInterval ::
  "(string \<Rightarrow> go_error + Duration) \<Rightarrow> DaemonPatrolConfig option \<Rightarrow> Duration" where
  "wispReaperInterval parse config =
     (case config of
        None \<Rightarrow> defaultWispReaperInterval
      | Some c \<Rightarrow>
         (case Patrols c of
            None \<Rightarrow> defaultWispReaperInterval
          | Some p \<Rightarrow>
             (case WispReaper p of
                None \<Rightarrow> defaultWispReaperInterval
              | Some w \<Rightarrow>
                 if IntervalStr w \<noteq> []
                 then (case parse (IntervalStr w) of
                         Inr d \<Rightarrow> if d > 0 then d else defaultWispReaperInterval
                       | Inl err \<Rightarrow> defaultWispReaperInterval)
                 else defaultWispReaperInterval)))"

definition wispReaperMaxAge ::
  "(string \<Rightarrow> go_error + Duration) \<Rightarrow> DaemonPatrolConfig option \<Rightarrow> Duration" where
  "wispReaperMaxAge parse config =
     (case config of
        None \<Rightarrow> defaultWispMaxAge
      | Some c \<Rightarrow>
         (case Patrols c of
            None \<Rightarrow> defaultWispMaxAge
          | Some p \<Rightarrow>
             (case WispReaper p of
                None \<Rightarrow> defaultWispMaxAge
              | Some w \<Rightarrow>
                 if MaxAgeStr w \<noteq> []
                 then (case parse (MaxAgeStr w) of
                         Inr d \<Rightarrow> if d > 0 then d else defaultWispMaxAge
                       | Inl err \<Rightarrow> defaultWispMaxAge)
                 else defaultWispMaxAge)))"

subsection \<open>The store: the wisps table of each database\<close>

text \<open>
  The status vocabulary is the fixed schema contract. Timestamps are instants on one
  integer time line; a column that is NULL is \<open>None\<close>. A table is the list of its rows,
  and a row keeps its position, which is its identity.
\<close>

datatype wisp_status = st_open | st_hooked | st_in_progress | st_closed

record wisp =
  status :: wisp_status
  created_at :: "int option"
  closed_at :: "int option"

text \<open>\<^verbatim>\<open>status IN ('open', 'hooked', 'in_progress')\<close>\<close>

definition statusInOpenSet :: "wisp_status \<Rightarrow> bool" where
  "statusInOpenSet s = (s \<in> set [st_open, st_hooked, st_in_progress])"

text \<open>
  The WHERE clause of the UPDATE: \<^verbatim>\<open>status IN (...) AND created_at < ?\<close>. A comparison
  with NULL is not true, so a row without \<open>created_at\<close> never matches.
\<close>

definition whereStale :: "int \<Rightarrow> wisp \<Rightarrow> bool" where
  "whereStale cutoff w =
     (statusInOpenSet (status w) \<and>
      (case created_at w of None \<Rightarrow> False | Some t \<Rightarrow> t < cutoff))"

text \<open>
  \<^verbatim>\<open>UPDATE wisps SET status='closed', closed_at=NOW() WHERE ...\<close>: the table after the
  statement, and the affected-row count the driver reports for it. Every matched row
  changes (its status was not closed), so matched and changed rows coincide.
\<close>

definition closeQuery :: "int \<Rightarrow> int \<Rightarrow> wisp list \<Rightarrow> wisp list" where
  "closeQuery now cutoff ws =
     map (\<lambda>w. if whereStale cutoff w
               then w\<lparr>status := st_closed, closed_at := Some now\<rparr>
               else w) ws"

definition rowsAffected :: "int \<Rightarrow> wisp list \<Rightarrow> int" where
  "rowsAffected cutoff ws = int (length (filter (whereStale cutoff) ws))"

text \<open>\<^verbatim>\<open>SELECT COUNT(*) FROM wisps WHERE status IN ('open', 'hooked', 'in_progress')\<close>\<close>

definition countQuery :: "wisp list \<Rightarrow> int" where
  "countQuery ws = int (length (filter (\<lambda>w. statusInOpenSet (status w)) ws))"

subsection \<open>One database: reapWispsInDB\<close>

text \<open>
  What can go wrong against one database: \<^verbatim>\<open>sql.Open\<close> fails, the UPDATE fails (also by
  its deadline; the statement is atomic, so no row has changed), or the COUNT fails
  after the UPDATE went through. The three wrapped errors of the function follow.
\<close>

datatype fault = OpenFails | ExecFails | CountFails

datatype reap_error = OpenConnection | CloseStaleWisps | CountOpenWisps

text \<open>
  The world outside the daemon during one sweep: the name pattern \<^verbatim>\<open>validDBName\<close> and
  \<^verbatim>\<open>IsPatrolEnabled\<close> are declared in files of the package that are not at hand, so they
  are parameters; \<open>timeNow\<close> is \<^verbatim>\<open>time.Now().UTC()\<close>; \<open>faults\<close> says which database fails
  and where; \<open>NOW\<close> is the store's clock when the UPDATE of that database runs.
\<close>

record env =
  ParseDuration :: "string \<Rightarrow> go_error + Duration"
  IsPatrolEnabled :: "DaemonPatrolConfig option \<Rightarrow> string \<Rightarrow> bool"
  validDBName :: "string \<Rightarrow> bool"
  timeNow :: int
  faults :: "string \<Rightarrow> fault option"
  NOW :: "string \<Rightarrow> int"

text \<open>
  The result is Go's triple \<^verbatim>\<open>(reaped, open, err)\<close> together with the tables after the
  call. The data source name only selects the database, which is the lookup by name.
\<close>

definition reapWispsInDB ::
  "env \<Rightarrow> string \<Rightarrow> int \<Rightarrow> (string \<Rightarrow> wisp list) \<Rightarrow>
     (int \<times> int \<times> reap_error option) \<times> (string \<Rightarrow> wisp list)" where
  "reapWispsInDB e dbName cutoff tbls =
     (if faults e dbName = Some OpenFails then ((0, 0, Some OpenConnection), tbls)
      else if faults e dbName = Some ExecFails then ((0, 0, Some CloseStaleWisps), tbls)
      else
        let reaped = rowsAffected cutoff (tbls dbName);
            tbls' = tbls(dbName := closeQuery (NOW e dbName) cutoff (tbls dbName))
        in if faults e dbName = Some CountFails
           then ((reaped, 0, Some CountOpenWisps), tbls')
           else ((reaped, countQuery (tbls' dbName), None), tbls'))"

subsection \<open>The sweep: reapWisps\<close>

text \<open>The lines the daemon's logger receives, one constructor per \<^verbatim>\<open>Printf\<close> call.\<close>

datatype log_line =
    LogNoDatabases
  | LogSkipInvalid string
  | LogError string reap_error
  | LogReaped string int Duration int
  | LogTotal int nat int
  | LogWarning int int

text \<open>
  The local variables of the sweep, the log written so far and the tables as the sweep
  has left them.
\<close>

record sweep =
  totalReaped :: int
  totalOpen :: int
  logger :: "log_line list"
  tables :: "string \<Rightarrow> wisp list"

text \<open>The \<^verbatim>\<open>for _, dbName := range databases\<close> loop.\<close>

fun reapLoop :: "env \<Rightarrow> Duration \<Rightarrow> int \<Rightarrow> string list \<Rightarrow> sweep \<Rightarrow> sweep" where
  "reapLoop e maxAge cutoff [] s = s"
| "reapLoop e maxAge cutoff (dbName # rest) s =
     (if \<not> validDBName e dbName
      then reapLoop e maxAge cutoff rest (s\<lparr>logger := logger s @ [LogSkipInvalid dbName]\<rparr>)
      else
        (case reapWispsInDB e dbName cutoff (tables s) of
           ((reaped, opn, Some err), tbls') \<Rightarrow>
             reapLoop e maxAge cutoff rest
               (s\<lparr>logger := logger s @ [LogError dbName err], tables := tbls'\<rparr>)
         | ((reaped, opn, None), tbls') \<Rightarrow>
             reapLoop e maxAge cutoff rest
               (s\<lparr>totalReaped := totalReaped s + reaped,
                  totalOpen := totalOpen s + opn,
                  logger := logger s @
                    (if reaped > 0 then [LogReaped dbName reaped maxAge opn] else []),
                  tables := tbls'\<rparr>)))"

text \<open>
  The body of \<^verbatim>\<open>reapWisps\<close> from the second \<^verbatim>\<open>len(databases) == 0\<close> test to its end, for
  a list of target databases that has been determined.
\<close>

definition reapDatabases ::
  "env \<Rightarrow> Duration \<Rightarrow> int \<Rightarrow> string list \<Rightarrow> (string \<Rightarrow> wisp list) \<Rightarrow> sweep" where
  "reapDatabases e maxAge cutoff databases tbls =
     (if length databases = 0
      then \<lparr>totalReaped = 0, totalOpen = 0, logger = [LogNoDatabases], tables = tbls\<rparr>
      else
        let s = reapLoop e maxAge cutoff databases
                  \<lparr>totalReaped = 0, totalOpen = 0, logger = [], tables = tbls\<rparr>;
            s = (if totalReaped s > 0
                 then s\<lparr>logger := logger s @
                        [LogTotal (totalReaped s) (length databases) (totalOpen s)]\<rparr>
                 else s)
        in if totalOpen s > wispAlertThreshold
           then s\<lparr>logger := logger s @ [LogWarning (totalOpen s) wispAlertThreshold]\<rparr>
           else s)"

definition discoverDoltDatabases :: "string list" where
  "discoverDoltDatabases = [''hq'', ''beads'', ''gastown'']"

record Daemon =
  patrolConfig :: "DaemonPatrolConfig option"

datatype panic = NilPointerDereference

text \<open>
  \<^verbatim>\<open>reapWisps\<close> returns nothing; its effects are the log and the tables. Reading a field
  through a nil pointer panics, which is the \<open>Inl\<close> result: \<^verbatim>\<open>d.patrolConfig.Patrols\<close>,
  \<^verbatim>\<open>.WispReaper\<close> and \<^verbatim>\<open>config.Databases\<close> are read without a nil test once the patrol
  is enabled.
\<close>

definition reapWisps :: "env \<Rightarrow> Daemon \<Rightarrow> (string \<Rightarrow> wisp list) \<Rightarrow> panic + sweep" where
  "reapWisps e d tbls =
     (if \<not> IsPatrolEnabled e (patrolConfig d) ''wisp_reaper''
      then Inr \<lparr>totalReaped = 0, totalOpen = 0, logger = [], tables = tbls\<rparr>
      else
        (case patrolConfig d of
           None \<Rightarrow> Inl NilPointerDereference
         | Some pc \<Rightarrow>
            (case Patrols pc of
               None \<Rightarrow> Inl NilPointerDereference
             | Some ps \<Rightarrow>
                let maxAge = wispReaperMaxAge (ParseDuration e) (patrolConfig d);
                    cutoff = timeNow e - maxAge
                in (case WispReaper ps of
                      None \<Rightarrow> Inl NilPointerDereference
                    | Some config \<Rightarrow>
                       let databases =
                             (if length (Databases config) = 0
                              then discoverDoltDatabases
                              else Databases config)
                       in Inr (reapDatabases e maxAge cutoff databases tbls)))))"

subsection \<open>Monotonic status, in the words of the specification\<close>

text \<open>
  A table \<open>after\<close> a reap cycle against the one \<open>before\<close>: the rows are the same rows, a
  row that was closed is identical (its \<open>closed_at\<close> included), and a row whose status
  differs is closed now.
\<close>

definition monotonicUnderReaping :: "wisp list \<Rightarrow> wisp list \<Rightarrow> bool" where
  "monotonicUnderReaping before after =
     list_all2 (\<lambda>b a. (status b = st_closed \<longrightarrow> a = b) \<and>
                       (status a \<noteq> status b \<longrightarrow> status a = st_closed \<and> status b \<noteq> st_closed))
       before after"

subsection \<open>A concrete daemon, server and store\<close>

text \<open>
  Sample inputs on which the theorems below are run: the parser knows one duration, the
  name pattern refuses a semicolon, the database \<open>beads\<close> fails in its COUNT and \<open>gone\<close>
  in its UPDATE. The table of \<open>hq\<close> holds a stale open row, a fresh open row, a closed
  row, a stale hooked row and an in-progress row without \<open>created_at\<close>.
\<close>

definition sampleEnv :: env where
  "sampleEnv =
     \<lparr>ParseDuration = (\<lambda>s. if s = ''1h'' then Inr Hour
                           else if s = ''0s'' then Inr 0
                           else if s = ''-5m'' then Inr (- 5 * Minute)
                           else Inl ''time: invalid duration''),
      IsPatrolEnabled = (\<lambda>cfg name.
         case cfg of
           None \<Rightarrow> False
         | Some c \<Rightarrow>
            (case Patrols c of
               None \<Rightarrow> False
             | Some p \<Rightarrow> (case WispReaper p of None \<Rightarrow> False | Some w \<Rightarrow> Enabled w))),
      validDBName = (\<lambda>n. n \<noteq> [] \<and> CHR '';'' \<notin> set n),
      timeNow = 100000000000000,
      faults = (\<lambda>n. if n = ''beads'' then Some CountFails
                     else if n = ''gone'' then Some ExecFails else None),
      NOW = (\<lambda>n. 100000000000001)\<rparr>"

definition sampleTables :: "string \<Rightarrow> wisp list" where
  "sampleTables n =
     (if n = ''hq'' then
        [\<lparr>status = st_open, created_at = Some 10, closed_at = None\<rparr>,
         \<lparr>status = st_open, created_at = Some 99999999999999, closed_at = None\<rparr>,
         \<lparr>status = st_closed, created_at = Some 5, closed_at = Some 7\<rparr>,
         \<lparr>status = st_hooked, created_at = Some 20, closed_at = None\<rparr>,
         \<lparr>status = st_in_progress, created_at = None, closed_at = None\<rparr>]
      else if n = ''beads'' then
        [\<lparr>status = st_open, created_at = Some 1, closed_at = None\<rparr>]
      else [])"

definition sampleDaemon :: "string list \<Rightarrow> Daemon" where
  "sampleDaemon dbs =
     \<lparr>patrolConfig = Some \<lparr>Patrols = Some \<lparr>WispReaper = Some
        \<lparr>Enabled = True, IntervalStr = ''soon'', MaxAgeStr = [], Databases = dbs\<rparr>\<rparr>\<rparr>\<rparr>"

text \<open>A table of \<open>n\<close> open rows that are younger than any cutoff used below.\<close>

definition freshOpen :: "nat \<Rightarrow> wisp list" where
  "freshOpen n = replicate n \<lparr>status = st_open, created_at = Some 99999999999999, closed_at = None\<rparr>"

section \<open>The pane liveness probe (package tmux)\<close>

text \<open>
  \<^verbatim>\<open>exec.Command(name, args...).CombinedOutput()\<close> is the parameter \<open>run\<close>: from the
  program name and its arguments to the combined output and the error (\<open>None\<close> is nil).
  \<^verbatim>\<open>strings.TrimSpace\<close> of the standard library is the parameter \<open>TrimSpace\<close>.
\<close>

definition isPaneDead ::
  "(string list \<Rightarrow> string \<times> go_error option) \<Rightarrow> (string \<Rightarrow> string) \<Rightarrow> string \<Rightarrow> string \<Rightarrow> bool"
  where
  "isPaneDead run TrimSpace socket session =
     (case run [''tmux'', ''-L'', socket, ''list-panes'', ''-t'', session, ''-F'', ''#{pane_dead}''] of
        (out, Some err) \<Rightarrow> False
      | (out, None) \<Rightarrow> TrimSpace out = ''1'')"

text \<open>
  A sample multiplexer for running the probe: it knows the session \<open>hq-deacon\<close> on the
  socket \<open>gt\<close>, whose pane is dead, and fails for every other target. The sample trimmer
  removes ASCII white space at both ends.
\<close>

definition sampleTmux :: "string list \<Rightarrow> string \<times> go_error option" where
  "sampleTmux argv =
     (if argv = [''tmux'', ''-L'', ''gt'', ''list-panes'', ''-t'', ''hq-deacon'', ''-F'', ''#{pane_dead}'']
      then ([CHR ''1'', CHR 0x0A], None)
      else (''no server running'', Some ''exit status 1''))"

definition asciiSpace :: "char \<Rightarrow> bool" where
  "asciiSpace ch = (ch \<in> set [CHR '' '', CHR 0x09, CHR 0x0A, CHR 0x0B, CHR 0x0C, CHR 0x0D])"

definition sampleTrimSpace :: "string \<Rightarrow> string" where
  "sampleTrimSpace s = rev (dropWhile asciiSpace (rev (dropWhile asciiSpace s)))"

section \<open>The hook command builder (package tmux)\<close>

text \<open>
  Modelled from the spec: the liveness recheck of the hook command. The body of
  \<^verbatim>\<open>buildAutoRespawnHookCmd\<close> is not among the sources; only its tests call it. The
  specification asks the hook to recheck liveness after the sleep and to take no action
  when the pane is alive: the sub-command lists the \<^verbatim>\<open>pane_dead\<close> flag of the session and
  succeeds only when it is 1.
\<close>

definition livenessRecheck :: "string \<Rightarrow> string \<Rightarrow> string" where
  \<open>livenessRecheck tmuxCmd session =
     tmuxCmd @ '' list-panes -t '' @ [CHR 0x27] @ session @
       ''' -F '#{pane_dead}' 2>/dev/null | grep -q 1''\<close>

text \<open>
  Modelled from the spec: the respawn sub-command of the hook command (the body of
  \<^verbatim>\<open>buildAutoRespawnHookCmd\<close> is not among the sources). The specification asks for a
  respawn that kills any existing process first and re-runs the original launch
  command, issued through the multiplexer prefix exactly as it was given, socket
  qualifier included.
\<close>

definition respawnSubCommand :: "string \<Rightarrow> string \<Rightarrow> string" where
  \<open>respawnSubCommand tmuxCmd session =
     tmuxCmd @ '' respawn-pane -k -t '' @ [CHR 0x27] @ session @ ''' 2>/dev/null''\<close>

text \<open>
  Modelled from the spec: the body of \<^verbatim>\<open>buildAutoRespawnHookCmd\<close> is not among the sources;
  only its tests call it. The command follows the six requirements the specification
  lists for the hook command builder: run detached (\<^verbatim>\<open>run-shell -b\<close>), sleep the grace
  window of three seconds, recheck liveness and stop when the pane is alive, otherwise
  respawn with kill, suppress every failure (\<^verbatim>\<open>|| true\<close>), and embed the socket qualifier
  of the prefix in the respawn invocation.
\<close>

definition buildAutoRespawnHookCmd :: "string \<Rightarrow> string \<Rightarrow> string" where
  \<open>buildAutoRespawnHookCmd tmuxCmd session =
     ''run-shell -b "sleep 3 && '' @ livenessRecheck tmuxCmd session @ '' && '' @
       respawnSubCommand tmuxCmd session @ '' || true"''\<close>

section \<open>Printing recent events (package feed)\<close>

text \<open>
  The fields of \<^verbatim>\<open>Event\<close> that the printer reads; the struct is declared elsewhere in the
  package. \<open>Time\<close> is an instant on an integer time line.
\<close>

record Event =
  Time :: int
  Type :: string
  Actor :: string
  Message :: string

text \<open>The symbols are the UTF-8 bytes of the code points of the source.\<close>

definition typeSymbol :: "string \<Rightarrow> string" where
  "typeSymbol eventType =
     (if eventType = ''patrol_started'' then [CHR 0xF0, CHR 0x9F, CHR 0xA6, CHR 0x89]
      else if eventType = ''patrol_complete'' then [CHR 0xF0, CHR 0x9F, CHR 0xA6, CHR 0x89]
      else if eventType = ''polecat_nudged'' then [CHR 0xE2, CHR 0x9A, CHR 0xA1]
      else if eventType = ''sling'' then [CHR 0xF0, CHR 0x9F, CHR 0x8E, CHR 0xAF]
      else if eventType = ''handoff'' then [CHR 0xF0, CHR 0x9F, CHR 0xA4, CHR 0x9D]
      else if eventType = ''done'' then [CHR 0xE2, CHR 0x9C, CHR 0x93]
      else if eventType = ''merged'' then [CHR 0xE2, CHR 0x9C, CHR 0x93]
      else if eventType = ''merge_failed'' then [CHR 0xE2, CHR 0x9C, CHR 0x97]
      else if eventType = ''create'' then ''+''
      else if eventType = ''complete'' then [CHR 0xE2, CHR 0x9C, CHR 0x93]
      else if eventType = ''fail'' then [CHR 0xE2, CHR 0x9C, CHR 0x97]
      else if eventType = ''delete'' then [CHR 0xE2, CHR 0x8A, CHR 0x98]
      else [CHR 0xE2, CHR 0x86, CHR 0x92])"

text \<open>
  The events file is absent (\<^verbatim>\<open>os.Open\<close> fails) or it is the list of its lines, each
  without its newline. The scanner's buffer and its largest token are both 1 MiB: a
  line of that many bytes or more cannot be delivered, the scan stops there and
  \<^verbatim>\<open>scanner.Err()\<close> is \<^verbatim>\<open>ErrTooLong\<close>. A delivered line has lost one trailing carriage
  return.
\<close>

datatype events_file = NoSuchFile | EventsFile "string list"

datatype feed_error = NoEventsFileFound | ReadingEvents

definition maxTokenSize :: nat where
  "maxTokenSize = 1024 * 1024"

definition dropCR :: "string \<Rightarrow> string" where
  "dropCR l = (if l \<noteq> [] \<and> last l = CHR 0x0D then butlast l else l)"

text \<open>
  The \<^verbatim>\<open>for scanner.Scan()\<close> loop: the events collected, and whether the scanner ended
  with an error. \<^verbatim>\<open>parseGtEventLine\<close> is defined in another file of the package and is the
  parameter \<open>parse\<close>; \<open>None\<close> is its nil result.
\<close>

fun scanEvents :: "(string \<Rightarrow> Event option) \<Rightarrow> string list \<Rightarrow> Event list \<Rightarrow> Event list \<times> bool" where
  "scanEvents parse [] events = (events, False)"
| "scanEvents parse (l # ls) events =
     (if maxTokenSize \<le> length l then (events, True)
      else scanEvents parse ls
             (case parse (dropCR l) of None \<Rightarrow> events | Some event \<Rightarrow> events @ [event]))"

text \<open>The comparison handed to \<^verbatim>\<open>sort.Slice\<close>: \<^verbatim>\<open>events[i].Time.After(events[j].Time)\<close>.\<close>

definition timeAfter :: "Event \<Rightarrow> Event \<Rightarrow> bool" where
  "timeAfter a b = (Time b < Time a)"

text \<open>
  What the program writes to standard output, one value per \<^verbatim>\<open>Println\<close> or \<^verbatim>\<open>Printf\<close>
  call; \<open>EventLine\<close> holds the four arguments of the format \<^verbatim>\<open>[%s] %s %-25s %s\<close>.
\<close>

datatype stdout_line = NoEventsFound | EventLine string string string string

definition printEvent :: "(int \<Rightarrow> string) \<Rightarrow> Event \<Rightarrow> stdout_line" where
  "printEvent formatTime event =
     EventLine (formatTime (Time event)) (typeSymbol (Type event))
       (if Actor event = [] then ''system'' else Actor event) (Message event)"

text \<open>
  \<^verbatim>\<open>sort.Slice\<close> (not stable) and \<^verbatim>\<open>Time.Format\<close> are parameters. The result is what was
  printed and the returned error.
\<close>

definition PrintGtEvents ::
  "((Event \<Rightarrow> Event \<Rightarrow> bool) \<Rightarrow> Event list \<Rightarrow> Event list) \<Rightarrow> (string \<Rightarrow> Event option) \<Rightarrow>
   (int \<Rightarrow> string) \<Rightarrow> events_file \<Rightarrow> int \<Rightarrow> stdout_line list \<times> feed_error option" where
  "PrintGtEvents sortSlice parse formatTime file limit =
     (case file of
        NoSuchFile \<Rightarrow> ([], Some NoEventsFileFound)
      | EventsFile lines \<Rightarrow>
         (case scanEvents parse lines [] of
            (events, True) \<Rightarrow> ([], Some ReadingEvents)
          | (events, False) \<Rightarrow>
             let events = sortSlice timeAfter events;
                 events = (if limit > 0 \<and> int (length events) > limit
                           then take (nat limit) events else events);
                 events = rev events
             in if length events = 0 then ([NoEventsFound], None)
                else (map (printEvent formatTime) events, None)))"

text \<open>The events of the lines that parse, in file order.\<close>

definition parsedEvents :: "(string \<Rightarrow> Event option) \<Rightarrow> string list \<Rightarrow> Event list" where
  "parsedEvents parse lines = List.map_filter parse (map dropCR lines)"

text \<open>
  A sample sorter (insertion sort by the given comparison), parser (a line is an event type,
  stamped with the length of the line) and clock format, for running the printer.
\<close>

fun insertBy :: "(Event \<Rightarrow> Event \<Rightarrow> bool) \<Rightarrow> Event \<Rightarrow> Event list \<Rightarrow> Event list" where
  "insertBy cmp x [] = [x]"
| "insertBy cmp x (y # ys) =
     (if cmp x y then x # y # ys else y # insertBy cmp x ys)"

definition sampleSort :: "(Event \<Rightarrow> Event \<Rightarrow> bool) \<Rightarrow> Event list \<Rightarrow> Event list" where
  "sampleSort cmp events = foldr (insertBy cmp) events []"

definition sampleParse :: "string \<Rightarrow> Event option" where
  "sampleParse line =
     (if line = [] \<or> hd line = CHR ''#'' then None
      else Some \<lparr>Time = int (length line), Type = line, Actor = [], Message = line\<rparr>)"

definition sampleFormat :: "int \<Rightarrow> string" where
  "sampleFormat t = (if t < 5 then ''early'' else ''late'')"

section \<open>Operational thresholds (package config)\<close>

subsection \<open>Compiled-in defaults\<close>

definition DefaultClaudeStartTimeout :: Duration where
  "DefaultClaudeStartTimeout = 60 * Second"

definition DefaultShellReadyTimeout :: Duration where
  "DefaultShellReadyTimeout = 5 * Second"

definition DefaultGracefulShutdownTimeout :: Duration where
  "DefaultGracefulShutdownTimeout = 3 * Second"

definition DefaultBdCommandTimeout :: Duration where
  "DefaultBdCommandTimeout = 30 * Second"

definition DefaultBdSubprocessTimeout :: Duration where
  "DefaultBdSubprocessTimeout = 5 * Second"

definition DefaultGUPPViolationTimeout :: Duration where
  "DefaultGUPPViolationTimeout = 30 * Minute"

definition DefaultHungSessionThreshold :: Duration where
  "DefaultHungSessionThreshold = 30 * Minute"

definition DefaultStartupNudgeVerifyDelay :: Duration where
  "DefaultStartupNudgeVerifyDelay = 5 * Second"

definition DefaultStartupNudgeMaxRetries :: int where
  "DefaultStartupNudgeMaxRetries = 3"

definition DefaultNudgeReadyTimeout :: Duration where
  "DefaultNudgeReadyTimeout = 10 * Second"

definition DefaultNudgeRetryInterval :: Duration where
  "DefaultNudgeRetryInterval = 500 * Millisecond"

definition DefaultNudgeLockTimeout :: Duration where
  "DefaultNudgeLockTimeout = 30 * Second"

definition DefaultNudgeNormalTTL :: Duration where
  "DefaultNudgeNormalTTL = 30 * Minute"

definition DefaultNudgeUrgentTTL :: Duration where
  "DefaultNudgeUrgentTTL = 2 * Hour"

definition DefaultNudgeMaxQueueDepth :: int where
  "DefaultNudgeMaxQueueDepth = 50"

definition DefaultNudgeStaleClaimTimeout :: Duration where
  "DefaultNudgeStaleClaimTimeout = 5 * Minute"

definition DefaultMassDeathWindow :: Duration where
  "DefaultMassDeathWindow = 30 * Second"

definition DefaultMassDeathThreshold :: int where
  "DefaultMassDeathThreshold = 3"

definition DefaultDogIdleSessionTimeout :: Duration where
  "DefaultDogIdleSessionTimeout = 1 * Hour"

definition DefaultDogIdleRemoveTimeout :: Duration where
  "DefaultDogIdleRemoveTimeout = 4 * Hour"

definition DefaultStaleWorkingTimeout :: Duration where
  "DefaultStaleWorkingTimeout = 2 * Hour"

definition DefaultMaxDogPoolSize :: int where
  "DefaultMaxDogPoolSize = 4"

definition DefaultMaxLifecycleMessageAge :: Duration where
  "DefaultMaxLifecycleMessageAge = 6 * Hour"

definition DefaultSyncFailureEscalationThreshold :: int where
  "DefaultSyncFailureEscalationThreshold = 3"

definition DefaultDoctorMolCooldown :: Duration where
  "DefaultDoctorMolCooldown = 5 * Minute"

definition DefaultRecoveryHeartbeatInterval :: Duration where
  "DefaultRecoveryHeartbeatInterval = 3 * Minute"

definition DefaultBootSpawnCooldown :: Duration where
  "DefaultBootSpawnCooldown = 2 * Minute"

definition DefaultDeaconGracePeriod :: Duration where
  "DefaultDeaconGracePeriod = 5 * Minute"

definition DefaultDeaconPingTimeout :: Duration where
  "DefaultDeaconPingTimeout = 30 * Second"

definition DefaultDeaconConsecutiveFailures :: int where
  "DefaultDeaconConsecutiveFailures = 3"

definition DefaultDeaconCooldown :: Duration where
  "DefaultDeaconCooldown = 5 * Minute"

definition DefaultDeaconHeartbeatStaleThreshold :: Duration where
  "DefaultDeaconHeartbeatStaleThreshold = 5 * Minute"

definition DefaultDeaconHeartbeatVeryStale :: Duration where
  "DefaultDeaconHeartbeatVeryStale = 15 * Minute"

definition DefaultMaxRedispatches :: int where
  "DefaultMaxRedispatches = 3"

definition DefaultRedispatchCooldown :: Duration where
  "DefaultRedispatchCooldown = 5 * Minute"

definition DefaultMaxFeedsPerCycle :: int where
  "DefaultMaxFeedsPerCycle = 3"

definition DefaultFeedCooldown :: Duration where
  "DefaultFeedCooldown = 10 * Minute"

definition DefaultPolecatHeartbeatStale :: Duration where
  "DefaultPolecatHeartbeatStale = 3 * Minute"

definition DefaultPolecatDoltMaxRetries :: int where
  "DefaultPolecatDoltMaxRetries = 10"

definition DefaultPolecatDoltBaseBackoff :: Duration where
  "DefaultPolecatDoltBaseBackoff = 500 * Millisecond"

definition DefaultPolecatDoltBackoffMax :: Duration where
  "DefaultPolecatDoltBackoffMax = 30 * Second"

definition DefaultPolecatPendingMaxAge :: Duration where
  "DefaultPolecatPendingMaxAge = 5 * Minute"

definition DefaultPolecatNamepoolSize :: int where
  "DefaultPolecatNamepoolSize = 50"

definition DefaultDoltHealthCheckInterval :: Duration where
  "DefaultDoltHealthCheckInterval = 30 * Second"

definition DefaultDoltCmdTimeout :: Duration where
  "DefaultDoltCmdTimeout = 15 * Second"

definition DefaultDoltMaxConnections :: int where
  "DefaultDoltMaxConnections = 1000"

definition DefaultDoltSlowQueryThreshold :: Duration where
  "DefaultDoltSlowQueryThreshold = 1 * Second"

definition DefaultMailIdleNotifyTimeout :: Duration where
  "DefaultMailIdleNotifyTimeout = 3 * Second"

definition DefaultMailBdReadTimeout :: Duration where
  "DefaultMailBdReadTimeout = 60 * Second"

definition DefaultMailBdWriteTimeout :: Duration where
  "DefaultMailBdWriteTimeout = 60 * Second"

definition DefaultMailMaxConcurrentAcks :: int where
  "DefaultMailMaxConcurrentAcks = 8"

definition DefaultWebMaxConcurrentCmds :: int where
  "DefaultWebMaxConcurrentCmds = 12"

definition DefaultWebMaxSubjectLen :: int where
  "DefaultWebMaxSubjectLen = 500"

definition DefaultWebMaxBodyLen :: int where
  "DefaultWebMaxBodyLen = 100000"

subsection \<open>The threshold structs\<close>

text \<open>
  The structs are declared in another file of the package; their fields are the ones the
  accessors read. A duration field is a string, empty when it is unset; an integer field
  is a pointer, nil when it is unset. The field \<^verbatim>\<open>HeartbeatStaleThreshold\<close> of the polecat
  struct and the method of that name carry the suffix \<open>_polecat\<close>, since the deacon
  struct has the same names.
\<close>

record SessionThresholds =
  ClaudeStartTimeout :: string
  ShellReadyTimeout :: string
  GracefulShutdownTimeout :: string
  BdCommandTimeout :: string
  BdSubprocessTimeout :: string
  GUPPViolationTimeout :: string
  HungSessionThreshold :: string
  StartupNudgeVerifyDelay :: string
  StartupNudgeMaxRetries :: "int option"

record NudgeThresholds =
  ReadyTimeout :: string
  RetryInterval :: string
  LockTimeout :: string
  NormalTTL :: string
  UrgentTTL :: string
  MaxQueueDepth :: "int option"
  StaleClaimThreshold :: string

record DaemonThresholds =
  MassDeathWindow :: string
  MassDeathThreshold :: "int option"
  DogIdleSessionTimeout :: string
  DogIdleRemoveTimeout :: string
  StaleWorkingTimeout :: string
  MaxDogPoolSize :: "int option"
  MaxLifecycleMessageAge :: string
  SyncFailureEscalationThreshold :: "int option"
  DoctorMolCooldown :: string
  RecoveryHeartbeatInterval :: string
  BootSpawnCooldown :: string
  DeaconGracePeriod :: string

record DeaconThresholds =
  PingTimeout :: string
  ConsecutiveFailures :: "int option"
  Cooldown :: string
  HeartbeatStaleThreshold :: string
  HeartbeatVeryStaleThreshold :: string
  MaxRedispatches :: "int option"
  RedispatchCooldown :: string
  MaxFeedsPerCycle :: "int option"
  FeedCooldown :: string

record PolecatThresholds =
  HeartbeatStaleThreshold_polecat :: string
  DoltMaxRetries :: "int option"
  DoltBaseBackoff :: string
  DoltBackoffMax :: string
  PendingMaxAge :: string
  NamepoolSize :: "int option"

record DoltThresholds =
  HealthCheckInterval :: string
  CmdTimeout :: string
  MaxConnections :: "int option"
  SlowQueryThreshold :: string

record MailThresholds =
  IdleNotifyTimeout :: string
  BdReadTimeout :: string
  BdWriteTimeout :: string
  MaxConcurrentAckOps :: "int option"

record WebThresholds =
  MaxConcurrentCommands :: "int option"
  MaxSubjectLen :: "int option"
  MaxBodyLen :: "int option"

record OperationalConfig =
  Session :: "SessionThresholds option"
  Nudge :: "NudgeThresholds option"
  Daemon :: "DaemonThresholds option"
  Deacon :: "DeaconThresholds option"
  Polecat :: "PolecatThresholds option"
  Dolt :: "DoltThresholds option"
  Mail :: "MailThresholds option"
  Web :: "WebThresholds option"

text \<open>Of \<^verbatim>\<open>TownSettings\<close> only the field that \<^verbatim>\<open>LoadOperationalConfig\<close> reads.\<close>

record TownSettings =
  Operational :: "OperationalConfig option"

text \<open>The zero values \<^verbatim>\<open>&SessionThresholds{}\<close>, ..., \<^verbatim>\<open>&OperationalConfig{}\<close>.\<close>

definition zeroSessionThresholds :: SessionThresholds where
  "zeroSessionThresholds = \<lparr>ClaudeStartTimeout = [], ShellReadyTimeout = [], GracefulShutdownTimeout = [], BdCommandTimeout = [], BdSubprocessTimeout = [], GUPPViolationTimeout = [], HungSessionThreshold = [], StartupNudgeVerifyDelay = [], StartupNudgeMaxRetries = None\<rparr>"

definition zeroNudgeThresholds :: NudgeThresholds where
  "zeroNudgeThresholds = \<lparr>ReadyTimeout = [], RetryInterval = [], LockTimeout = [], NormalTTL = [], UrgentTTL = [], MaxQueueDepth = None, StaleClaimThreshold = []\<rparr>"

definition zeroDaemonThresholds :: DaemonThresholds where
  "zeroDaemonThresholds = \<lparr>MassDeathWindow = [], MassDeathThreshold = None, DogIdleSessionTimeout = [], DogIdleRemoveTimeout = [], StaleWorkingTimeout = [], MaxDogPoolSize = None, MaxLifecycleMessageAge = [], SyncFailureEscalationThreshold = None, DoctorMolCooldown = [], RecoveryHeartbeatInterval = [], BootSpawnCooldown = [], DeaconGracePeriod = []\<rparr>"

definition zeroDeaconThresholds :: DeaconThresholds where
  "zeroDeaconThresholds = \<lparr>PingTimeout = [], ConsecutiveFailures = None, Cooldown = [], HeartbeatStaleThreshold = [], HeartbeatVeryStaleThreshold = [], MaxRedispatches = None, RedispatchCooldown = [], MaxFeedsPerCycle = None, FeedCooldown = []\<rparr>"

definition zeroPolecatThresholds :: PolecatThresholds where
  "zeroPolecatThresholds = \<lparr>HeartbeatStaleThreshold_polecat = [], DoltMaxRetries = None, DoltBaseBackoff = [], DoltBackoffMax = [], PendingMaxAge = [], NamepoolSize = None\<rparr>"

definition zeroDoltThresholds :: DoltThresholds where
  "zeroDoltThresholds = \<lparr>HealthCheckInterval = [], CmdTimeout = [], MaxConnections = None, SlowQueryThreshold = []\<rparr>"

definition zeroMailThresholds :: MailThresholds where
  "zeroMailThresholds = \<lparr>IdleNotifyTimeout = [], BdReadTimeout = [], BdWriteTimeout = [], MaxConcurrentAckOps = None\<rparr>"

definition zeroWebThresholds :: WebThresholds where
  "zeroWebThresholds = \<lparr>MaxConcurrentCommands = None, MaxSubjectLen = None, MaxBodyLen = None\<rparr>"

definition zeroOperationalConfig :: OperationalConfig where
  "zeroOperationalConfig = \<lparr>Session = None, Nudge = None, Daemon = None, Deacon = None, Polecat = None, Dolt = None, Mail = None, Web = None\<rparr>"

subsection \<open>Loading\<close>

text \<open>
  \<^verbatim>\<open>LoadOrCreateTownSettings\<close> (another file of the package) and \<^verbatim>\<open>filepath.Join\<close> are
  parameters. The result is a pointer: \<open>None\<close> would be nil.
\<close>

definition LoadOperationalConfig ::
  "(string \<Rightarrow> TownSettings option \<times> go_error option) \<Rightarrow> (string list \<Rightarrow> string) \<Rightarrow> string \<Rightarrow>
     OperationalConfig option" where
  "LoadOperationalConfig LoadOrCreateTownSettings Join townRoot =
     (let settingsPath = Join [townRoot, ''settings'', ''config.json'']
      in case LoadOrCreateTownSettings settingsPath of
           (ts, err) \<Rightarrow>
             if err \<noteq> None then Some zeroOperationalConfig
             else (case ts of
                     None \<Rightarrow> Some zeroOperationalConfig
                   | Some t \<Rightarrow>
                      (case Operational t of
                         None \<Rightarrow> Some zeroOperationalConfig
                       | Some c \<Rightarrow> Some c)))"

subsection \<open>Parsing a duration with a default\<close>

text \<open>
  Modelled from the spec: \<^verbatim>\<open>ParseDurationOrDefault\<close> is defined in a file of the package
  that is not among the sources. The specification of the config provider says: a
  duration string parsed with graceful fallback to a compiled default on parse failure
  or non-positive value. \<open>parse\<close> stands for \<^verbatim>\<open>time.ParseDuration\<close>. The accessors below
  do not depend on this definition: they take the helper as a parameter, and this one
  is an instance to run them with.
\<close>

definition ParseDurationOrDefault_spec ::
  "(string \<Rightarrow> go_error + Duration) \<Rightarrow> string \<Rightarrow> Duration \<Rightarrow> Duration" where
  "ParseDurationOrDefault_spec parse s def =
     (case parse s of Inl err \<Rightarrow> def | Inr d \<Rightarrow> if d \<le> 0 then def else d)"

subsection \<open>Accessors\<close>

text \<open>
  A receiver is a pointer to its struct: \<open>None\<close> is the nil receiver. The duration
  accessors call the helper \<^verbatim>\<open>ParseDurationOrDefault\<close>, whose body is in another file: it
  is their first parameter.
\<close>

definition GetSessionConfig :: "OperationalConfig option \<Rightarrow> SessionThresholds option" where
  "GetSessionConfig c =
     (case c of
        None \<Rightarrow> Some zeroSessionThresholds
      | Some c' \<Rightarrow> (case Session c' of None \<Rightarrow> Some zeroSessionThresholds | Some s \<Rightarrow> Some s))"

definition ClaudeStartTimeoutD :: "(string \<Rightarrow> Duration \<Rightarrow> Duration) \<Rightarrow> SessionThresholds option \<Rightarrow> Duration" where
  "ClaudeStartTimeoutD ParseDurationOrDefault s =
     (case s of
        None \<Rightarrow> DefaultClaudeStartTimeout
      | Some t \<Rightarrow> ParseDurationOrDefault (ClaudeStartTimeout t) DefaultClaudeStartTimeout)"

definition ShellReadyTimeoutD :: "(string \<Rightarrow> Duration \<Rightarrow> Duration) \<Rightarrow> SessionThresholds option \<Rightarrow> Duration" where
  "ShellReadyTimeoutD ParseDurationOrDefault s =
     (case s of
        None \<Rightarrow> DefaultShellReadyTimeout
      | Some t \<Rightarrow> ParseDurationOrDefault (ShellReadyTimeout t) DefaultShellReadyTimeout)"

definition GracefulShutdownTimeoutD :: "(string \<Rightarrow> Duration \<Rightarrow> Duration) \<Rightarrow> SessionThresholds option \<Rightarrow> Duration" where
  "GracefulShutdownTimeoutD ParseDurationOrDefault s =
     (case s of
        None \<Rightarrow> DefaultGracefulShutdownTimeout
      | Some t \<Rightarrow> ParseDurationOrDefault (GracefulShutdownTimeout t) DefaultGracefulShutdownTimeout)"

definition BdCommandTimeoutD :: "(string \<Rightarrow> Duration \<Rightarrow> Duration) \<Rightarrow> SessionThresholds option \<Rightarrow> Duration" where
  "BdCommandTimeoutD ParseDurationOrDefault s =
     (case s of
        None \<Rightarrow> DefaultBdCommandTimeout
      | Some t \<Rightarrow> ParseDurationOrDefault (BdCommandTimeout t) DefaultBdCommandTimeout)"

definition BdSubprocessTimeoutD :: "(string \<Rightarrow> Duration \<Rightarrow> Duration) \<Rightarrow> SessionThresholds option \<Rightarrow> Duration" where
  "BdSubprocessTimeoutD ParseDurationOrDefault s =
     (case s of
        None \<Rightarrow> DefaultBdSubprocessTimeout
      | Some t \<Rightarrow> ParseDurationOrDefault (BdSubprocessTimeout t) DefaultBdSubprocessTimeout)"

definition GUPPViolationTimeoutD :: "(string \<Rightarrow> Duration \<Rightarrow> Duration) \<Rightarrow> SessionThresholds option \<Rightarrow> Duration" where
  "GUPPViolationTimeoutD ParseDurationOrDefault s =
     (case s of
        None \<Rightarrow> DefaultGUPPViolationTimeout
      | Some t \<Rightarrow> ParseDurationOrDefault (GUPPViolationTimeout t) DefaultGUPPViolationTimeout)"

definition HungSessionThresholdD :: "(string \<Rightarrow> Duration \<Rightarrow> Duration) \<Rightarrow> SessionThresholds option \<Rightarrow> Duration" where
  "HungSessionThresholdD ParseDurationOrDefault s =
     (case s of
        None \<Rightarrow> DefaultHungSessionThreshold
      | Some t \<Rightarrow> ParseDurationOrDefault (HungSessionThreshold t) DefaultHungSessionThreshold)"

definition StartupNudgeVerifyDelayD :: "(string \<Rightarrow> Duration \<Rightarrow> Duration) \<Rightarrow> SessionThresholds option \<Rightarrow> Duration" where
  "StartupNudgeVerifyDelayD ParseDurationOrDefault s =
     (case s of
        None \<Rightarrow> DefaultStartupNudgeVerifyDelay
      | Some t \<Rightarrow> ParseDurationOrDefault (StartupNudgeVerifyDelay t) DefaultStartupNudgeVerifyDelay)"

definition StartupNudgeMaxRetriesV :: "SessionThresholds option \<Rightarrow> int" where
  "StartupNudgeMaxRetriesV s =
     (case s of
        None \<Rightarrow> DefaultStartupNudgeMaxRetries
      | Some t \<Rightarrow> (case StartupNudgeMaxRetries t of None \<Rightarrow> DefaultStartupNudgeMaxRetries | Some v \<Rightarrow> v))"

definition GetNudgeConfig :: "OperationalConfig option \<Rightarrow> NudgeThresholds option" where
  "GetNudgeConfig c =
     (case c of
        None \<Rightarrow> Some zeroNudgeThresholds
      | Some c' \<Rightarrow> (case Nudge c' of None \<Rightarrow> Some zeroNudgeThresholds | Some s \<Rightarrow> Some s))"

definition ReadyTimeoutD :: "(string \<Rightarrow> Duration \<Rightarrow> Duration) \<Rightarrow> NudgeThresholds option \<Rightarrow> Duration" where
  "ReadyTimeoutD ParseDurationOrDefault s =
     (case s of
        None \<Rightarrow> DefaultNudgeReadyTimeout
      | Some t \<Rightarrow> ParseDurationOrDefault (ReadyTimeout t) DefaultNudgeReadyTimeout)"

definition RetryIntervalD :: "(string \<Rightarrow> Duration \<Rightarrow> Duration) \<Rightarrow> NudgeThresholds option \<Rightarrow> Duration" where
  "RetryIntervalD ParseDurationOrDefault s =
     (case s of
        None \<Rightarrow> DefaultNudgeRetryInterval
      | Some t \<Rightarrow> ParseDurationOrDefault (RetryInterval t) DefaultNudgeRetryInterval)"

definition LockTimeoutD :: "(string \<Rightarrow> Duration \<Rightarrow> Duration) \<Rightarrow> NudgeThresholds option \<Rightarrow> Duration" where
  "LockTimeoutD ParseDurationOrDefault s =
     (case s of
        None \<Rightarrow> DefaultNudgeLockTimeout
      | Some t \<Rightarrow> ParseDurationOrDefault (LockTimeout t) DefaultNudgeLockTimeout)"

definition NormalTTLD :: "(string \<Rightarrow> Duration \<Rightarrow> Duration) \<Rightarrow> NudgeThresholds option \<Rightarrow> Duration" where
  "NormalTTLD ParseDurationOrDefault s =
     (case s of
        None \<Rightarrow> DefaultNudgeNormalTTL
      | Some t \<Rightarrow> ParseDurationOrDefault (NormalTTL t) DefaultNudgeNormalTTL)"

definition UrgentTTLD :: "(string \<Rightarrow> Duration \<Rightarrow> Duration) \<Rightarrow> NudgeThresholds option \<Rightarrow> Duration" where
  "UrgentTTLD ParseDurationOrDefault s =
     (case s of
        None \<Rightarrow> DefaultNudgeUrgentTTL
      | Some t \<Rightarrow> ParseDurationOrDefault (UrgentTTL t) DefaultNudgeUrgentTTL)"

definition MaxQueueDepthV :: "NudgeThresholds option \<Rightarrow> int" where
  "MaxQueueDepthV s =
     (case s of
        None \<Rightarrow> DefaultNudgeMaxQueueDepth
      | Some t \<Rightarrow> (case MaxQueueDepth t of None \<Rightarrow> DefaultNudgeMaxQueueDepth | Some v \<Rightarrow> v))"

definition StaleClaimThresholdD :: "(string \<Rightarrow> Duration \<Rightarrow> Duration) \<Rightarrow> NudgeThresholds option \<Rightarrow> Duration" where
  "StaleClaimThresholdD ParseDurationOrDefault s =
     (case s of
        None \<Rightarrow> DefaultNudgeStaleClaimTimeout
      | Some t \<Rightarrow> ParseDurationOrDefault (StaleClaimThreshold t) DefaultNudgeStaleClaimTimeout)"

definition GetDaemonConfig :: "OperationalConfig option \<Rightarrow> DaemonThresholds option" where
  "GetDaemonConfig c =
     (case c of
        None \<Rightarrow> Some zeroDaemonThresholds
      | Some c' \<Rightarrow> (case Daemon c' of None \<Rightarrow> Some zeroDaemonThresholds | Some s \<Rightarrow> Some s))"

definition MassDeathWindowD :: "(string \<Rightarrow> Duration \<Rightarrow> Duration) \<Rightarrow> DaemonThresholds option \<Rightarrow> Duration" where
  "MassDeathWindowD ParseDurationOrDefault s =
     (case s of
        None \<Rightarrow> DefaultMassDeathWindow
      | Some t \<Rightarrow> ParseDurationOrDefault (MassDeathWindow t) DefaultMassDeathWindow)"

definition MassDeathThresholdV :: "DaemonThresholds option \<Rightarrow> int" where
  "MassDeathThresholdV s =
     (case s of
        None \<Rightarrow> DefaultMassDeathThreshold
      | Some t \<Rightarrow> (case MassDeathThreshold t of None \<Rightarrow> DefaultMassDeathThreshold | Some v \<Rightarrow> v))"

definition DogIdleSessionTimeoutD :: "(string \<Rightarrow> Duration \<Rightarrow> Duration) \<Rightarrow> DaemonThresholds option \<Rightarrow> Duration" where
  "DogIdleSessionTimeoutD ParseDurationOrDefault s =
     (case s of
        None \<Rightarrow> DefaultDogIdleSessionTimeout
      | Some t \<Rightarrow> ParseDurationOrDefault (DogIdleSessionTimeout t) DefaultDogIdleSessionTimeout)"

definition DogIdleRemoveTimeoutD :: "(string \<Rightarrow> Duration \<Rightarrow> Duration) \<Rightarrow> DaemonThresholds option \<Rightarrow> Duration" where
  "DogIdleRemoveTimeoutD ParseDurationOrDefault s =
     (case s of
        None \<Rightarrow> DefaultDogIdleRemoveTimeout
      | Some t \<Rightarrow> ParseDurationOrDefault (DogIdleRemoveTimeout t) DefaultDogIdleRemoveTimeout)"

definition StaleWorkingTimeoutD :: "(string \<Rightarrow> Duration \<Rightarrow> Duration) \<Rightarrow> DaemonThresholds option \<Rightarrow> Duration" where
  "StaleWorkingTimeoutD ParseDurationOrDefault s =
     (case s of
        None \<Rightarrow> DefaultStaleWorkingTimeout
      | Some t \<Rightarrow> ParseDurationOrDefault (StaleWorkingTimeout t) DefaultStaleWorkingTimeout)"

definition MaxDogPoolSizeV :: "DaemonThresholds option \<Rightarrow> int" where
  "MaxDogPoolSizeV s =
     (case s of
        None \<Rightarrow> DefaultMaxDogPoolSize
      | Some t \<Rightarrow> (case MaxDogPoolSize t of None \<Rightarrow> DefaultMaxDogPoolSize | Some v \<Rightarrow> v))"

definition MaxLifecycleMessageAgeD :: "(string \<Rightarrow> Duration \<Rightarrow> Duration) \<Rightarrow> DaemonThresholds option \<Rightarrow> Duration" where
  "MaxLifecycleMessageAgeD ParseDurationOrDefault s =
     (case s of
        None \<Rightarrow> DefaultMaxLifecycleMessageAge
      | Some t \<Rightarrow> ParseDurationOrDefault (MaxLifecycleMessageAge t) DefaultMaxLifecycleMessageAge)"

definition SyncFailureEscalationThresholdV :: "DaemonThresholds option \<Rightarrow> int" where
  "SyncFailureEscalationThresholdV s =
     (case s of
        None \<Rightarrow> DefaultSyncFailureEscalationThreshold
      | Some t \<Rightarrow> (case SyncFailureEscalationThreshold t of None \<Rightarrow> DefaultSyncFailureEscalationThreshold | Some v \<Rightarrow> v))"

definition DoctorMolCooldownD :: "(string \<Rightarrow> Duration \<Rightarrow> Duration) \<Rightarrow> DaemonThresholds option \<Rightarrow> Duration" where
  "DoctorMolCooldownD ParseDurationOrDefault s =
     (case s of
        None \<Rightarrow> DefaultDoctorMolCooldown
      | Some t \<Rightarrow> ParseDurationOrDefault (DoctorMolCooldown t) DefaultDoctorMolCooldown)"

definition RecoveryHeartbeatIntervalD :: "(string \<Rightarrow> Duration \<Rightarrow> Duration) \<Rightarrow> DaemonThresholds option \<Rightarrow> Duration" where
  "RecoveryHeartbeatIntervalD ParseDurationOrDefault s =
     (case s of
        None \<Rightarrow> DefaultRecoveryHeartbeatInterval
      | Some t \<Rightarrow> ParseDurationOrDefault (RecoveryHeartbeatInterval t) DefaultRecoveryHeartbeatInterval)"

definition BootSpawnCooldownD :: "(string \<Rightarrow> Duration \<Rightarrow> Duration) \<Rightarrow> DaemonThresholds option \<Rightarrow> Duration" where
  "BootSpawnCooldownD ParseDurationOrDefault s =
     (case s of
        None \<Rightarrow> DefaultBootSpawnCooldown
      | Some t \<Rightarrow> ParseDurationOrDefault (BootSpawnCooldown t) DefaultBootSpawnCooldown)"

definition DeaconGracePeriodD :: "(string \<Rightarrow> Duration \<Rightarrow> Duration) \<Rightarrow> DaemonThresholds option \<Rightarrow> Duration" where
  "DeaconGracePeriodD ParseDurationOrDefault s =
     (case s of
        None \<Rightarrow> DefaultDeaconGracePeriod
      | Some t \<Rightarrow> ParseDurationOrDefault (DeaconGracePeriod t) DefaultDeaconGracePeriod)"

definition GetDeaconConfig :: "OperationalConfig option \<Rightarrow> DeaconThresholds option" where
  "GetDeaconConfig c =
     (case c of
        None \<Rightarrow> Some zeroDeaconThresholds
      | Some c' \<Rightarrow> (case Deacon c' of None \<Rightarrow> Some zeroDeaconThresholds | Some s \<Rightarrow> Some s))"

definition PingTimeoutD :: "(string \<Rightarrow> Duration \<Rightarrow> Duration) \<Rightarrow> DeaconThresholds option \<Rightarrow> Duration" where
  "PingTimeoutD ParseDurationOrDefault s =
     (case s of
        None \<Rightarrow> DefaultDeaconPingTimeout
      | Some t \<Rightarrow> ParseDurationOrDefault (PingTimeout t) DefaultDeaconPingTimeout)"

definition ConsecutiveFailuresV :: "DeaconThresholds option \<Rightarrow> int" where
  "ConsecutiveFailuresV s =
     (case s of
        None \<Rightarrow> DefaultDeaconConsecutiveFailures
      | Some t \<Rightarrow> (case ConsecutiveFailures t of None \<Rightarrow> DefaultDeaconConsecutiveFailures | Some v \<Rightarrow> v))"

definition CooldownD :: "(string \<Rightarrow> Duration \<Rightarrow> Duration) \<Rightarrow> DeaconThresholds option \<Rightarrow> Duration" where
  "CooldownD ParseDurationOrDefault s =
     (case s of
        None \<Rightarrow> DefaultDeaconCooldown
      | Some t \<Rightarrow> ParseDurationOrDefault (Cooldown t) DefaultDeaconCooldown)"

definition HeartbeatStaleThresholdD :: "(string \<Rightarrow> Duration \<Rightarrow> Duration) \<Rightarrow> DeaconThresholds option \<Rightarrow> Duration" where
  "HeartbeatStaleThresholdD ParseDurationOrDefault s =
     (case s of
        None \<Rightarrow> DefaultDeaconHeartbeatStaleThreshold
      | Some t \<Rightarrow> ParseDurationOrDefault (HeartbeatStaleThreshold t) DefaultDeaconHeartbeatStaleThreshold)"

definition HeartbeatVeryStaleThresholdD :: "(string \<Rightarrow> Duration \<Rightarrow> Duration) \<Rightarrow> DeaconThresholds option \<Rightarrow> Duration" where
  "HeartbeatVeryStaleThresholdD ParseDurationOrDefault s =
     (case s of
        None \<Rightarrow> DefaultDeaconHeartbeatVeryStale
      | Some t \<Rightarrow> ParseDurationOrDefault (HeartbeatVeryStaleThreshold t) DefaultDeaconHeartbeatVeryStale)"

definition MaxRedispatchesV :: "DeaconThresholds option \<Rightarrow> int" where
  "MaxRedispatchesV s =
     (case s of
        None \<Rightarrow> DefaultMaxRedispatches
      | Some t \<Rightarrow> (case MaxRedispatches t of None \<Rightarrow> DefaultMaxRedispatches | Some v \<Rightarrow> v))"

definition RedispatchCooldownD :: "(string \<Rightarrow> Duration \<Rightarrow> Duration) \<Rightarrow> DeaconThresholds option \<Rightarrow> Duration" where
  "RedispatchCooldownD ParseDurationOrDefault s =
     (case s of
        None \<Rightarrow> DefaultRedispatchCooldown
      | Some t \<Rightarrow> ParseDurationOrDefault (RedispatchCooldown t) DefaultRedispatchCooldown)"

definition MaxFeedsPerCycleV :: "DeaconThresholds option \<Rightarrow> int" where
  "MaxFeedsPerCycleV s =
     (case s of
        None \<Rightarrow> DefaultMaxFeedsPerCycle
      | Some t \<Rightarrow> (case MaxFeedsPerCycle t of None \<Rightarrow> DefaultMaxFeedsPerCycle | Some v \<Rightarrow> v))"

definition FeedCooldownD :: "(string \<Rightarrow> Duration \<Rightarrow> Duration) \<Rightarrow> DeaconThresholds option \<Rightarrow> Duration" where
  "FeedCooldownD ParseDurationOrDefault s =
     (case s of
        None \<Rightarrow> DefaultFeedCooldown
      | Some t \<Rightarrow> ParseDurationOrDefault (FeedCooldown t) DefaultFeedCooldown)"

definition GetPolecatConfig :: "OperationalConfig option \<Rightarrow> PolecatThresholds option" where
  "GetPolecatConfig c =
     (case c of
        None \<Rightarrow> Some zeroPolecatThresholds
      | Some c' \<Rightarrow> (case Polecat c' of None \<Rightarrow> Some zeroPolecatThresholds | Some s \<Rightarrow> Some s))"

definition HeartbeatStaleThresholdD_polecat :: "(string \<Rightarrow> Duration \<Rightarrow> Duration) \<Rightarrow> PolecatThresholds option \<Rightarrow> Duration" where
  "HeartbeatStaleThresholdD_polecat ParseDurationOrDefault s =
     (case s of
        None \<Rightarrow> DefaultPolecatHeartbeatStale
      | Some t \<Rightarrow> ParseDurationOrDefault (HeartbeatStaleThreshold_polecat t) DefaultPolecatHeartbeatStale)"

definition DoltMaxRetriesV :: "PolecatThresholds option \<Rightarrow> int" where
  "DoltMaxRetriesV s =
     (case s of
        None \<Rightarrow> DefaultPolecatDoltMaxRetries
      | Some t \<Rightarrow> (case DoltMaxRetries t of None \<Rightarrow> DefaultPolecatDoltMaxRetries | Some v \<Rightarrow> v))"

definition DoltBaseBackoffD :: "(string \<Rightarrow> Duration \<Rightarrow> Duration) \<Rightarrow> PolecatThresholds option \<Rightarrow> Duration" where
  "DoltBaseBackoffD ParseDurationOrDefault s =
     (case s of
        None \<Rightarrow> DefaultPolecatDoltBaseBackoff
      | Some t \<Rightarrow> ParseDurationOrDefault (DoltBaseBackoff t) DefaultPolecatDoltBaseBackoff)"

definition DoltBackoffMaxD :: "(string \<Rightarrow> Duration \<Rightarrow> Duration) \<Rightarrow> PolecatThresholds option \<Rightarrow> Duration" where
  "DoltBackoffMaxD ParseDurationOrDefault s =
     (case s of
        None \<Rightarrow> DefaultPolecatDoltBackoffMax
      | Some t \<Rightarrow> ParseDurationOrDefault (DoltBackoffMax t) DefaultPolecatDoltBackoffMax)"

definition PendingMaxAgeD :: "(string \<Rightarrow> Duration \<Rightarrow> Duration) \<Rightarrow> PolecatThresholds option \<Rightarrow> Duration" where
  "PendingMaxAgeD ParseDurationOrDefault s =
     (case s of
        None \<Rightarrow> DefaultPolecatPendingMaxAge
      | Some t \<Rightarrow> ParseDurationOrDefault (PendingMaxAge t) DefaultPolecatPendingMaxAge)"

definition NamepoolSizeV :: "PolecatThresholds option \<Rightarrow> int" where
  "NamepoolSizeV s =
     (case s of
        None \<Rightarrow> DefaultPolecatNamepoolSize
      | Some t \<Rightarrow> (case NamepoolSize t of None \<Rightarrow> DefaultPolecatNamepoolSize | Some v \<Rightarrow> v))"

definition GetDoltConfig :: "OperationalConfig option \<Rightarrow> DoltThresholds option" where
  "GetDoltConfig c =
     (case c of
        None \<Rightarrow> Some zeroDoltThresholds
      | Some c' \<Rightarrow> (case Dolt c' of None \<Rightarrow> Some zeroDoltThresholds | Some s \<Rightarrow> Some s))"

definition HealthCheckIntervalD :: "(string \<Rightarrow> Duration \<Rightarrow> Duration) \<Rightarrow> DoltThresholds option \<Rightarrow> Duration" where
  "HealthCheckIntervalD ParseDurationOrDefault s =
     (case s of
        None \<Rightarrow> DefaultDoltHealthCheckInterval
      | Some t \<Rightarrow> ParseDurationOrDefault (HealthCheckInterval t) DefaultDoltHealthCheckInterval)"

definition CmdTimeoutD :: "(string \<Rightarrow> Duration \<Rightarrow> Duration) \<Rightarrow> DoltThresholds option \<Rightarrow> Duration" where
  "CmdTimeoutD ParseDurationOrDefault s =
     (case s of
        None \<Rightarrow> DefaultDoltCmdTimeout
      | Some t \<Rightarrow> ParseDurationOrDefault (CmdTimeout t) DefaultDoltCmdTimeout)"

definition MaxConnectionsV :: "DoltThresholds option \<Rightarrow> int" where
  "MaxConnectionsV s =
     (case s of
        None \<Rightarrow> DefaultDoltMaxConnections
      | Some t \<Rightarrow> (case MaxConnections t of None \<Rightarrow> DefaultDoltMaxConnections | Some v \<Rightarrow> v))"

definition SlowQueryThresholdD :: "(string \<Rightarrow> Duration \<Rightarrow> Duration) \<Rightarrow> DoltThresholds option \<Rightarrow> Duration" where
  "SlowQueryThresholdD ParseDurationOrDefault s =
     (case s of
        None \<Rightarrow> DefaultDoltSlowQueryThreshold
      | Some t \<Rightarrow> ParseDurationOrDefault (SlowQueryThreshold t) DefaultDoltSlowQueryThreshold)"

definition GetMailConfig :: "OperationalConfig option \<Rightarrow> MailThresholds option" where
  "GetMailConfig c =
     (case c of
        None \<Rightarrow> Some zeroMailThresholds
      | Some c' \<Rightarrow> (case Mail c' of None \<Rightarrow> Some zeroMailThresholds | Some s \<Rightarrow> Some s))"

definition IdleNotifyTimeoutD :: "(string \<Rightarrow> Duration \<Rightarrow> Duration) \<Rightarrow> MailThresholds option \<Rightarrow> Duration" where
  "IdleNotifyTimeoutD ParseDurationOrDefault s =
     (case s of
        None \<Rightarrow> DefaultMailIdleNotifyTimeout
      | Some t \<Rightarrow> ParseDurationOrDefault (IdleNotifyTimeout t) DefaultMailIdleNotifyTimeout)"

definition BdReadTimeoutD :: "(string \<Rightarrow> Duration \<Rightarrow> Duration) \<Rightarrow> MailThresholds option \<Rightarrow> Duration" where
  "BdReadTimeoutD ParseDurationOrDefault s =
     (case s of
        None \<Rightarrow> DefaultMailBdReadTimeout
      | Some t \<Rightarrow> ParseDurationOrDefault (BdReadTimeout t) DefaultMailBdReadTimeout)"

definition BdWriteTimeoutD :: "(string \<Rightarrow> Duration \<Rightarrow> Duration) \<Rightarrow> MailThresholds option \<Rightarrow> Duration" where
  "BdWriteTimeoutD ParseDurationOrDefault s =
     (case s of
        None \<Rightarrow> DefaultMailBdWriteTimeout
      | Some t \<Rightarrow> ParseDurationOrDefault (BdWriteTimeout t) DefaultMailBdWriteTimeout)"

definition MaxConcurrentAckOpsV :: "MailThresholds option \<Rightarrow> int" where
  "MaxConcurrentAckOpsV s =
     (case s of
        None \<Rightarrow> DefaultMailMaxConcurrentAcks
      | Some t \<Rightarrow> (case MaxConcurrentAckOps t of None \<Rightarrow> DefaultMailMaxConcurrentAcks | Some v \<Rightarrow> v))"

definition GetWebConfig :: "OperationalConfig option \<Rightarrow> WebThresholds option" where
  "GetWebConfig c =
     (case c of
        None \<Rightarrow> Some zeroWebThresholds
      | Some c' \<Rightarrow> (case Web c' of None \<Rightarrow> Some zeroWebThresholds | Some s \<Rightarrow> Some s))"

definition MaxConcurrentCommandsV :: "WebThresholds option \<Rightarrow> int" where
  "MaxConcurrentCommandsV s =
     (case s of
        None \<Rightarrow> DefaultWebMaxConcurrentCmds
      | Some t \<Rightarrow> (case MaxConcurrentCommands t of None \<Rightarrow> DefaultWebMaxConcurrentCmds | Some v \<Rightarrow> v))"

definition MaxSubjectLenV :: "WebThresholds option \<Rightarrow> int" where
  "MaxSubjectLenV s =
     (case s of
        None \<Rightarrow> DefaultWebMaxSubjectLen
      | Some t \<Rightarrow> (case MaxSubjectLen t of None \<Rightarrow> DefaultWebMaxSubjectLen | Some v \<Rightarrow> v))"

definition MaxBodyLenV :: "WebThresholds option \<Rightarrow> int" where
  "MaxBodyLenV s =
     (case s of
        None \<Rightarrow> DefaultWebMaxBodyLen
      | Some t \<Rightarrow> (case MaxBodyLen t of None \<Rightarrow> DefaultWebMaxBodyLen | Some v \<Rightarrow> v))"

text \<open>A settings loader for running the accessors: one town has a configuration.\<close>

definition sampleLoad :: "string \<Rightarrow> TownSettings option \<times> go_error option" where
  "sampleLoad path =
     (if path = ''/town/settings/config.json''
      then (Some \<lparr>Operational = Some (zeroOperationalConfig
              \<lparr>Session := Some (zeroSessionThresholds
                 \<lparr>GUPPViolationTimeout := ''1h'', StartupNudgeMaxRetries := Some 7\<rparr>)\<rparr>)\<rparr>, None)
      else if path = ''/bare/settings/config.json'' then (Some \<lparr>Operational = None\<rparr>, None)
      else (None, Some ''open: no such file or directory''))"

definition sampleJoin :: "string list \<Rightarrow> string" where
  "sampleJoin parts = foldr (\<lambda>p acc. if acc = [] then p else p @ ''/'' @ acc) parts []"

section \<open>Unfolding the definitions on concrete inputs\<close>

lemmas sample_defs = sampleEnv_def sampleTables_def sampleDaemon_def freshOpen_def

lemmas reaper_defs = reapWisps_def reapDatabases_def reapWispsInDB_def closeQuery_def
  rowsAffected_def countQuery_def whereStale_def statusInOpenSet_def wispAlertThreshold_def
  wispReaperMaxAge_def wispReaperInterval_def defaultWispMaxAge_def defaultWispReaperInterval_def
  discoverDoltDatabases_def Hour_def Minute_def Second_def Millisecond_def Let_def

section \<open>Properties of the reaper's durations\<close>

subsection \<open>Claim C6: fallback to the compiled-in defaults\<close>

text \<open>
  C6. Both accessors return a positive duration for every parser and configuration.
  They return the default, 30 minutes and 24 hours, when a pointer of the configuration
  chain is nil, when the string is empty, when it does not parse, and when it parses to
  zero or less; a string that parses to a positive duration yields that duration.
\<close>

theorem reaper_durations_fall_back_to_defaults:
  "0 < wispReaperInterval parse config \<and> 0 < wispReaperMaxAge parse config \<and>
   (config = None \<or> (\<exists>c. config = Some c \<and> (Patrols c = None \<or>
        (\<exists>p. Patrols c = Some p \<and> WispReaper p = None)))
      \<longrightarrow> wispReaperInterval parse config = 30 * Minute \<and>
          wispReaperMaxAge parse config = 24 * Hour) \<and>
   (config = Some c \<and> Patrols c = Some p \<and> WispReaper p = Some w \<longrightarrow>
      (IntervalStr w = [] \<or> (\<exists>err. parse (IntervalStr w) = Inl err) \<or>
         (\<exists>d. parse (IntervalStr w) = Inr d \<and> d \<le> 0)
        \<longrightarrow> wispReaperInterval parse config = 30 * Minute) \<and>
      (MaxAgeStr w = [] \<or> (\<exists>err. parse (MaxAgeStr w) = Inl err) \<or>
         (\<exists>d. parse (MaxAgeStr w) = Inr d \<and> d \<le> 0)
        \<longrightarrow> wispReaperMaxAge parse config = 24 * Hour) \<and>
      (\<forall>d. IntervalStr w \<noteq> [] \<and> parse (IntervalStr w) = Inr d \<and> 0 < d
        \<longrightarrow> wispReaperInterval parse config = d) \<and>
      (\<forall>d. MaxAgeStr w \<noteq> [] \<and> parse (MaxAgeStr w) = Inr d \<and> 0 < d
        \<longrightarrow> wispReaperMaxAge parse config = d))"
  unfolding wispReaperInterval_def wispReaperMaxAge_def defaultWispReaperInterval_def defaultWispMaxAge_def
  by (auto simp add: Hour_def Minute_def Second_def Millisecond_def split: option.split sum.split)

theorem reaper_durations_fall_back_to_defaults_witness:
  "wispReaperInterval (ParseDuration sampleEnv) None = 30 * Minute \<and>
   wispReaperMaxAge (ParseDuration sampleEnv) None = 24 * Hour \<and>
   wispReaperInterval (ParseDuration sampleEnv) (patrolConfig (sampleDaemon [])) = 30 * Minute \<and>
   wispReaperMaxAge (ParseDuration sampleEnv) (patrolConfig (sampleDaemon [])) = 24 * Hour \<and>
   wispReaperInterval (ParseDuration sampleEnv)
     (Some \<lparr>Patrols = Some \<lparr>WispReaper = Some
        \<lparr>Enabled = True, IntervalStr = ''0s'', MaxAgeStr = ''-5m'', Databases = []\<rparr>\<rparr>\<rparr>) = 30 * Minute \<and>
   wispReaperMaxAge (ParseDuration sampleEnv)
     (Some \<lparr>Patrols = Some \<lparr>WispReaper = Some
        \<lparr>Enabled = True, IntervalStr = ''0s'', MaxAgeStr = ''-5m'', Databases = []\<rparr>\<rparr>\<rparr>) = 24 * Hour \<and>
   wispReaperInterval (ParseDuration sampleEnv)
     (Some \<lparr>Patrols = Some \<lparr>WispReaper = Some
        \<lparr>Enabled = True, IntervalStr = ''1h'', MaxAgeStr = ''1h'', Databases = []\<rparr>\<rparr>\<rparr>) = Hour"
  using
    reaper_durations_fall_back_to_defaults [of "ParseDuration sampleEnv" None]
    reaper_durations_fall_back_to_defaults [of "ParseDuration sampleEnv"
      "patrolConfig (sampleDaemon [])"
      "\<lparr>Patrols = Some \<lparr>WispReaper = Some
        \<lparr>Enabled = True, IntervalStr = ''soon'', MaxAgeStr = [], Databases = []\<rparr>\<rparr>\<rparr>"
      "\<lparr>WispReaper = Some
        \<lparr>Enabled = True, IntervalStr = ''soon'', MaxAgeStr = [], Databases = []\<rparr>\<rparr>"
      "\<lparr>Enabled = True, IntervalStr = ''soon'', MaxAgeStr = [], Databases = []\<rparr>"]
    reaper_durations_fall_back_to_defaults [of "ParseDuration sampleEnv"
      "Some \<lparr>Patrols = Some \<lparr>WispReaper = Some
        \<lparr>Enabled = True, IntervalStr = ''0s'', MaxAgeStr = ''-5m'', Databases = []\<rparr>\<rparr>\<rparr>"
      "\<lparr>Patrols = Some \<lparr>WispReaper = Some
        \<lparr>Enabled = True, IntervalStr = ''0s'', MaxAgeStr = ''-5m'', Databases = []\<rparr>\<rparr>\<rparr>"
      "\<lparr>WispReaper = Some
        \<lparr>Enabled = True, IntervalStr = ''0s'', MaxAgeStr = ''-5m'', Databases = []\<rparr>\<rparr>"
      "\<lparr>Enabled = True, IntervalStr = ''0s'', MaxAgeStr = ''-5m'', Databases = []\<rparr>"]
    reaper_durations_fall_back_to_defaults [of "ParseDuration sampleEnv"
      "Some \<lparr>Patrols = Some \<lparr>WispReaper = Some
        \<lparr>Enabled = True, IntervalStr = ''1h'', MaxAgeStr = ''1h'', Databases = []\<rparr>\<rparr>\<rparr>"
      "\<lparr>Patrols = Some \<lparr>WispReaper = Some
        \<lparr>Enabled = True, IntervalStr = ''1h'', MaxAgeStr = ''1h'', Databases = []\<rparr>\<rparr>\<rparr>"
      "\<lparr>WispReaper = Some
        \<lparr>Enabled = True, IntervalStr = ''1h'', MaxAgeStr = ''1h'', Databases = []\<rparr>\<rparr>"
      "\<lparr>Enabled = True, IntervalStr = ''1h'', MaxAgeStr = ''1h'', Databases = []\<rparr>"]
  by (simp add: sampleEnv_def sampleDaemon_def Hour_def Minute_def Second_def Millisecond_def)


section \<open>Properties of the liveness probe\<close>

subsection \<open>Claim C4: a failed query is not a death\<close>

text \<open>
  C4. For every multiplexer, socket and session: when the \<^verbatim>\<open>list-panes\<close> query returns an
  error, whatever its output, \<^verbatim>\<open>isPaneDead\<close> is false. The probe is true only when the
  query succeeded and its trimmed output is \<^verbatim>\<open>1\<close>.
\<close>

theorem probe_error_is_not_death:
  "(\<forall>out err. run [''tmux'', ''-L'', socket, ''list-panes'', ''-t'', session, ''-F'', ''#{pane_dead}'']
        = (out, Some err) \<longrightarrow> isPaneDead run TrimSpace socket session = False) \<and>
   (isPaneDead run TrimSpace socket session \<longrightarrow>
      (\<exists>out. run [''tmux'', ''-L'', socket, ''list-panes'', ''-t'', session, ''-F'', ''#{pane_dead}'']
         = (out, None) \<and> TrimSpace out = ''1''))"
  by (auto simp add: isPaneDead_def split: prod.splits option.splits)

theorem probe_error_is_not_death_witness:
  "sampleTmux [''tmux'', ''-L'', ''gt'', ''list-panes'', ''-t'', ''gone'', ''-F'', ''#{pane_dead}'']
     = (''no server running'', Some ''exit status 1'') \<and>
   isPaneDead sampleTmux sampleTrimSpace ''gt'' ''gone'' = False \<and>
   isPaneDead sampleTmux sampleTrimSpace ''other'' ''hq-deacon'' = False \<and>
   isPaneDead sampleTmux sampleTrimSpace ''gt'' ''hq-deacon''"
  using probe_error_is_not_death [of sampleTmux "''gt''" "''gone''" sampleTrimSpace]
    probe_error_is_not_death [of sampleTmux "''other''" "''hq-deacon''" sampleTrimSpace]
  by (simp add: sampleTmux_def isPaneDead_def sampleTrimSpace_def asciiSpace_def)

section \<open>Properties of the hook command\<close>

lemma hook_shape:
  \<open>buildAutoRespawnHookCmd tmuxCmd session =
     ''run-shell -b "sleep 3 && '' @ tmuxCmd @ '' list-panes -t '' @ [CHR 0x27] @ session @
       ''' -F '#{pane_dead}' 2>/dev/null | grep -q 1 && '' @
       tmuxCmd @ '' respawn-pane -k -t '' @ [CHR 0x27] @ session @ ''' 2>/dev/null || true"''\<close>
  by (simp add: buildAutoRespawnHookCmd_def livenessRecheck_def respawnSubCommand_def)

subsection \<open>Claim C1: the format of the hook command\<close>

text \<open>
  C1. For every prefix and session name the hook command starts with \<^verbatim>\<open>run-shell -b\<close>,
  contains the grace sleep and the \<^verbatim>\<open>pane_dead\<close> recheck, and ends with \<^verbatim>\<open>|| true\<close> before
  the closing quote. It contains the respawn sub-command, which starts with the prefix
  exactly as given. So for a prefix \<^verbatim>\<open>tmux\<close> followed by any qualifier, the respawn
  invocation after the \<^verbatim>\<open>&&\<close> is \<^verbatim>\<open>tmux\<close>, that qualifier, and the verb: the qualifier is
  there when the prefix has one, and nothing stands in its place when the prefix is bare.
\<close>

theorem hook_command_format:
  \<open>sublist ''run-shell -b'' (buildAutoRespawnHookCmd tmuxCmd session) \<and>
   prefix ''run-shell -b '' (buildAutoRespawnHookCmd tmuxCmd session) \<and>
   sublist ''sleep 3'' (buildAutoRespawnHookCmd tmuxCmd session) \<and>
   sublist ''pane_dead'' (buildAutoRespawnHookCmd tmuxCmd session) \<and>
   sublist ''|| true'' (buildAutoRespawnHookCmd tmuxCmd session) \<and>
   suffix ''|| true"'' (buildAutoRespawnHookCmd tmuxCmd session) \<and>
   sublist (respawnSubCommand tmuxCmd session) (buildAutoRespawnHookCmd tmuxCmd session) \<and>
   prefix (tmuxCmd @ '' respawn-pane -k'') (respawnSubCommand tmuxCmd session) \<and>
   (\<forall>qualifier.
      sublist (''&& tmux'' @ qualifier @ '' respawn-pane -k'')
        (buildAutoRespawnHookCmd (''tmux'' @ qualifier) session))\<close>
proof (intro conjI allI)
  let ?H = "buildAutoRespawnHookCmd tmuxCmd session"
  show "prefix ''run-shell -b '' ?H"
    by (simp add: hook_shape prefix_def)
  then show "sublist ''run-shell -b'' ?H"
    by (auto simp add: prefix_def sublist_def intro: exI [of _ "[]"])
  show \<open>suffix ''|| true"'' ?H\<close>
    unfolding suffix_def hook_shape
    by (rule exI [of _ \<open>''run-shell -b "sleep 3 && '' @ tmuxCmd @ '' list-panes -t '' @ [CHR 0x27] @ session @
       ''' -F '#{pane_dead}' 2>/dev/null | grep -q 1 && '' @
       tmuxCmd @ '' respawn-pane -k -t '' @ [CHR 0x27] @ session @ ''' 2>/dev/null ''\<close>]) simp
  then show "sublist ''|| true'' ?H"
    by (auto simp add: suffix_def sublist_def)
  show "sublist ''sleep 3'' ?H"
    unfolding sublist_def hook_shape
    by (rule exI [of _ \<open>''run-shell -b "''\<close>]) simp
  show "sublist ''pane_dead'' ?H"
    unfolding sublist_def hook_shape
    by (rule exI [of _ \<open>''run-shell -b "sleep 3 && '' @ tmuxCmd @ '' list-panes -t '' @ [CHR 0x27] @ session @ ''' -F '#{''\<close>]) simp
  show "sublist (respawnSubCommand tmuxCmd session) ?H"
    unfolding sublist_def buildAutoRespawnHookCmd_def
    by (rule exI [of _ \<open>''run-shell -b "sleep 3 && '' @ livenessRecheck tmuxCmd session @ '' && ''\<close>]) simp
  show "prefix (tmuxCmd @ '' respawn-pane -k'') (respawnSubCommand tmuxCmd session)"
    by (simp add: respawnSubCommand_def prefix_def)
  fix qualifier
  show "sublist (''&& tmux'' @ qualifier @ '' respawn-pane -k'')
        (buildAutoRespawnHookCmd (''tmux'' @ qualifier) session)"
    unfolding sublist_def hook_shape
    by (rule exI [of _ \<open>''run-shell -b "sleep 3 && '' @ (''tmux'' @ qualifier) @ '' list-panes -t '' @ [CHR 0x27] @ session @
       ''' -F '#{pane_dead}' 2>/dev/null | grep -q 1 ''\<close>]) simp
qed

theorem hook_command_format_witness:
  \<open>buildAutoRespawnHookCmd ''tmux -L gt'' ''hq-deacon'' =
     ''run-shell -b "sleep 3 && tmux -L gt list-panes -t 'hq-deacon' -F '#{pane_dead}' 2>/dev/null | grep -q 1 && tmux -L gt respawn-pane -k -t 'hq-deacon' 2>/dev/null || true"'' \<and>
   sublist ''-L gt'' (respawnSubCommand ''tmux -L gt'' ''hq-deacon'') \<and>
   sublist ''tmux respawn-pane'' (buildAutoRespawnHookCmd ''tmux'' ''hq-deacon'') \<and>
   \<not> sublist ''-L'' (buildAutoRespawnHookCmd ''tmux'' ''hq-deacon'')\<close>
  using hook_command_format [of "''tmux -L gt''" "''hq-deacon''"]
    hook_command_format [of "''tmux''" "''hq-deacon''"]
  by (simp add: hook_shape respawnSubCommand_def sublist_code)

section \<open>Properties of the wisp reaper\<close>

subsection \<open>The UPDATE and the per-database call\<close>

lemma closeQuery_length [simp]: "length (closeQuery now cutoff ws) = length ws"
  by (simp add: closeQuery_def)

lemma closeQuery_nth:
  "i < length ws \<Longrightarrow>
   closeQuery now cutoff ws ! i =
     (if whereStale cutoff (ws ! i)
      then (ws ! i)\<lparr>status := st_closed, closed_at := Some now\<rparr>
      else ws ! i)"
  by (simp add: closeQuery_def)

lemma closed_not_stale: "status w = st_closed \<Longrightarrow> \<not> whereStale cutoff w"
  by (simp add: whereStale_def statusInOpenSet_def)

lemma closeQuery_idem:
  "closeQuery now' cutoff (closeQuery now cutoff ws) = closeQuery now cutoff ws"
  by (simp add: closeQuery_def closed_not_stale)

lemma rowsAffected_after_close: "rowsAffected cutoff (closeQuery now cutoff ws) = 0"
  by (simp add: rowsAffected_def closeQuery_def filter_map o_def closed_not_stale)

lemma rowsAffected_card:
  "rowsAffected cutoff ws = int (card {i. i < length ws \<and> whereStale cutoff (ws ! i)})"
  by (simp add: rowsAffected_def length_filter_conv_card)

lemma whereStale_iff:
  "whereStale cutoff w \<longleftrightarrow>
     status w \<in> {st_open, st_hooked, st_in_progress} \<and> (\<exists>t. created_at w = Some t \<and> t < cutoff)"
  by (auto simp add: whereStale_def statusInOpenSet_def split: option.split)

lemma statusInOpenSet_iff: "statusInOpenSet s \<longleftrightarrow> s \<noteq> st_closed"
  by (cases s) (simp_all add: statusInOpenSet_def)

lemma reapWispsInDB_ok:
  "reapWispsInDB e db cutoff tbls = ((reaped, opn, None), tbls') \<longleftrightarrow>
     faults e db = None \<and> reaped = rowsAffected cutoff (tbls db) \<and>
     tbls' = tbls(db := closeQuery (NOW e db) cutoff (tbls db)) \<and>
     opn = countQuery (closeQuery (NOW e db) cutoff (tbls db))"
proof (cases "faults e db")
  case None
  then show ?thesis by (auto simp add: reapWispsInDB_def Let_def)
next
  case (Some f)
  then show ?thesis by (cases f) (auto simp add: reapWispsInDB_def Let_def)
qed

lemma reapWispsInDB_fault:
  "faults e db = Some f \<Longrightarrow>
   reapWispsInDB e db cutoff tbls =
     (case f of
        OpenFails \<Rightarrow> ((0, 0, Some OpenConnection), tbls)
      | ExecFails \<Rightarrow> ((0, 0, Some CloseStaleWisps), tbls)
      | CountFails \<Rightarrow> ((rowsAffected cutoff (tbls db), 0, Some CountOpenWisps),
                        tbls(db := closeQuery (NOW e db) cutoff (tbls db))))"
  by (cases f) (simp_all add: reapWispsInDB_def Let_def)

lemma reapWispsInDB_none:
  "faults e db = None \<Longrightarrow>
   reapWispsInDB e db cutoff tbls =
     ((rowsAffected cutoff (tbls db), countQuery (closeQuery (NOW e db) cutoff (tbls db)), None),
      tbls(db := closeQuery (NOW e db) cutoff (tbls db)))"
  by (simp add: reapWispsInDB_def Let_def)

lemma reapLoop_invalid:
  "\<not> validDBName e db \<Longrightarrow>
   reapLoop e m c (db # rest) s =
     reapLoop e m c rest (s\<lparr>logger := logger s @ [LogSkipInvalid db]\<rparr>)"
  by simp

lemma reapLoop_ok:
  "validDBName e db \<Longrightarrow> faults e db = None \<Longrightarrow>
   reapLoop e m c (db # rest) s =
     reapLoop e m c rest
       (s\<lparr>totalReaped := totalReaped s + rowsAffected c (tables s db),
          totalOpen := totalOpen s + countQuery (closeQuery (NOW e db) c (tables s db)),
          logger := logger s @
            (if rowsAffected c (tables s db) > 0
             then [LogReaped db (rowsAffected c (tables s db)) m
                     (countQuery (closeQuery (NOW e db) c (tables s db)))]
             else []),
          tables := (tables s)(db := closeQuery (NOW e db) c (tables s db))\<rparr>)"
  by (simp add: reapWispsInDB_none)

lemma reapLoop_fault:
  "validDBName e db \<Longrightarrow> faults e db = Some f \<Longrightarrow>
   reapLoop e m c (db # rest) s =
     reapLoop e m c rest
       (s\<lparr>logger := logger s @
            [LogError db (case f of OpenFails \<Rightarrow> OpenConnection
                           | ExecFails \<Rightarrow> CloseStaleWisps | CountFails \<Rightarrow> CountOpenWisps)],
          tables := (case f of CountFails \<Rightarrow> (tables s)(db := closeQuery (NOW e db) c (tables s db))
                     | _ \<Rightarrow> tables s)\<rparr>)"
  by (cases f) (simp_all add: reapWispsInDB_fault)

lemmas reapLoop_step = reapLoop_invalid reapLoop_ok reapLoop_fault

lemma reapLoop_tables:
  "tables (reapLoop e m c dbs s) x =
     (if x \<in> set dbs \<and> validDBName e x \<and> faults e x \<noteq> Some OpenFails \<and>
         faults e x \<noteq> Some ExecFails
      then closeQuery (NOW e x) c (tables s x) else tables s x)"
proof (induction dbs arbitrary: s)
  case Nil
  then show ?case by simp
next
  case (Cons db rest)
  show ?case
  proof (cases "validDBName e db")
    case False
    show ?thesis
      unfolding reapLoop_invalid [OF False] Cons.IH
      using False by auto
  next
    case valid: True
    show ?thesis
    proof (cases "faults e db")
      case None
      show ?thesis
        unfolding reapLoop_ok [OF valid None] Cons.IH
        by (auto simp add: valid None closeQuery_idem)
    next
      case (Some f)
      show ?thesis
        unfolding reapLoop_fault [OF valid Some] Cons.IH
        by (cases f) (auto simp add: valid Some closeQuery_idem)
    qed
  qed
qed


lemma reapLoop_totals_cong:
  "(\<And>x. validDBName e x \<Longrightarrow> faults e x = None \<Longrightarrow> tables s x = tables s' x) \<Longrightarrow>
   totalReaped s = totalReaped s' \<Longrightarrow> totalOpen s = totalOpen s' \<Longrightarrow>
   totalReaped (reapLoop e m c dbs s) = totalReaped (reapLoop e m c dbs s') \<and>
   totalOpen (reapLoop e m c dbs s) = totalOpen (reapLoop e m c dbs s')"
proof (induction dbs arbitrary: s s')
  case Nil
  then show ?case by simp
next
  case (Cons db rest)
  show ?case
  proof (cases "validDBName e db")
    case False
    show ?thesis
      unfolding reapLoop_invalid [OF False]
      by (rule Cons.IH) (simp_all add: Cons.prems)
  next
    case valid: True
    show ?thesis
    proof (cases "faults e db")
      case None
      show ?thesis
        unfolding reapLoop_ok [OF valid None]
        by (rule Cons.IH) (simp_all add: Cons.prems valid None)
    next
      case (Some f)
      show ?thesis
        unfolding reapLoop_fault [OF valid Some]
        by (rule Cons.IH; cases f) (auto simp add: Cons.prems Some)
    qed
  qed
qed

lemma reapLoop_skip_errored:
  "totalReaped (reapLoop e m c dbs s) =
     totalReaped (reapLoop e m c (filter (\<lambda>db. \<not> (validDBName e db \<and> faults e db \<noteq> None)) dbs) s) \<and>
   totalOpen (reapLoop e m c dbs s) =
     totalOpen (reapLoop e m c (filter (\<lambda>db. \<not> (validDBName e db \<and> faults e db \<noteq> None)) dbs) s)"
proof (induction dbs arbitrary: s)
  case Nil
  then show ?case by simp
next
  case (Cons db rest)
  let ?keep = "\<lambda>db. \<not> (validDBName e db \<and> faults e db \<noteq> None)"
  show ?case
  proof (cases "validDBName e db")
    case False
    then have k: "filter ?keep (db # rest) = db # filter ?keep rest" by simp
    show ?thesis
      unfolding k reapLoop_invalid [OF False] by (rule Cons.IH)
  next
    case valid: True
    show ?thesis
    proof (cases "faults e db")
      case None
      then have k: "filter ?keep (db # rest) = db # filter ?keep rest" by simp
      show ?thesis
        unfolding k reapLoop_ok [OF valid None] by (rule Cons.IH)
    next
      case (Some f)
      with valid have k: "filter ?keep (db # rest) = filter ?keep rest" by simp
      let ?s' = "s\<lparr>logger := logger s @
            [LogError db (case f of OpenFails \<Rightarrow> OpenConnection
                           | ExecFails \<Rightarrow> CloseStaleWisps | CountFails \<Rightarrow> CountOpenWisps)],
          tables := (case f of CountFails \<Rightarrow> (tables s)(db := closeQuery (NOW e db) c (tables s db))
                     | _ \<Rightarrow> tables s)\<rparr>"
      have same: "totalReaped (reapLoop e m c (filter ?keep rest) ?s') =
                    totalReaped (reapLoop e m c (filter ?keep rest) s) \<and>
                  totalOpen (reapLoop e m c (filter ?keep rest) ?s') =
                    totalOpen (reapLoop e m c (filter ?keep rest) s)"
        by (rule reapLoop_totals_cong; cases f) (auto simp add: Some)
      show ?thesis
        unfolding k reapLoop_fault [OF valid Some]
        using Cons.IH [of ?s'] same by simp
    qed
  qed
qed

lemma reapLoop_totalOpen:
  "totalOpen (reapLoop e m c dbs s) =
     totalOpen s +
     sum_list (map (\<lambda>db. countQuery (closeQuery (NOW e db) c (tables s db)))
                 (filter (\<lambda>db. validDBName e db \<and> faults e db = None) dbs))"
proof (induction dbs arbitrary: s)
  case Nil
  then show ?case by simp
next
  case (Cons db rest)
  let ?ok = "\<lambda>db. validDBName e db \<and> faults e db = None"
  show ?case
  proof (cases "validDBName e db")
    case False
    show ?thesis
      unfolding reapLoop_invalid [OF False] Cons.IH using False by simp
  next
    case valid: True
    show ?thesis
    proof (cases "faults e db")
      case None
      have "sum_list (map (\<lambda>x. countQuery (closeQuery (NOW e x) c
                 (((tables s)(db := closeQuery (NOW e db) c (tables s db))) x))) (filter ?ok rest)) =
            sum_list (map (\<lambda>x. countQuery (closeQuery (NOW e x) c (tables s x))) (filter ?ok rest))"
        by (rule arg_cong [where f = sum_list], rule map_cong) (auto simp add: closeQuery_idem)
      then show ?thesis
        unfolding reapLoop_ok [OF valid None] Cons.IH sweep.simps using valid None by simp
    next
      case (Some f)
      have "sum_list (map (\<lambda>x. countQuery (closeQuery (NOW e x) c
                 ((case f of CountFails \<Rightarrow> (tables s)(db := closeQuery (NOW e db) c (tables s db))
                     | _ \<Rightarrow> tables s) x))) (filter ?ok rest)) =
            sum_list (map (\<lambda>x. countQuery (closeQuery (NOW e x) c (tables s x))) (filter ?ok rest))"
        by (rule arg_cong [where f = sum_list], rule map_cong; cases f) (auto simp add: Some)
      then show ?thesis
        unfolding reapLoop_fault [OF valid Some] Cons.IH sweep.simps using valid Some by simp
    qed
  qed
qed

subsection \<open>What the loop logs\<close>

lemma reapLoop_logger_mono: "set (logger s) \<subseteq> set (logger (reapLoop e m c dbs s))"
proof (induction dbs arbitrary: s)
  case Nil
  then show ?case by simp
next
  case (Cons db rest)
  show ?case
  proof (cases "validDBName e db")
    case False
    show ?thesis
      unfolding reapLoop_invalid [OF False]
      using Cons.IH [of "s\<lparr>logger := logger s @ [LogSkipInvalid db]\<rparr>"] by auto
  next
    case valid: True
    show ?thesis
    proof (cases "faults e db")
      case None
      show ?thesis
        unfolding reapLoop_ok [OF valid None]
        by (rule subset_trans [OF _ Cons.IH]) auto
    next
      case (Some f)
      show ?thesis
        unfolding reapLoop_fault [OF valid Some]
        by (rule subset_trans [OF _ Cons.IH]) auto
    qed
  qed
qed

lemma reapLoop_logs_invalid:
  "db \<in> set dbs \<Longrightarrow> \<not> validDBName e db \<Longrightarrow>
   LogSkipInvalid db \<in> set (logger (reapLoop e m c dbs s))"
proof (induction dbs arbitrary: s)
  case Nil
  then show ?case by simp
next
  case (Cons x rest)
  show ?case
  proof (cases "x = db")
    case True
    have "LogSkipInvalid db \<in> set (logger (s\<lparr>logger := logger s @ [LogSkipInvalid db]\<rparr>))"
      by simp
    then show ?thesis
      unfolding True reapLoop_invalid [OF Cons.prems(2)]
      using reapLoop_logger_mono [of "s\<lparr>logger := logger s @ [LogSkipInvalid db]\<rparr>" e m c rest]
      by blast
  next
    case False
    with Cons.prems have mem: "db \<in> set rest" by simp
    show ?thesis
    proof (cases "validDBName e x")
      case False
      show ?thesis
        unfolding reapLoop_invalid [OF False] by (rule Cons.IH [OF mem Cons.prems(2)])
    next
      case valid: True
      show ?thesis
      proof (cases "faults e x")
        case None
        show ?thesis
          unfolding reapLoop_ok [OF valid None] by (rule Cons.IH [OF mem Cons.prems(2)])
      next
        case (Some f)
        show ?thesis
          unfolding reapLoop_fault [OF valid Some] by (rule Cons.IH [OF mem Cons.prems(2)])
      qed
    qed
  qed
qed

lemma reapLoop_logs_error:
  "db \<in> set dbs \<Longrightarrow> validDBName e db \<Longrightarrow> faults e db = Some f \<Longrightarrow>
   LogError db (case f of OpenFails \<Rightarrow> OpenConnection
                 | ExecFails \<Rightarrow> CloseStaleWisps | CountFails \<Rightarrow> CountOpenWisps)
     \<in> set (logger (reapLoop e m c dbs s))"
proof (induction dbs arbitrary: s)
  case Nil
  then show ?case by simp
next
  case (Cons x rest)
  show ?case
  proof (cases "x = db")
    case True
    let ?s' = "s\<lparr>logger := logger s @
            [LogError db (case f of OpenFails \<Rightarrow> OpenConnection
                           | ExecFails \<Rightarrow> CloseStaleWisps | CountFails \<Rightarrow> CountOpenWisps)],
          tables := (case f of CountFails \<Rightarrow> (tables s)(db := closeQuery (NOW e db) c (tables s db))
                     | _ \<Rightarrow> tables s)\<rparr>"
    have "LogError db (case f of OpenFails \<Rightarrow> OpenConnection
                 | ExecFails \<Rightarrow> CloseStaleWisps | CountFails \<Rightarrow> CountOpenWisps) \<in> set (logger ?s')"
      by simp
    then show ?thesis
      unfolding True reapLoop_fault [OF Cons.prems(2) Cons.prems(3)]
      using reapLoop_logger_mono [of ?s' e m c rest] by blast
  next
    case False
    with Cons.prems have mem: "db \<in> set rest" by simp
    note ih = Cons.IH [OF mem Cons.prems(2) Cons.prems(3)]
    show ?thesis
    proof (cases "validDBName e x")
      case False
      show ?thesis
        unfolding reapLoop_invalid [OF False] by (rule ih)
    next
      case valid: True
      show ?thesis
      proof (cases "faults e x")
        case None
        show ?thesis
          unfolding reapLoop_ok [OF valid None] by (rule ih)
      next
        case (Some g)
        show ?thesis
          unfolding reapLoop_fault [OF valid Some] by (rule ih)
      qed
    qed
  qed
qed

lemma reapLoop_no_summary:
  "(\<And>a n b. LogTotal a n b \<notin> set (logger s)) \<Longrightarrow> (\<And>n t. LogWarning n t \<notin> set (logger s)) \<Longrightarrow>
   LogTotal a n b \<notin> set (logger (reapLoop e m c dbs s)) \<and>
   LogWarning k t \<notin> set (logger (reapLoop e m c dbs s))"
proof (induction dbs arbitrary: s)
  case Nil
  then show ?case by simp
next
  case (Cons db rest)
  show ?case
  proof (cases "validDBName e db")
    case False
    show ?thesis
      unfolding reapLoop_invalid [OF False]
      by (rule Cons.IH) (simp_all add: Cons.prems)
  next
    case valid: True
    show ?thesis
    proof (cases "faults e db")
      case None
      show ?thesis
        unfolding reapLoop_ok [OF valid None]
        by (rule Cons.IH) (simp_all add: Cons.prems)
    next
      case (Some f)
      show ?thesis
        unfolding reapLoop_fault [OF valid Some]
        by (rule Cons.IH) (simp_all add: Cons.prems)
    qed
  qed
qed

subsection \<open>Counting rows\<close>

lemma countQuery_card:
  "countQuery ws = int (card {i. i < length ws \<and> status (ws ! i) \<in> {st_open, st_hooked, st_in_progress}})"
  by (simp add: countQuery_def length_filter_conv_card statusInOpenSet_def)

lemma closeQuery_changed_iff:
  "i < length ws \<Longrightarrow> closeQuery now cutoff ws ! i \<noteq> ws ! i \<longleftrightarrow> whereStale cutoff (ws ! i)"
proof -
  assume i: "i < length ws"
  have "whereStale cutoff (ws ! i) \<Longrightarrow> status ((ws ! i)\<lparr>status := st_closed, closed_at := Some now\<rparr>) \<noteq> status (ws ! i)"
    by (auto simp add: whereStale_def statusInOpenSet_def)
  then have "whereStale cutoff (ws ! i) \<Longrightarrow> (ws ! i)\<lparr>status := st_closed, closed_at := Some now\<rparr> \<noteq> ws ! i"
    by metis
  then show ?thesis using i by (auto simp add: closeQuery_nth)
qed


subsection \<open>The sweep as a whole\<close>

lemma monotonicUnderReaping_refl: "monotonicUnderReaping ws ws"
  by (simp add: monotonicUnderReaping_def list_all2_same)

lemma monotonicUnderReaping_closeQuery: "monotonicUnderReaping ws (closeQuery now cutoff ws)"
  by (auto simp add: monotonicUnderReaping_def closeQuery_def list_all2_map2 list_all2_same
      closed_not_stale)

lemma reapWispsInDB_tables:
  "snd (reapWispsInDB e db cutoff tbls) x =
     (if x = db \<and> faults e db \<noteq> Some OpenFails \<and> faults e db \<noteq> Some ExecFails
      then closeQuery (NOW e db) cutoff (tbls db) else tbls x)"
proof (cases "faults e db")
  case None
  then show ?thesis by (simp add: reapWispsInDB_none)
next
  case (Some f)
  then show ?thesis by (cases f) (simp_all add: reapWispsInDB_fault)
qed

lemma reapDatabases_tables:
  "tables (reapDatabases e m c dbs tbls) x =
     (if x \<in> set dbs \<and> validDBName e x \<and> faults e x \<noteq> Some OpenFails \<and>
         faults e x \<noteq> Some ExecFails
      then closeQuery (NOW e x) c (tbls x) else tbls x)"
  by (simp add: reapDatabases_def Let_def reapLoop_tables)

lemma reapDatabases_totals:
  "totalReaped (reapDatabases e m c dbs tbls) =
     totalReaped (reapLoop e m c dbs \<lparr>totalReaped = 0, totalOpen = 0, logger = [], tables = tbls\<rparr>) \<and>
   totalOpen (reapDatabases e m c dbs tbls) =
     totalOpen (reapLoop e m c dbs \<lparr>totalReaped = 0, totalOpen = 0, logger = [], tables = tbls\<rparr>)"
  by (cases dbs) (simp_all add: reapDatabases_def Let_def)

lemma reapWisps_enabled:
  "IsPatrolEnabled e (patrolConfig d) ''wisp_reaper'' \<Longrightarrow>
   patrolConfig d = Some pc \<Longrightarrow> Patrols pc = Some ps \<Longrightarrow> WispReaper ps = Some cfg \<Longrightarrow>
   reapWisps e d tbls =
     Inr (reapDatabases e (wispReaperMaxAge (ParseDuration e) (patrolConfig d))
            (timeNow e - wispReaperMaxAge (ParseDuration e) (patrolConfig d))
            (if Databases cfg = [] then discoverDoltDatabases else Databases cfg) tbls)"
  by (simp add: reapWisps_def Let_def)

lemma reapWisps_cases:
  "reapWisps e d tbls = Inr r \<Longrightarrow>
   r = \<lparr>totalReaped = 0, totalOpen = 0, logger = [], tables = tbls\<rparr> \<or>
   (\<exists>m c dbs. r = reapDatabases e m c dbs tbls)"
  by (auto simp add: reapWisps_def Let_def split: if_splits option.splits)


lemma reapDatabases_logger:
  "dbs \<noteq> [] \<Longrightarrow>
   logger (reapDatabases e m c dbs tbls) =
     logger (reapLoop e m c dbs \<lparr>totalReaped = 0, totalOpen = 0, logger = [], tables = tbls\<rparr>) @
     (if 0 < totalReaped (reapDatabases e m c dbs tbls)
      then [LogTotal (totalReaped (reapDatabases e m c dbs tbls)) (length dbs)
              (totalOpen (reapDatabases e m c dbs tbls))] else []) @
     (if wispAlertThreshold < totalOpen (reapDatabases e m c dbs tbls)
      then [LogWarning (totalOpen (reapDatabases e m c dbs tbls)) wispAlertThreshold] else [])"
  by (simp add: reapDatabases_def Let_def)

lemma reapDatabases_nil:
  "reapDatabases e m c [] tbls =
     \<lparr>totalReaped = 0, totalOpen = 0, logger = [LogNoDatabases], tables = tbls\<rparr>"
  by (simp add: reapDatabases_def)

lemma reapDatabases_totalOpen:
  "totalOpen (reapDatabases e m c dbs tbls) =
     sum_list (map (\<lambda>db. countQuery (tables (reapDatabases e m c dbs tbls) db))
                 (filter (\<lambda>db. validDBName e db \<and> faults e db = None) dbs))"
proof -
  have eq: "sum_list (map (\<lambda>db. countQuery (tables (reapDatabases e m c dbs tbls) db))
          (filter (\<lambda>db. validDBName e db \<and> faults e db = None) dbs)) =
        sum_list (map (\<lambda>db. countQuery (closeQuery (NOW e db) c (tbls db)))
          (filter (\<lambda>db. validDBName e db \<and> faults e db = None) dbs))"
    by (rule arg_cong [where f = sum_list], rule map_cong) (auto simp add: reapDatabases_tables)
  show ?thesis
    unfolding eq by (simp add: reapDatabases_totals reapLoop_totalOpen)
qed

lemma reapDatabases_warning:
  "LogWarning n t \<in> set (logger (reapDatabases e m c dbs tbls)) \<longleftrightarrow>
     wispAlertThreshold < totalOpen (reapDatabases e m c dbs tbls) \<and>
     n = totalOpen (reapDatabases e m c dbs tbls) \<and> t = wispAlertThreshold"
proof (cases "dbs = []")
  case True
  then show ?thesis by (simp add: reapDatabases_nil wispAlertThreshold_def)
next
  case False
  have "LogWarning n t \<notin> set (logger (reapLoop e m c dbs
          \<lparr>totalReaped = 0, totalOpen = 0, logger = [], tables = tbls\<rparr>))"
    using reapLoop_no_summary [of "\<lparr>totalReaped = 0, totalOpen = 0, logger = [], tables = tbls\<rparr>"]
    by simp
  then show ?thesis
    by (auto simp add: reapDatabases_logger [OF False])
qed

lemma reapDatabases_summary:
  "LogTotal a k b \<in> set (logger (reapDatabases e m c dbs tbls)) \<longleftrightarrow>
     0 < totalReaped (reapDatabases e m c dbs tbls) \<and>
     a = totalReaped (reapDatabases e m c dbs tbls) \<and> k = length dbs \<and>
     b = totalOpen (reapDatabases e m c dbs tbls)"
proof (cases "dbs = []")
  case True
  then show ?thesis by (simp add: reapDatabases_nil)
next
  case False
  have "LogTotal a k b \<notin> set (logger (reapLoop e m c dbs
          \<lparr>totalReaped = 0, totalOpen = 0, logger = [], tables = tbls\<rparr>))"
    using reapLoop_no_summary [of "\<lparr>totalReaped = 0, totalOpen = 0, logger = [], tables = tbls\<rparr>"]
    by simp
  then show ?thesis
    by (auto simp add: reapDatabases_logger [OF False])
qed

lemma reapDatabases_logs_invalid:
  "db \<in> set dbs \<Longrightarrow> \<not> validDBName e db \<Longrightarrow>
   LogSkipInvalid db \<in> set (logger (reapDatabases e m c dbs tbls))"
proof -
  assume mem: "db \<in> set dbs" and inv: "\<not> validDBName e db"
  then have ne: "dbs \<noteq> []" by auto
  show ?thesis
    unfolding reapDatabases_logger [OF ne]
    using reapLoop_logs_invalid [OF mem inv] by simp
qed

lemma reapDatabases_logs_error:
  "db \<in> set dbs \<Longrightarrow> validDBName e db \<Longrightarrow> faults e db = Some f \<Longrightarrow>
   LogError db (case f of OpenFails \<Rightarrow> OpenConnection
                 | ExecFails \<Rightarrow> CloseStaleWisps | CountFails \<Rightarrow> CountOpenWisps)
     \<in> set (logger (reapDatabases e m c dbs tbls))"
proof -
  assume mem: "db \<in> set dbs" and v: "validDBName e db" and f: "faults e db = Some f"
  then have ne: "dbs \<noteq> []" by auto
  show ?thesis
    unfolding reapDatabases_logger [OF ne]
    using reapLoop_logs_error [OF mem v f] by simp
qed


subsection \<open>The sample store, swept\<close>

lemma sample_hq_closeQuery:
  "20 < c \<Longrightarrow> c \<le> 99999999999999 \<Longrightarrow>
   closeQuery now c (sampleTables ''hq'') =
     [\<lparr>status = st_closed, created_at = Some 10, closed_at = Some now\<rparr>,
      \<lparr>status = st_open, created_at = Some 99999999999999, closed_at = None\<rparr>,
      \<lparr>status = st_closed, created_at = Some 5, closed_at = Some 7\<rparr>,
      \<lparr>status = st_closed, created_at = Some 20, closed_at = Some now\<rparr>,
      \<lparr>status = st_in_progress, created_at = None, closed_at = None\<rparr>]"
  by (simp add: sampleTables_def closeQuery_def whereStale_def statusInOpenSet_def)

lemma sample_hq_rowsAffected:
  "20 < c \<Longrightarrow> c \<le> 99999999999999 \<Longrightarrow> rowsAffected c (sampleTables ''hq'') = 2"
  by (simp add: sampleTables_def rowsAffected_def whereStale_def statusInOpenSet_def)

lemma sample_hq_countQuery:
  "20 < c \<Longrightarrow> c \<le> 99999999999999 \<Longrightarrow>
   countQuery (closeQuery now c (sampleTables ''hq'')) = 2"
  by (simp add: sample_hq_closeQuery countQuery_def statusInOpenSet_def)

lemma sample_beads_closeQuery:
  "20 < c \<Longrightarrow>
   closeQuery now c (sampleTables ''beads'') =
     [\<lparr>status = st_closed, created_at = Some 1, closed_at = Some now\<rparr>]"
  by (simp add: sampleTables_def closeQuery_def whereStale_def statusInOpenSet_def)

lemma sample_beads_rowsAffected: "20 < c \<Longrightarrow> rowsAffected c (sampleTables ''beads'') = 1"
  by (simp add: sampleTables_def rowsAffected_def whereStale_def statusInOpenSet_def)

lemma sample_other_table: "n \<noteq> ''hq'' \<Longrightarrow> n \<noteq> ''beads'' \<Longrightarrow> sampleTables n = []"
  by (simp add: sampleTables_def)

lemma sample_env_fields:
  "validDBName sampleEnv n = (n \<noteq> [] \<and> CHR '';'' \<notin> set n)"
  "faults sampleEnv n = (if n = ''beads'' then Some CountFails
                         else if n = ''gone'' then Some ExecFails else None)"
  "NOW sampleEnv n = 100000000000001"
  "timeNow sampleEnv = 100000000000000"
  by (simp_all add: sampleEnv_def)

lemma sample_loop:
  assumes c: "20 < c" "c \<le> 99999999999999"
  shows "reapLoop sampleEnv m c [''bad;name'', ''gone'', ''beads'', ''hq'']
           \<lparr>totalReaped = 0, totalOpen = 0, logger = [], tables = sampleTables\<rparr> =
         \<lparr>totalReaped = 2, totalOpen = 2,
          logger = [LogSkipInvalid ''bad;name'', LogError ''gone'' CloseStaleWisps,
                    LogError ''beads'' CountOpenWisps, LogReaped ''hq'' 2 m 2],
          tables = sampleTables
            (''beads'' := closeQuery 100000000000001 c (sampleTables ''beads''),
             ''hq'' := closeQuery 100000000000001 c (sampleTables ''hq''))\<rparr>"
proof -
  have 1: "\<not> validDBName sampleEnv ''bad;name''" by (simp add: sample_env_fields)
  have 2: "validDBName sampleEnv ''gone''" "faults sampleEnv ''gone'' = Some ExecFails"
    by (simp_all add: sample_env_fields)
  have 3: "validDBName sampleEnv ''beads''" "faults sampleEnv ''beads'' = Some CountFails"
    by (simp_all add: sample_env_fields)
  have 4: "validDBName sampleEnv ''hq''" "faults sampleEnv ''hq'' = None"
    by (simp_all add: sample_env_fields)
  show ?thesis
    unfolding reapLoop_invalid [OF 1] reapLoop_fault [OF 2] reapLoop_fault [OF 3]
      reapLoop_ok [OF 4] reapLoop.simps(1)
    by (simp add: sample_env_fields sample_hq_rowsAffected [OF c] sample_hq_countQuery [OF c])
qed

lemma sample_sweep:
  assumes c: "20 < c" "c \<le> 99999999999999"
  shows "reapDatabases sampleEnv m c [''bad;name'', ''gone'', ''beads'', ''hq''] sampleTables =
         \<lparr>totalReaped = 2, totalOpen = 2,
          logger = [LogSkipInvalid ''bad;name'', LogError ''gone'' CloseStaleWisps,
                    LogError ''beads'' CountOpenWisps, LogReaped ''hq'' 2 m 2, LogTotal 2 4 2],
          tables = sampleTables
            (''beads'' := closeQuery 100000000000001 c (sampleTables ''beads''),
             ''hq'' := closeQuery 100000000000001 c (sampleTables ''hq''))\<rparr>"
  unfolding reapDatabases_def sample_loop [OF c]
  by (simp add: wispAlertThreshold_def)

lemma sample_reapWisps:
  "reapWisps sampleEnv (sampleDaemon dbs) tbls =
     Inr (reapDatabases sampleEnv defaultWispMaxAge 13600000000000
            (if dbs = [] then discoverDoltDatabases else dbs) tbls)"
  by (simp add: reapWisps_def sampleEnv_def sampleDaemon_def wispReaperMaxAge_def
      defaultWispMaxAge_def Hour_def Minute_def Second_def Millisecond_def)

lemma freshOpen_closeQuery:
  "c \<le> 99999999999999 \<Longrightarrow> closeQuery now c (freshOpen n) = freshOpen n"
  by (simp add: freshOpen_def closeQuery_def whereStale_def)

lemma freshOpen_rowsAffected:
  "c \<le> 99999999999999 \<Longrightarrow> rowsAffected c (freshOpen n) = 0"
  by (simp add: freshOpen_def rowsAffected_def whereStale_def)

lemma freshOpen_countQuery: "countQuery (freshOpen n) = int n"
  by (simp add: freshOpen_def countQuery_def statusInOpenSet_def)

lemma fresh_sweep:
  assumes c: "c \<le> 99999999999999"
  shows "totalOpen (reapDatabases sampleEnv m c [''hq'', ''gastown'']
            (\<lambda>x. if x = ''hq'' then freshOpen n else freshOpen k)) = int n + int k \<and>
         logger (reapDatabases sampleEnv m c [''hq'', ''gastown'']
            (\<lambda>x. if x = ''hq'' then freshOpen n else freshOpen k)) =
           (if 500 < int n + int k then [LogWarning (int n + int k) 500] else [])"
proof -
  let ?t = "\<lambda>x. if x = ''hq'' then freshOpen n else freshOpen k"
  have 1: "validDBName sampleEnv ''hq''" "faults sampleEnv ''hq'' = None"
    by (simp_all add: sample_env_fields)
  have 2: "validDBName sampleEnv ''gastown''" "faults sampleEnv ''gastown'' = None"
    by (simp_all add: sample_env_fields)
  have loop: "reapLoop sampleEnv m c [''hq'', ''gastown'']
           \<lparr>totalReaped = 0, totalOpen = 0, logger = [], tables = ?t\<rparr> =
         \<lparr>totalReaped = 0, totalOpen = int n + int k, logger = [],
          tables = ?t(''hq'' := freshOpen n, ''gastown'' := freshOpen k)\<rparr>"
    unfolding reapLoop_ok [OF 1] reapLoop_ok [OF 2] reapLoop.simps(1)
    by (simp add: freshOpen_closeQuery [OF c] freshOpen_rowsAffected [OF c] freshOpen_countQuery)
  show ?thesis
    unfolding reapDatabases_def loop
    by (simp add: wispAlertThreshold_def)
qed


subsection \<open>Claim C2: one call closes exactly the stale wisps\<close>

text \<open>
  C2. When no operation against the database fails, \<^verbatim>\<open>reapWispsInDB\<close> returns without an
  error and the table afterwards has the same rows, where exactly the rows whose status
  is open, hooked or in_progress and whose \<open>created_at\<close> is older than the cutoff have
  become closed with \<open>closed_at\<close> set to the store's current time. Every other row, so
  every row that was closed already, is untouched. The reaped count is the number of
  rows that changed, which is the number of rows that matched, the open count is the
  number of rows still open, hooked or in_progress afterwards, and the tables of the
  other databases are as before.
\<close>

theorem reapWispsInDB_closes_exactly_the_stale_wisps:
  assumes ok: "faults e db = None"
  shows "\<exists>reaped opn tbls'.
    reapWispsInDB e db cutoff tbls = ((reaped, opn, None), tbls') \<and>
    length (tbls' db) = length (tbls db) \<and>
    (\<forall>i < length (tbls db).
       tbls' db ! i =
         (if status (tbls db ! i) \<in> {st_open, st_hooked, st_in_progress} \<and>
             (\<exists>t. created_at (tbls db ! i) = Some t \<and> t < cutoff)
          then (tbls db ! i)\<lparr>status := st_closed, closed_at := Some (NOW e db)\<rparr>
          else tbls db ! i)) \<and>
    (\<forall>i < length (tbls db). status (tbls db ! i) = st_closed \<longrightarrow> tbls' db ! i = tbls db ! i) \<and>
    reaped = int (card {i. i < length (tbls db) \<and> tbls' db ! i \<noteq> tbls db ! i}) \<and>
    reaped = int (card {i. i < length (tbls db) \<and>
                status (tbls db ! i) \<in> {st_open, st_hooked, st_in_progress} \<and>
                (\<exists>t. created_at (tbls db ! i) = Some t \<and> t < cutoff)}) \<and>
    opn = int (card {i. i < length (tbls' db) \<and>
                status (tbls' db ! i) \<in> {st_open, st_hooked, st_in_progress}}) \<and>
    (\<forall>other. other \<noteq> db \<longrightarrow> tbls' other = tbls other)"
proof -
  let ?after = "closeQuery (NOW e db) cutoff (tbls db)"
  let ?tbls' = "tbls(db := ?after)"
  have call: "reapWispsInDB e db cutoff tbls =
      ((rowsAffected cutoff (tbls db), countQuery ?after, None), ?tbls')"
    by (rule reapWispsInDB_none [OF ok])
  have rows: "\<forall>i < length (tbls db).
       ?tbls' db ! i =
         (if status (tbls db ! i) \<in> {st_open, st_hooked, st_in_progress} \<and>
             (\<exists>t. created_at (tbls db ! i) = Some t \<and> t < cutoff)
          then (tbls db ! i)\<lparr>status := st_closed, closed_at := Some (NOW e db)\<rparr>
          else tbls db ! i)"
    by (simp add: closeQuery_nth whereStale_iff)
  have closed: "\<forall>i < length (tbls db). status (tbls db ! i) = st_closed \<longrightarrow> ?tbls' db ! i = tbls db ! i"
    by (simp add: closeQuery_nth closed_not_stale)
  have "{i. i < length (tbls db) \<and> ?tbls' db ! i \<noteq> tbls db ! i} =
        {i. i < length (tbls db) \<and> whereStale cutoff (tbls db ! i)}"
    using closeQuery_changed_iff [of _ "tbls db" "NOW e db" cutoff] by auto
  then have changed: "rowsAffected cutoff (tbls db) =
      int (card {i. i < length (tbls db) \<and> ?tbls' db ! i \<noteq> tbls db ! i})"
    by (simp only: rowsAffected_card)
  have stale: "rowsAffected cutoff (tbls db) =
      int (card {i. i < length (tbls db) \<and>
                status (tbls db ! i) \<in> {st_open, st_hooked, st_in_progress} \<and>
                (\<exists>t. created_at (tbls db ! i) = Some t \<and> t < cutoff)})"
    by (simp only: rowsAffected_card whereStale_iff)
  have remaining: "countQuery ?after =
      int (card {i. i < length (?tbls' db) \<and>
                status (?tbls' db ! i) \<in> {st_open, st_hooked, st_in_progress}})"
    by (simp add: countQuery_card)
  have len: "length (?tbls' db) = length (tbls db)" by simp
  have others: "\<forall>other. other \<noteq> db \<longrightarrow> ?tbls' other = tbls other" by simp
  from call len rows closed changed stale remaining others show ?thesis by blast
qed

theorem reapWispsInDB_closes_exactly_the_stale_wisps_witness:
  "faults sampleEnv ''hq'' = None \<and>
   fst (reapWispsInDB sampleEnv ''hq'' 50000 sampleTables) = (2, 2, None) \<and>
   snd (reapWispsInDB sampleEnv ''hq'' 50000 sampleTables) ''hq'' =
     [\<lparr>status = st_closed, created_at = Some 10, closed_at = Some 100000000000001\<rparr>,
      \<lparr>status = st_open, created_at = Some 99999999999999, closed_at = None\<rparr>,
      \<lparr>status = st_closed, created_at = Some 5, closed_at = Some 7\<rparr>,
      \<lparr>status = st_closed, created_at = Some 20, closed_at = Some 100000000000001\<rparr>,
      \<lparr>status = st_in_progress, created_at = None, closed_at = None\<rparr>]"
  using reapWispsInDB_closes_exactly_the_stale_wisps [of sampleEnv "''hq''" 50000 sampleTables]
  by (simp add: sample_defs reaper_defs)


subsection \<open>Claim C7: status is monotonic under reaping\<close>

text \<open>
  C7. For every database name, the table after one call of \<^verbatim>\<open>reapWispsInDB\<close> (whether it
  fails or not), after a sweep over any list of databases, and after \<^verbatim>\<open>reapWisps\<close> is
  related to the table before by \<open>monotonicUnderReaping\<close>: a closed wisp keeps its status
  and its \<open>closed_at\<close>, and a wisp whose status changed was not closed and is closed now.
\<close>

theorem reaping_never_reopens_a_closed_wisp:
  "monotonicUnderReaping (tbls name) (snd (reapWispsInDB e db cutoff tbls) name) \<and>
   monotonicUnderReaping (tbls name) (tables (reapDatabases e m c dbs tbls) name) \<and>
   (\<forall>r. reapWisps e d tbls = Inr r \<longrightarrow> monotonicUnderReaping (tbls name) (tables r name))"
proof (intro conjI allI impI)
  show "monotonicUnderReaping (tbls name) (snd (reapWispsInDB e db cutoff tbls) name)"
    by (simp add: reapWispsInDB_tables monotonicUnderReaping_refl monotonicUnderReaping_closeQuery)
  show db: "monotonicUnderReaping (tbls name) (tables (reapDatabases e m c dbs tbls) name)" for m c dbs
    by (simp add: reapDatabases_tables monotonicUnderReaping_refl monotonicUnderReaping_closeQuery)
  fix r
  assume "reapWisps e d tbls = Inr r"
  from reapWisps_cases [OF this] show "monotonicUnderReaping (tbls name) (tables r name)"
    using db by (auto simp add: monotonicUnderReaping_refl)
qed

theorem reaping_never_reopens_a_closed_wisp_witness:
  "monotonicUnderReaping (sampleTables ''hq'')
     (snd (reapWispsInDB sampleEnv ''hq'' 50000 sampleTables) ''hq'') \<and>
   snd (reapWispsInDB sampleEnv ''hq'' 50000 sampleTables) ''hq'' ! 2 =
     \<lparr>status = st_closed, created_at = Some 5, closed_at = Some 7\<rparr> \<and>
   sampleTables ''hq'' ! 2 = \<lparr>status = st_closed, created_at = Some 5, closed_at = Some 7\<rparr> \<and>
   monotonicUnderReaping (sampleTables ''beads'')
     (tables (reapDatabases sampleEnv defaultWispMaxAge 50000
                [''bad;name'', ''gone'', ''beads'', ''hq''] sampleTables) ''beads'') \<and>
   (\<exists>r. reapWisps sampleEnv (sampleDaemon [''bad;name'', ''gone'', ''beads'', ''hq''])
           sampleTables = Inr r \<and>
        monotonicUnderReaping (sampleTables ''hq'') (tables r ''hq''))"
  using reaping_never_reopens_a_closed_wisp [of sampleTables "''hq''" sampleEnv "''hq''" 50000
      defaultWispMaxAge 50000 "[''bad;name'', ''gone'', ''beads'', ''hq'']"
      "sampleDaemon [''bad;name'', ''gone'', ''beads'', ''hq'']"]
    reaping_never_reopens_a_closed_wisp [of sampleTables "''beads''" sampleEnv "''hq''" 50000
      defaultWispMaxAge 50000 "[''bad;name'', ''gone'', ''beads'', ''hq'']"
      "sampleDaemon [''bad;name'', ''gone'', ''beads'', ''hq'']"]
  by (simp add: sample_reapWisps reapWispsInDB_tables sample_env_fields sampleTables_def
      closeQuery_def whereStale_def statusInOpenSet_def)


subsection \<open>Claim C5: the sweep never aborts\<close>

text \<open>
  C5. A sweep over no database logs one line and changes nothing. In a sweep over any
  list, a name that fails the pattern is logged as skipped and its table is as before; a
  database whose call fails is logged with its error (and its table is as before when
  the connection or the UPDATE failed); and a database whose call succeeds is reaped,
  whatever happened to the other names of the list. \<^verbatim>\<open>reapWisps\<close> itself ends normally
  with such a sweep when the patrol is enabled and its configuration is present, and
  with no effect when the patrol is disabled.
\<close>

theorem sweep_tolerates_bad_names_and_failing_stores:
  "reapDatabases e m c [] tbls =
     \<lparr>totalReaped = 0, totalOpen = 0, logger = [LogNoDatabases], tables = tbls\<rparr> \<and>
   (\<forall>db \<in> set dbs.
      (\<not> validDBName e db \<longrightarrow>
         LogSkipInvalid db \<in> set (logger (reapDatabases e m c dbs tbls)) \<and>
         tables (reapDatabases e m c dbs tbls) db = tbls db) \<and>
      (validDBName e db \<and> faults e db = Some OpenFails \<longrightarrow>
         LogError db OpenConnection \<in> set (logger (reapDatabases e m c dbs tbls)) \<and>
         tables (reapDatabases e m c dbs tbls) db = tbls db) \<and>
      (validDBName e db \<and> faults e db = Some ExecFails \<longrightarrow>
         LogError db CloseStaleWisps \<in> set (logger (reapDatabases e m c dbs tbls)) \<and>
         tables (reapDatabases e m c dbs tbls) db = tbls db) \<and>
      (validDBName e db \<and> faults e db = Some CountFails \<longrightarrow>
         LogError db CountOpenWisps \<in> set (logger (reapDatabases e m c dbs tbls))) \<and>
      (validDBName e db \<and> faults e db = None \<longrightarrow>
         tables (reapDatabases e m c dbs tbls) db = closeQuery (NOW e db) c (tbls db))) \<and>
   (IsPatrolEnabled e (patrolConfig d) ''wisp_reaper'' \<and> patrolConfig d = Some pc \<and>
    Patrols pc = Some ps \<and> WispReaper ps = Some cfg \<longrightarrow>
      reapWisps e d tbls =
        Inr (reapDatabases e (wispReaperMaxAge (ParseDuration e) (patrolConfig d))
               (timeNow e - wispReaperMaxAge (ParseDuration e) (patrolConfig d))
               (if Databases cfg = [] then discoverDoltDatabases else Databases cfg) tbls)) \<and>
   (\<not> IsPatrolEnabled e (patrolConfig d) ''wisp_reaper'' \<longrightarrow>
      reapWisps e d tbls = Inr \<lparr>totalReaped = 0, totalOpen = 0, logger = [], tables = tbls\<rparr>)"
proof (intro conjI ballI impI)
  show "reapDatabases e m c [] tbls =
     \<lparr>totalReaped = 0, totalOpen = 0, logger = [LogNoDatabases], tables = tbls\<rparr>"
    by (rule reapDatabases_nil)
next
  fix db assume "db \<in> set dbs" "\<not> validDBName e db"
  then show "LogSkipInvalid db \<in> set (logger (reapDatabases e m c dbs tbls))"
    by (rule reapDatabases_logs_invalid)
next
  fix db assume "\<not> validDBName e db"
  then show "tables (reapDatabases e m c dbs tbls) db = tbls db"
    by (simp add: reapDatabases_tables)
next
  fix db assume "db \<in> set dbs" "validDBName e db \<and> faults e db = Some OpenFails"
  then show "LogError db OpenConnection \<in> set (logger (reapDatabases e m c dbs tbls))"
    using reapDatabases_logs_error [of db dbs e OpenFails] by simp
next
  fix db assume "validDBName e db \<and> faults e db = Some OpenFails"
  then show "tables (reapDatabases e m c dbs tbls) db = tbls db"
    by (simp add: reapDatabases_tables)
next
  fix db assume "db \<in> set dbs" "validDBName e db \<and> faults e db = Some ExecFails"
  then show "LogError db CloseStaleWisps \<in> set (logger (reapDatabases e m c dbs tbls))"
    using reapDatabases_logs_error [of db dbs e ExecFails] by simp
next
  fix db assume "validDBName e db \<and> faults e db = Some ExecFails"
  then show "tables (reapDatabases e m c dbs tbls) db = tbls db"
    by (simp add: reapDatabases_tables)
next
  fix db assume "db \<in> set dbs" "validDBName e db \<and> faults e db = Some CountFails"
  then show "LogError db CountOpenWisps \<in> set (logger (reapDatabases e m c dbs tbls))"
    using reapDatabases_logs_error [of db dbs e CountFails] by simp
next
  fix db assume "db \<in> set dbs" "validDBName e db \<and> faults e db = None"
  then show "tables (reapDatabases e m c dbs tbls) db = closeQuery (NOW e db) c (tbls db)"
    by (simp add: reapDatabases_tables)
next
  assume "IsPatrolEnabled e (patrolConfig d) ''wisp_reaper'' \<and> patrolConfig d = Some pc \<and>
    Patrols pc = Some ps \<and> WispReaper ps = Some cfg"
  then show "reapWisps e d tbls =
        Inr (reapDatabases e (wispReaperMaxAge (ParseDuration e) (patrolConfig d))
               (timeNow e - wispReaperMaxAge (ParseDuration e) (patrolConfig d))
               (if Databases cfg = [] then discoverDoltDatabases else Databases cfg) tbls)"
    using reapWisps_enabled [of e d pc ps cfg tbls] by blast
next
  assume "\<not> IsPatrolEnabled e (patrolConfig d) ''wisp_reaper''"
  then show "reapWisps e d tbls = Inr \<lparr>totalReaped = 0, totalOpen = 0, logger = [], tables = tbls\<rparr>"
    by (simp add: reapWisps_def)
qed


theorem sweep_tolerates_bad_names_and_failing_stores_witness:
  "logger (reapDatabases sampleEnv defaultWispMaxAge 50000 [] sampleTables) = [LogNoDatabases] \<and>
   logger (reapDatabases sampleEnv defaultWispMaxAge 50000
             [''bad;name'', ''gone'', ''beads'', ''hq''] sampleTables) =
     [LogSkipInvalid ''bad;name'', LogError ''gone'' CloseStaleWisps,
      LogError ''beads'' CountOpenWisps, LogReaped ''hq'' 2 defaultWispMaxAge 2,
      LogTotal 2 4 2] \<and>
   tables (reapDatabases sampleEnv defaultWispMaxAge 50000
             [''bad;name'', ''gone'', ''beads'', ''hq''] sampleTables) ''hq'' =
     closeQuery 100000000000001 50000 (sampleTables ''hq'') \<and>
   tables (reapDatabases sampleEnv defaultWispMaxAge 50000
             [''bad;name'', ''gone'', ''beads'', ''hq''] sampleTables) ''gone'' =
     sampleTables ''gone'' \<and>
   (\<exists>r. reapWisps sampleEnv (sampleDaemon [''bad;name'', ''gone'', ''beads'', ''hq'']) sampleTables
           = Inr r \<and>
        LogSkipInvalid ''bad;name'' \<in> set (logger r) \<and>
        LogError ''gone'' CloseStaleWisps \<in> set (logger r) \<and>
        LogError ''beads'' CountOpenWisps \<in> set (logger r) \<and>
        countQuery (tables r ''hq'') = 2) \<and>
   reapWisps sampleEnv
     \<lparr>patrolConfig = Some \<lparr>Patrols = Some \<lparr>WispReaper = Some
        \<lparr>Enabled = False, IntervalStr = [], MaxAgeStr = [], Databases = [''hq'']\<rparr>\<rparr>\<rparr>\<rparr>
     sampleTables =
     Inr \<lparr>totalReaped = 0, totalOpen = 0, logger = [], tables = sampleTables\<rparr>"
proof -
  have enabled: "IsPatrolEnabled sampleEnv
      (patrolConfig (sampleDaemon [''bad;name'', ''gone'', ''beads'', ''hq''])) ''wisp_reaper''"
    by (simp add: sampleEnv_def sampleDaemon_def)
  have disabled: "\<not> IsPatrolEnabled sampleEnv
      (patrolConfig \<lparr>patrolConfig = Some \<lparr>Patrols = Some \<lparr>WispReaper = Some
        \<lparr>Enabled = False, IntervalStr = [], MaxAgeStr = [], Databases = [''hq'']\<rparr>\<rparr>\<rparr>\<rparr>)
      ''wisp_reaper''"
    by (simp add: sampleEnv_def)
  show ?thesis
    using
      sweep_tolerates_bad_names_and_failing_stores [of sampleEnv defaultWispMaxAge 50000
        sampleTables "[''bad;name'', ''gone'', ''beads'', ''hq'']"
        "sampleDaemon [''bad;name'', ''gone'', ''beads'', ''hq'']"
        "\<lparr>Patrols = Some \<lparr>WispReaper = Some \<lparr>Enabled = True, IntervalStr = ''soon'',
            MaxAgeStr = [], Databases = [''bad;name'', ''gone'', ''beads'', ''hq'']\<rparr>\<rparr>\<rparr>"
        "\<lparr>WispReaper = Some \<lparr>Enabled = True, IntervalStr = ''soon'',
            MaxAgeStr = [], Databases = [''bad;name'', ''gone'', ''beads'', ''hq'']\<rparr>\<rparr>"
        "\<lparr>Enabled = True, IntervalStr = ''soon'',
            MaxAgeStr = [], Databases = [''bad;name'', ''gone'', ''beads'', ''hq'']\<rparr>"]
      sweep_tolerates_bad_names_and_failing_stores [of sampleEnv defaultWispMaxAge 50000
        sampleTables "[]"
        "\<lparr>patrolConfig = Some \<lparr>Patrols = Some \<lparr>WispReaper = Some
          \<lparr>Enabled = False, IntervalStr = [], MaxAgeStr = [], Databases = [''hq'']\<rparr>\<rparr>\<rparr>\<rparr>"]
      enabled disabled
    by (simp add: sample_reapWisps sample_sweep sample_hq_countQuery sample_other_table
        reapDatabases_nil)
qed


subsection \<open>Claim C9: a failing store adds nothing to the totals\<close>

text \<open>
  C9. The two totals of a sweep are those of the sweep without the databases whose call
  returns an error. The summary line and the warning carry these totals. A database
  whose COUNT failed has had its stale rows closed by the UPDATE all the same, and a
  sweep over such a database alone reports zero reaped rows.
\<close>

theorem errored_stores_are_left_out_of_the_totals:
  "totalReaped (reapDatabases e m c dbs tbls) =
     totalReaped (reapDatabases e m c
        (filter (\<lambda>db. \<not> (validDBName e db \<and> faults e db \<noteq> None)) dbs) tbls) \<and>
   totalOpen (reapDatabases e m c dbs tbls) =
     totalOpen (reapDatabases e m c
        (filter (\<lambda>db. \<not> (validDBName e db \<and> faults e db \<noteq> None)) dbs) tbls) \<and>
   (\<forall>a k b. LogTotal a k b \<in> set (logger (reapDatabases e m c dbs tbls)) \<longrightarrow>
      a = totalReaped (reapDatabases e m c dbs tbls) \<and>
      b = totalOpen (reapDatabases e m c dbs tbls)) \<and>
   (\<forall>n t. LogWarning n t \<in> set (logger (reapDatabases e m c dbs tbls)) \<longrightarrow>
      n = totalOpen (reapDatabases e m c dbs tbls)) \<and>
   (\<forall>db \<in> set dbs. validDBName e db \<and> faults e db = Some CountFails \<longrightarrow>
      tables (reapDatabases e m c dbs tbls) db = closeQuery (NOW e db) c (tbls db)) \<and>
   (validDBName e db \<and> faults e db = Some CountFails \<longrightarrow>
      reapDatabases e m c [db] tbls =
        \<lparr>totalReaped = 0, totalOpen = 0, logger = [LogError db CountOpenWisps],
         tables = tbls(db := closeQuery (NOW e db) c (tbls db))\<rparr>)"
proof (intro conjI allI ballI impI)
  show "totalReaped (reapDatabases e m c dbs tbls) =
     totalReaped (reapDatabases e m c
        (filter (\<lambda>db. \<not> (validDBName e db \<and> faults e db \<noteq> None)) dbs) tbls)"
    unfolding reapDatabases_totals [THEN conjunct1]
    by (rule reapLoop_skip_errored [THEN conjunct1])
  show "totalOpen (reapDatabases e m c dbs tbls) =
     totalOpen (reapDatabases e m c
        (filter (\<lambda>db. \<not> (validDBName e db \<and> faults e db \<noteq> None)) dbs) tbls)"
    unfolding reapDatabases_totals [THEN conjunct2]
    by (rule reapLoop_skip_errored [THEN conjunct2])
next
  fix a k b assume "LogTotal a k b \<in> set (logger (reapDatabases e m c dbs tbls))"
  then show "a = totalReaped (reapDatabases e m c dbs tbls)"
    and "b = totalOpen (reapDatabases e m c dbs tbls)"
    by (simp_all add: reapDatabases_summary)
next
  fix n t assume "LogWarning n t \<in> set (logger (reapDatabases e m c dbs tbls))"
  then show "n = totalOpen (reapDatabases e m c dbs tbls)"
    by (simp add: reapDatabases_warning)
next
  fix db assume "db \<in> set dbs" "validDBName e db \<and> faults e db = Some CountFails"
  then show "tables (reapDatabases e m c dbs tbls) db = closeQuery (NOW e db) c (tbls db)"
    by (simp add: reapDatabases_tables)
next
  assume "validDBName e db \<and> faults e db = Some CountFails"
  then show "reapDatabases e m c [db] tbls =
        \<lparr>totalReaped = 0, totalOpen = 0, logger = [LogError db CountOpenWisps],
         tables = tbls(db := closeQuery (NOW e db) c (tbls db))\<rparr>"
    by (simp add: reapDatabases_def reapWispsInDB_fault wispAlertThreshold_def)
qed


theorem errored_stores_are_left_out_of_the_totals_witness:
  "faults sampleEnv ''beads'' = Some CountFails \<and> validDBName sampleEnv ''beads'' \<and>
   rowsAffected 50000 (sampleTables ''beads'') = 1 \<and>
   tables (reapDatabases sampleEnv defaultWispMaxAge 50000
             [''bad;name'', ''gone'', ''beads'', ''hq''] sampleTables) ''beads'' =
     [\<lparr>status = st_closed, created_at = Some 1, closed_at = Some 100000000000001\<rparr>] \<and>
   totalReaped (reapDatabases sampleEnv defaultWispMaxAge 50000
             [''bad;name'', ''gone'', ''beads'', ''hq''] sampleTables) = 2 \<and>
   rowsAffected 50000 (sampleTables ''hq'') = 2 \<and>
   totalOpen (reapDatabases sampleEnv defaultWispMaxAge 50000
             [''bad;name'', ''gone'', ''beads'', ''hq''] sampleTables) = 2 \<and>
   reapDatabases sampleEnv defaultWispMaxAge 50000 [''beads''] sampleTables =
     \<lparr>totalReaped = 0, totalOpen = 0, logger = [LogError ''beads'' CountOpenWisps],
      tables = sampleTables
        (''beads'' := closeQuery (NOW sampleEnv ''beads'') 50000 (sampleTables ''beads''))\<rparr>"
  using
    errored_stores_are_left_out_of_the_totals [of sampleEnv defaultWispMaxAge 50000
      "[''bad;name'', ''gone'', ''beads'', ''hq'']" sampleTables "''beads''"]
  by (simp add: sample_sweep sample_env_fields sample_beads_rowsAffected sample_hq_rowsAffected
      sample_beads_closeQuery)


subsection \<open>Claim C3: the escalation threshold\<close>

text \<open>
  C3. A sweep logs the warning exactly when its total of open wisps is greater than 500,
  the warning carries that total and the threshold, and the total is the sum, over the
  databases that were reaped without an error, of the open wisps each one holds after
  the sweep. The same holds for whatever \<^verbatim>\<open>reapWisps\<close> logs.
\<close>

theorem escalation_exactly_above_the_threshold:
  "((\<exists>n t. LogWarning n t \<in> set (logger (reapDatabases e m c dbs tbls))) \<longleftrightarrow>
      500 < totalOpen (reapDatabases e m c dbs tbls)) \<and>
   (\<forall>n t. LogWarning n t \<in> set (logger (reapDatabases e m c dbs tbls)) \<longrightarrow>
      n = totalOpen (reapDatabases e m c dbs tbls) \<and> t = wispAlertThreshold) \<and>
   wispAlertThreshold = 500 \<and>
   totalOpen (reapDatabases e m c dbs tbls) =
     sum_list (map (\<lambda>db. countQuery (tables (reapDatabases e m c dbs tbls) db))
                 (filter (\<lambda>db. validDBName e db \<and> faults e db = None) dbs)) \<and>
   (\<forall>r. reapWisps e d tbls = Inr r \<longrightarrow>
      ((\<exists>n t. LogWarning n t \<in> set (logger r)) \<longleftrightarrow> 500 < totalOpen r))"
proof (intro conjI allI impI)
  show iff: "(\<exists>n t. LogWarning n t \<in> set (logger (reapDatabases e m c dbs tbls))) \<longleftrightarrow>
      500 < totalOpen (reapDatabases e m c dbs tbls)" for m c dbs
    by (simp add: reapDatabases_warning wispAlertThreshold_def)
  show "wispAlertThreshold = 500" by (simp add: wispAlertThreshold_def)
  show "totalOpen (reapDatabases e m c dbs tbls) =
     sum_list (map (\<lambda>db. countQuery (tables (reapDatabases e m c dbs tbls) db))
                 (filter (\<lambda>db. validDBName e db \<and> faults e db = None) dbs))"
    by (rule reapDatabases_totalOpen)
  fix r assume "reapWisps e d tbls = Inr r"
  from reapWisps_cases [OF this]
  consider (disabled) "r = \<lparr>totalReaped = 0, totalOpen = 0, logger = [], tables = tbls\<rparr>"
    | (swept) m' c' dbs' where "r = reapDatabases e m' c' dbs' tbls"
    by blast
  then show "(\<exists>n t. LogWarning n t \<in> set (logger r)) \<longleftrightarrow> 500 < totalOpen r"
  proof cases
    case disabled
    then show ?thesis by simp
  next
    case swept
    then show ?thesis using iff [of m' c' dbs'] by simp
  qed
next
  fix n t assume "LogWarning n t \<in> set (logger (reapDatabases e m c dbs tbls))"
  then show "n = totalOpen (reapDatabases e m c dbs tbls)" and "t = wispAlertThreshold"
    by (simp_all add: reapDatabases_warning)
qed

theorem escalation_exactly_above_the_threshold_witness:
  "logger (reapDatabases sampleEnv defaultWispMaxAge 50000 [''hq'', ''gastown'']
            (\<lambda>x. if x = ''hq'' then freshOpen 300 else freshOpen 201)) = [LogWarning 501 500] \<and>
   totalOpen (reapDatabases sampleEnv defaultWispMaxAge 50000 [''hq'', ''gastown'']
            (\<lambda>x. if x = ''hq'' then freshOpen 300 else freshOpen 201)) = 501 \<and>
   logger (reapDatabases sampleEnv defaultWispMaxAge 50000 [''hq'', ''gastown'']
            (\<lambda>x. if x = ''hq'' then freshOpen 300 else freshOpen 200)) = [] \<and>
   totalOpen (reapDatabases sampleEnv defaultWispMaxAge 50000 [''hq'', ''gastown'']
            (\<lambda>x. if x = ''hq'' then freshOpen 300 else freshOpen 200)) = 500 \<and>
   (\<exists>r. reapWisps sampleEnv (sampleDaemon [''hq'', ''gastown''])
            (\<lambda>x. if x = ''hq'' then freshOpen 300 else freshOpen 201) = Inr r \<and>
        logger r = [LogWarning 501 500]) \<and>
   (\<exists>r. reapWisps sampleEnv (sampleDaemon [''hq'', ''gastown''])
            (\<lambda>x. if x = ''hq'' then freshOpen 300 else freshOpen 200) = Inr r \<and>
        logger r = [])"
  using
    escalation_exactly_above_the_threshold [of sampleEnv defaultWispMaxAge 50000
      "[''hq'', ''gastown'']" "\<lambda>x. if x = ''hq'' then freshOpen 300 else freshOpen 201"
      "sampleDaemon [''hq'', ''gastown'']"]
    escalation_exactly_above_the_threshold [of sampleEnv defaultWispMaxAge 50000
      "[''hq'', ''gastown'']" "\<lambda>x. if x = ''hq'' then freshOpen 300 else freshOpen 200"
      "sampleDaemon [''hq'', ''gastown'']"]
  by (simp add: sample_reapWisps fresh_sweep)

section \<open>Properties of the event printer\<close>

lemma scanEvents_short:
  "\<forall>l \<in> set lines. length l < maxTokenSize \<Longrightarrow>
   scanEvents parse lines events = (events @ parsedEvents parse lines, False)"
proof (induction lines arbitrary: events)
  case Nil
  then show ?case by (simp add: parsedEvents_def List.map_filter_simps)
next
  case (Cons l ls)
  then show ?case
    by (cases "parse (dropCR l)") (simp_all add: parsedEvents_def List.map_filter_simps)
qed

lemma scanEvents_too_long:
  "\<exists>l \<in> set lines. maxTokenSize \<le> length l \<Longrightarrow> snd (scanEvents parse lines events) = True"
proof (induction lines arbitrary: events)
  case Nil
  then show ?case by simp
next
  case (Cons l ls)
  then show ?case by (cases "maxTokenSize \<le> length l") auto
qed

lemma newest_first_split:
  assumes sorted: "sorted_wrt (\<lambda>a b. \<not> timeAfter b a) sorted_events"
  shows "\<forall>a \<in> set (take k sorted_events). \<forall>b \<in> set (drop k sorted_events). Time b \<le> Time a"
proof -
  from sorted have "sorted_wrt (\<lambda>a b. \<not> timeAfter b a) (take k sorted_events @ drop k sorted_events)"
    by simp
  then show ?thesis
    unfolding sorted_wrt_append by (auto simp add: timeAfter_def not_less)
qed

lemma oldest_first_rev:
  assumes sorted: "sorted_wrt (\<lambda>a b. \<not> timeAfter b a) sorted_events"
  shows "sorted_wrt (\<lambda>a b. Time a \<le> Time b) (rev (take k sorted_events))"
proof -
  from sorted have "sorted_wrt (\<lambda>a b. \<not> timeAfter b a) (take k sorted_events)"
    by (rule sorted_wrt_take)
  then have "sorted_wrt (\<lambda>a b. Time b \<le> Time a) (take k sorted_events)"
    by (simp add: timeAfter_def not_less)
  then show ?thesis
    by (simp add: sorted_wrt_rev)
qed

subsection \<open>Claim C10: the most recent events, oldest first\<close>

text \<open>
  C10, as amended. For an events file all of whose lines are shorter than the scanner's
  buffer of 1 MiB, a limit greater than zero, and a \<^verbatim>\<open>sort.Slice\<close> that returns a
  permutation ordered by the comparison: \<^verbatim>\<open>PrintGtEvents\<close> returns no error and prints
  one line for each event of a list \<open>printed\<close>, or the single line \<^verbatim>\<open>No events found\<close> when
  that list is empty, which it is when no line parses. The list holds at most \<open>limit\<close>
  events, that is all of the parsed ones or \<open>limit\<close> of them, every one of them is at
  least as recent as every parsed event left out, and it is in chronological order.
\<close>

theorem PrintGtEvents_prints_the_most_recent_in_order:
  assumes short: "\<forall>l \<in> set lines. length l < maxTokenSize"
    and limit: "0 < limit"
    and perm: "mset (sortSlice timeAfter (parsedEvents parse lines)) = mset (parsedEvents parse lines)"
    and sorted: "sorted_wrt (\<lambda>a b. \<not> timeAfter b a) (sortSlice timeAfter (parsedEvents parse lines))"
  shows "\<exists>printed.
    PrintGtEvents sortSlice parse formatTime (EventsFile lines) limit =
      (if printed = [] then [NoEventsFound] else map (printEvent formatTime) printed, None) \<and>
    int (length printed) \<le> limit \<and>
    length printed = min (nat limit) (length (parsedEvents parse lines)) \<and>
    mset printed \<subseteq># mset (parsedEvents parse lines) \<and>
    (\<forall>a \<in># mset printed. \<forall>b \<in># mset (parsedEvents parse lines) - mset printed. Time b \<le> Time a) \<and>
    sorted_wrt (\<lambda>a b. Time a \<le> Time b) printed \<and>
    (parsedEvents parse lines = [] \<longrightarrow> printed = [])"
proof -
  let ?parsed = "parsedEvents parse lines"
  let ?s = "sortSlice timeAfter ?parsed"
  let ?k = "nat limit"
  let ?printed = "rev (take ?k ?s)"
  have len: "length ?s = length ?parsed"
    using perm by (metis size_mset)
  have scan: "scanEvents parse lines [] = (?parsed, False)"
    using scanEvents_short [OF short, of parse "[]"] by simp
  have cut: "(if limit > 0 \<and> int (length ?s) > limit then take ?k ?s else ?s) = take ?k ?s"
    using limit by auto
  have run: "PrintGtEvents sortSlice parse formatTime (EventsFile lines) limit =
      (if ?printed = [] then [NoEventsFound] else map (printEvent formatTime) ?printed, None)"
    by (simp add: PrintGtEvents_def scan cut Let_def)
  have bound: "int (length ?printed) \<le> limit"
    using limit by simp
  have count: "length ?printed = min ?k (length ?parsed)"
    by (simp add: len min.commute)
  have split: "mset ?s = mset ?printed + mset (drop ?k ?s)"
    by (metis append_take_drop_id mset_append mset_rev)
  then have sub: "mset ?printed \<subseteq># mset ?parsed"
    using perm by (metis mset_subset_eq_add_left)
  have rest: "mset ?parsed - mset ?printed = mset (drop ?k ?s)"
    using split perm by (metis add_diff_cancel_left')
  have recent: "\<forall>a \<in># mset ?printed. \<forall>b \<in># mset ?parsed - mset ?printed. Time b \<le> Time a"
    unfolding rest using newest_first_split [OF sorted, of ?k] by simp
  have order: "sorted_wrt (\<lambda>a b. Time a \<le> Time b) ?printed"
    by (rule oldest_first_rev [OF sorted])
  have none: "?parsed = [] \<longrightarrow> ?printed = []"
    using len by auto
  from run bound count sub recent order none show ?thesis by blast
qed

theorem PrintGtEvents_prints_the_most_recent_in_order_witness:
  "PrintGtEvents sampleSort sampleParse sampleFormat
     (EventsFile [''done'', ''# x'', ''sling'', ''merge_failed'', ''ab'']) 2 =
     ([EventLine ''late'' [CHR 0xF0, CHR 0x9F, CHR 0x8E, CHR 0xAF] ''system'' ''sling'',
       EventLine ''late'' [CHR 0xE2, CHR 0x9C, CHR 0x97] ''system'' ''merge_failed''], None) \<and>
   PrintGtEvents sampleSort sampleParse sampleFormat (EventsFile [''# nothing'', []]) 2 =
     ([NoEventsFound], None)"
proof -
  have p1: "parsedEvents sampleParse [''done'', ''# x'', ''sling'', ''merge_failed'', ''ab''] =
      [\<lparr>Time = 4, Type = ''done'', Actor = [], Message = ''done''\<rparr>,
       \<lparr>Time = 5, Type = ''sling'', Actor = [], Message = ''sling''\<rparr>,
       \<lparr>Time = 12, Type = ''merge_failed'', Actor = [], Message = ''merge_failed''\<rparr>,
       \<lparr>Time = 2, Type = ''ab'', Actor = [], Message = ''ab''\<rparr>]"
    by (simp add: parsedEvents_def sampleParse_def dropCR_def List.map_filter_simps)
  have s1: "sampleSort timeAfter
      [\<lparr>Time = 4, Type = ''done'', Actor = [], Message = ''done''\<rparr>,
       \<lparr>Time = 5, Type = ''sling'', Actor = [], Message = ''sling''\<rparr>,
       \<lparr>Time = 12, Type = ''merge_failed'', Actor = [], Message = ''merge_failed''\<rparr>,
       \<lparr>Time = 2, Type = ''ab'', Actor = [], Message = ''ab''\<rparr>] =
      [\<lparr>Time = 12, Type = ''merge_failed'', Actor = [], Message = ''merge_failed''\<rparr>,
       \<lparr>Time = 5, Type = ''sling'', Actor = [], Message = ''sling''\<rparr>,
       \<lparr>Time = 4, Type = ''done'', Actor = [], Message = ''done''\<rparr>,
       \<lparr>Time = 2, Type = ''ab'', Actor = [], Message = ''ab''\<rparr>]"
    by (simp add: sampleSort_def timeAfter_def)
  have p2: "parsedEvents sampleParse [''# nothing'', []] = []"
    by (simp add: parsedEvents_def sampleParse_def dropCR_def List.map_filter_simps)
  have s2: "sampleSort timeAfter [] = []"
    by (simp add: sampleSort_def)
  have short1: "\<forall>l \<in> set [''done'', ''# x'', ''sling'', ''merge_failed'', ''ab'']. length l < maxTokenSize"
    by (simp add: maxTokenSize_def)
  have short2: "\<forall>l \<in> set [''# nothing'', []]. length l < maxTokenSize"
    by (simp add: maxTokenSize_def)
  have perm1: "mset (sampleSort timeAfter (parsedEvents sampleParse [''done'', ''# x'', ''sling'', ''merge_failed'', ''ab''])) =
      mset (parsedEvents sampleParse [''done'', ''# x'', ''sling'', ''merge_failed'', ''ab''])"
    unfolding p1 s1 by (simp add: add.commute add.left_commute)
  have sorted1: "sorted_wrt (\<lambda>a b. \<not> timeAfter b a)
      (sampleSort timeAfter (parsedEvents sampleParse [''done'', ''# x'', ''sling'', ''merge_failed'', ''ab'']))"
    unfolding p1 s1 by (simp add: timeAfter_def)
  have perm2: "mset (sampleSort timeAfter (parsedEvents sampleParse [''# nothing'', []])) =
      mset (parsedEvents sampleParse [''# nothing'', []])"
    unfolding p2 s2 by simp
  have sorted2: "sorted_wrt (\<lambda>a b. \<not> timeAfter b a)
      (sampleSort timeAfter (parsedEvents sampleParse [''# nothing'', []]))"
    unfolding p2 s2 by simp
  have two: "(0::int) < 2" by simp
  show ?thesis
    using
      PrintGtEvents_prints_the_most_recent_in_order
        [where sortSlice = sampleSort and parse = sampleParse and formatTime = sampleFormat
           and lines = "[''done'', ''# x'', ''sling'', ''merge_failed'', ''ab'']" and limit = 2,
         OF short1 two perm1 sorted1]
      PrintGtEvents_prints_the_most_recent_in_order
        [where sortSlice = sampleSort and parse = sampleParse and formatTime = sampleFormat
           and lines = "[''# nothing'', []]" and limit = 2,
         OF short2 two perm2 sorted2]
    by (simp add: PrintGtEvents_def p1 s1 p2 s2 printEvent_def typeSymbol_def sampleFormat_def
        maxTokenSize_def sampleParse_def dropCR_def)
qed

text \<open>
  The claim as stated, for every events file, fails on a file with a line of 1 MiB: the
  scanner stops with an error, nothing is printed and the error is returned, both when
  no line parses and when an earlier line has parsed.
\<close>

theorem PrintGtEvents_fails_on_an_overlong_line:
  "PrintGtEvents sampleSort (\<lambda>line. None) sampleFormat
     (EventsFile [replicate 1048576 (CHR ''a'')]) 1 = ([], Some ReadingEvents) \<and>
   parsedEvents (\<lambda>line. None) [replicate 1048576 (CHR ''a'')] = [] \<and>
   PrintGtEvents sampleSort sampleParse sampleFormat
     (EventsFile [''done'', replicate 1048576 (CHR ''a'')]) 1 = ([], Some ReadingEvents) \<and>
   hd (parsedEvents sampleParse [''done'', replicate 1048576 (CHR ''a'')]) =
     \<lparr>Time = 4, Type = ''done'', Actor = [], Message = ''done''\<rparr>"
  by (simp add: PrintGtEvents_def maxTokenSize_def parsedEvents_def sampleParse_def dropCR_def
      List.map_filter_simps)

section \<open>Properties of the operational thresholds\<close>

lemma session_nil_receiver:
  "ClaudeStartTimeoutD ParseDurationOrDefault None = DefaultClaudeStartTimeout \<and>
   ShellReadyTimeoutD ParseDurationOrDefault None = DefaultShellReadyTimeout \<and>
   GracefulShutdownTimeoutD ParseDurationOrDefault None = DefaultGracefulShutdownTimeout \<and>
   BdCommandTimeoutD ParseDurationOrDefault None = DefaultBdCommandTimeout \<and>
   BdSubprocessTimeoutD ParseDurationOrDefault None = DefaultBdSubprocessTimeout \<and>
   GUPPViolationTimeoutD ParseDurationOrDefault None = DefaultGUPPViolationTimeout \<and>
   HungSessionThresholdD ParseDurationOrDefault None = DefaultHungSessionThreshold \<and>
   StartupNudgeVerifyDelayD ParseDurationOrDefault None = DefaultStartupNudgeVerifyDelay \<and>
   StartupNudgeMaxRetriesV None = DefaultStartupNudgeMaxRetries"
  by (simp_all add: ClaudeStartTimeoutD_def ShellReadyTimeoutD_def GracefulShutdownTimeoutD_def BdCommandTimeoutD_def BdSubprocessTimeoutD_def GUPPViolationTimeoutD_def HungSessionThresholdD_def StartupNudgeVerifyDelayD_def StartupNudgeMaxRetriesV_def)

lemma session_unset_field:
  assumes "\<forall>def. ParseDurationOrDefault [] def = def"
  shows "(ClaudeStartTimeout t = [] \<longrightarrow> ClaudeStartTimeoutD ParseDurationOrDefault (Some t) = DefaultClaudeStartTimeout) \<and>
   (ShellReadyTimeout t = [] \<longrightarrow> ShellReadyTimeoutD ParseDurationOrDefault (Some t) = DefaultShellReadyTimeout) \<and>
   (GracefulShutdownTimeout t = [] \<longrightarrow> GracefulShutdownTimeoutD ParseDurationOrDefault (Some t) = DefaultGracefulShutdownTimeout) \<and>
   (BdCommandTimeout t = [] \<longrightarrow> BdCommandTimeoutD ParseDurationOrDefault (Some t) = DefaultBdCommandTimeout) \<and>
   (BdSubprocessTimeout t = [] \<longrightarrow> BdSubprocessTimeoutD ParseDurationOrDefault (Some t) = DefaultBdSubprocessTimeout) \<and>
   (GUPPViolationTimeout t = [] \<longrightarrow> GUPPViolationTimeoutD ParseDurationOrDefault (Some t) = DefaultGUPPViolationTimeout) \<and>
   (HungSessionThreshold t = [] \<longrightarrow> HungSessionThresholdD ParseDurationOrDefault (Some t) = DefaultHungSessionThreshold) \<and>
   (StartupNudgeVerifyDelay t = [] \<longrightarrow> StartupNudgeVerifyDelayD ParseDurationOrDefault (Some t) = DefaultStartupNudgeVerifyDelay) \<and>
   (StartupNudgeMaxRetries t = None \<longrightarrow> StartupNudgeMaxRetriesV (Some t) = DefaultStartupNudgeMaxRetries)"
  using assms by (simp add: ClaudeStartTimeoutD_def ShellReadyTimeoutD_def GracefulShutdownTimeoutD_def BdCommandTimeoutD_def BdSubprocessTimeoutD_def GUPPViolationTimeoutD_def HungSessionThresholdD_def StartupNudgeVerifyDelayD_def StartupNudgeMaxRetriesV_def)

lemma GetSessionConfig_not_nil: "GetSessionConfig c \<noteq> None"
  by (simp add: GetSessionConfig_def split: option.split)

lemma GetSessionConfig_of_nil:
  "GetSessionConfig None = Some zeroSessionThresholds" "GetSessionConfig (Some zeroOperationalConfig) = Some zeroSessionThresholds"
  by (simp_all add: GetSessionConfig_def zeroOperationalConfig_def)

lemma session_through_getter:
  assumes "\<forall>def. ParseDurationOrDefault [] def = def"
  shows "ClaudeStartTimeoutD ParseDurationOrDefault (GetSessionConfig None) = DefaultClaudeStartTimeout \<and>
   ClaudeStartTimeoutD ParseDurationOrDefault (GetSessionConfig (Some zeroOperationalConfig)) = DefaultClaudeStartTimeout \<and>
   ShellReadyTimeoutD ParseDurationOrDefault (GetSessionConfig None) = DefaultShellReadyTimeout \<and>
   ShellReadyTimeoutD ParseDurationOrDefault (GetSessionConfig (Some zeroOperationalConfig)) = DefaultShellReadyTimeout \<and>
   GracefulShutdownTimeoutD ParseDurationOrDefault (GetSessionConfig None) = DefaultGracefulShutdownTimeout \<and>
   GracefulShutdownTimeoutD ParseDurationOrDefault (GetSessionConfig (Some zeroOperationalConfig)) = DefaultGracefulShutdownTimeout \<and>
   BdCommandTimeoutD ParseDurationOrDefault (GetSessionConfig None) = DefaultBdCommandTimeout \<and>
   BdCommandTimeoutD ParseDurationOrDefault (GetSessionConfig (Some zeroOperationalConfig)) = DefaultBdCommandTimeout \<and>
   BdSubprocessTimeoutD ParseDurationOrDefault (GetSessionConfig None) = DefaultBdSubprocessTimeout \<and>
   BdSubprocessTimeoutD ParseDurationOrDefault (GetSessionConfig (Some zeroOperationalConfig)) = DefaultBdSubprocessTimeout \<and>
   GUPPViolationTimeoutD ParseDurationOrDefault (GetSessionConfig None) = DefaultGUPPViolationTimeout \<and>
   GUPPViolationTimeoutD ParseDurationOrDefault (GetSessionConfig (Some zeroOperationalConfig)) = DefaultGUPPViolationTimeout \<and>
   HungSessionThresholdD ParseDurationOrDefault (GetSessionConfig None) = DefaultHungSessionThreshold \<and>
   HungSessionThresholdD ParseDurationOrDefault (GetSessionConfig (Some zeroOperationalConfig)) = DefaultHungSessionThreshold \<and>
   StartupNudgeVerifyDelayD ParseDurationOrDefault (GetSessionConfig None) = DefaultStartupNudgeVerifyDelay \<and>
   StartupNudgeVerifyDelayD ParseDurationOrDefault (GetSessionConfig (Some zeroOperationalConfig)) = DefaultStartupNudgeVerifyDelay \<and>
   StartupNudgeMaxRetriesV (GetSessionConfig None) = DefaultStartupNudgeMaxRetries \<and>
   StartupNudgeMaxRetriesV (GetSessionConfig (Some zeroOperationalConfig)) = DefaultStartupNudgeMaxRetries"
  using session_unset_field [where ParseDurationOrDefault = ParseDurationOrDefault and t = zeroSessionThresholds, OF assms]
  by (simp add: GetSessionConfig_of_nil zeroSessionThresholds_def)

lemma nudge_nil_receiver:
  "ReadyTimeoutD ParseDurationOrDefault None = DefaultNudgeReadyTimeout \<and>
   RetryIntervalD ParseDurationOrDefault None = DefaultNudgeRetryInterval \<and>
   LockTimeoutD ParseDurationOrDefault None = DefaultNudgeLockTimeout \<and>
   NormalTTLD ParseDurationOrDefault None = DefaultNudgeNormalTTL \<and>
   UrgentTTLD ParseDurationOrDefault None = DefaultNudgeUrgentTTL \<and>
   MaxQueueDepthV None = DefaultNudgeMaxQueueDepth \<and>
   StaleClaimThresholdD ParseDurationOrDefault None = DefaultNudgeStaleClaimTimeout"
  by (simp_all add: ReadyTimeoutD_def RetryIntervalD_def LockTimeoutD_def NormalTTLD_def UrgentTTLD_def MaxQueueDepthV_def StaleClaimThresholdD_def)

lemma nudge_unset_field:
  assumes "\<forall>def. ParseDurationOrDefault [] def = def"
  shows "(ReadyTimeout t = [] \<longrightarrow> ReadyTimeoutD ParseDurationOrDefault (Some t) = DefaultNudgeReadyTimeout) \<and>
   (RetryInterval t = [] \<longrightarrow> RetryIntervalD ParseDurationOrDefault (Some t) = DefaultNudgeRetryInterval) \<and>
   (LockTimeout t = [] \<longrightarrow> LockTimeoutD ParseDurationOrDefault (Some t) = DefaultNudgeLockTimeout) \<and>
   (NormalTTL t = [] \<longrightarrow> NormalTTLD ParseDurationOrDefault (Some t) = DefaultNudgeNormalTTL) \<and>
   (UrgentTTL t = [] \<longrightarrow> UrgentTTLD ParseDurationOrDefault (Some t) = DefaultNudgeUrgentTTL) \<and>
   (MaxQueueDepth t = None \<longrightarrow> MaxQueueDepthV (Some t) = DefaultNudgeMaxQueueDepth) \<and>
   (StaleClaimThreshold t = [] \<longrightarrow> StaleClaimThresholdD ParseDurationOrDefault (Some t) = DefaultNudgeStaleClaimTimeout)"
  using assms by (simp add: ReadyTimeoutD_def RetryIntervalD_def LockTimeoutD_def NormalTTLD_def UrgentTTLD_def MaxQueueDepthV_def StaleClaimThresholdD_def)

lemma GetNudgeConfig_not_nil: "GetNudgeConfig c \<noteq> None"
  by (simp add: GetNudgeConfig_def split: option.split)

lemma GetNudgeConfig_of_nil:
  "GetNudgeConfig None = Some zeroNudgeThresholds" "GetNudgeConfig (Some zeroOperationalConfig) = Some zeroNudgeThresholds"
  by (simp_all add: GetNudgeConfig_def zeroOperationalConfig_def)

lemma nudge_through_getter:
  assumes "\<forall>def. ParseDurationOrDefault [] def = def"
  shows "ReadyTimeoutD ParseDurationOrDefault (GetNudgeConfig None) = DefaultNudgeReadyTimeout \<and>
   ReadyTimeoutD ParseDurationOrDefault (GetNudgeConfig (Some zeroOperationalConfig)) = DefaultNudgeReadyTimeout \<and>
   RetryIntervalD ParseDurationOrDefault (GetNudgeConfig None) = DefaultNudgeRetryInterval \<and>
   RetryIntervalD ParseDurationOrDefault (GetNudgeConfig (Some zeroOperationalConfig)) = DefaultNudgeRetryInterval \<and>
   LockTimeoutD ParseDurationOrDefault (GetNudgeConfig None) = DefaultNudgeLockTimeout \<and>
   LockTimeoutD ParseDurationOrDefault (GetNudgeConfig (Some zeroOperationalConfig)) = DefaultNudgeLockTimeout \<and>
   NormalTTLD ParseDurationOrDefault (GetNudgeConfig None) = DefaultNudgeNormalTTL \<and>
   NormalTTLD ParseDurationOrDefault (GetNudgeConfig (Some zeroOperationalConfig)) = DefaultNudgeNormalTTL \<and>
   UrgentTTLD ParseDurationOrDefault (GetNudgeConfig None) = DefaultNudgeUrgentTTL \<and>
   UrgentTTLD ParseDurationOrDefault (GetNudgeConfig (Some zeroOperationalConfig)) = DefaultNudgeUrgentTTL \<and>
   MaxQueueDepthV (GetNudgeConfig None) = DefaultNudgeMaxQueueDepth \<and>
   MaxQueueDepthV (GetNudgeConfig (Some zeroOperationalConfig)) = DefaultNudgeMaxQueueDepth \<and>
   StaleClaimThresholdD ParseDurationOrDefault (GetNudgeConfig None) = DefaultNudgeStaleClaimTimeout \<and>
   StaleClaimThresholdD ParseDurationOrDefault (GetNudgeConfig (Some zeroOperationalConfig)) = DefaultNudgeStaleClaimTimeout"
  using nudge_unset_field [where ParseDurationOrDefault = ParseDurationOrDefault and t = zeroNudgeThresholds, OF assms]
  by (simp add: GetNudgeConfig_of_nil zeroNudgeThresholds_def)

lemma daemon_nil_receiver:
  "MassDeathWindowD ParseDurationOrDefault None = DefaultMassDeathWindow \<and>
   MassDeathThresholdV None = DefaultMassDeathThreshold \<and>
   DogIdleSessionTimeoutD ParseDurationOrDefault None = DefaultDogIdleSessionTimeout \<and>
   DogIdleRemoveTimeoutD ParseDurationOrDefault None = DefaultDogIdleRemoveTimeout \<and>
   StaleWorkingTimeoutD ParseDurationOrDefault None = DefaultStaleWorkingTimeout \<and>
   MaxDogPoolSizeV None = DefaultMaxDogPoolSize \<and>
   MaxLifecycleMessageAgeD ParseDurationOrDefault None = DefaultMaxLifecycleMessageAge \<and>
   SyncFailureEscalationThresholdV None = DefaultSyncFailureEscalationThreshold \<and>
   DoctorMolCooldownD ParseDurationOrDefault None = DefaultDoctorMolCooldown \<and>
   RecoveryHeartbeatIntervalD ParseDurationOrDefault None = DefaultRecoveryHeartbeatInterval \<and>
   BootSpawnCooldownD ParseDurationOrDefault None = DefaultBootSpawnCooldown \<and>
   DeaconGracePeriodD ParseDurationOrDefault None = DefaultDeaconGracePeriod"
  by (simp_all add: MassDeathWindowD_def MassDeathThresholdV_def DogIdleSessionTimeoutD_def DogIdleRemoveTimeoutD_def StaleWorkingTimeoutD_def MaxDogPoolSizeV_def MaxLifecycleMessageAgeD_def SyncFailureEscalationThresholdV_def DoctorMolCooldownD_def RecoveryHeartbeatIntervalD_def BootSpawnCooldownD_def DeaconGracePeriodD_def)

lemma daemon_unset_field:
  assumes "\<forall>def. ParseDurationOrDefault [] def = def"
  shows "(MassDeathWindow t = [] \<longrightarrow> MassDeathWindowD ParseDurationOrDefault (Some t) = DefaultMassDeathWindow) \<and>
   (MassDeathThreshold t = None \<longrightarrow> MassDeathThresholdV (Some t) = DefaultMassDeathThreshold) \<and>
   (DogIdleSessionTimeout t = [] \<longrightarrow> DogIdleSessionTimeoutD ParseDurationOrDefault (Some t) = DefaultDogIdleSessionTimeout) \<and>
   (DogIdleRemoveTimeout t = [] \<longrightarrow> DogIdleRemoveTimeoutD ParseDurationOrDefault (Some t) = DefaultDogIdleRemoveTimeout) \<and>
   (StaleWorkingTimeout t = [] \<longrightarrow> StaleWorkingTimeoutD ParseDurationOrDefault (Some t) = DefaultStaleWorkingTimeout) \<and>
   (MaxDogPoolSize t = None \<longrightarrow> MaxDogPoolSizeV (Some t) = DefaultMaxDogPoolSize) \<and>
   (MaxLifecycleMessageAge t = [] \<longrightarrow> MaxLifecycleMessageAgeD ParseDurationOrDefault (Some t) = DefaultMaxLifecycleMessageAge) \<and>
   (SyncFailureEscalationThreshold t = None \<longrightarrow> SyncFailureEscalationThresholdV (Some t) = DefaultSyncFailureEscalationThreshold) \<and>
   (DoctorMolCooldown t = [] \<longrightarrow> DoctorMolCooldownD ParseDurationOrDefault (Some t) = DefaultDoctorMolCooldown) \<and>
   (RecoveryHeartbeatInterval t = [] \<longrightarrow> RecoveryHeartbeatIntervalD ParseDurationOrDefault (Some t) = DefaultRecoveryHeartbeatInterval) \<and>
   (BootSpawnCooldown t = [] \<longrightarrow> BootSpawnCooldownD ParseDurationOrDefault (Some t) = DefaultBootSpawnCooldown) \<and>
   (DeaconGracePeriod t = [] \<longrightarrow> DeaconGracePeriodD ParseDurationOrDefault (Some t) = DefaultDeaconGracePeriod)"
  using assms by (simp add: MassDeathWindowD_def MassDeathThresholdV_def DogIdleSessionTimeoutD_def DogIdleRemoveTimeoutD_def StaleWorkingTimeoutD_def MaxDogPoolSizeV_def MaxLifecycleMessageAgeD_def SyncFailureEscalationThresholdV_def DoctorMolCooldownD_def RecoveryHeartbeatIntervalD_def BootSpawnCooldownD_def DeaconGracePeriodD_def)

lemma GetDaemonConfig_not_nil: "GetDaemonConfig c \<noteq> None"
  by (simp add: GetDaemonConfig_def split: option.split)

lemma GetDaemonConfig_of_nil:
  "GetDaemonConfig None = Some zeroDaemonThresholds" "GetDaemonConfig (Some zeroOperationalConfig) = Some zeroDaemonThresholds"
  by (simp_all add: GetDaemonConfig_def zeroOperationalConfig_def)

lemma daemon_through_getter:
  assumes "\<forall>def. ParseDurationOrDefault [] def = def"
  shows "MassDeathWindowD ParseDurationOrDefault (GetDaemonConfig None) = DefaultMassDeathWindow \<and>
   MassDeathWindowD ParseDurationOrDefault (GetDaemonConfig (Some zeroOperationalConfig)) = DefaultMassDeathWindow \<and>
   MassDeathThresholdV (GetDaemonConfig None) = DefaultMassDeathThreshold \<and>
   MassDeathThresholdV (GetDaemonConfig (Some zeroOperationalConfig)) = DefaultMassDeathThreshold \<and>
   DogIdleSessionTimeoutD ParseDurationOrDefault (GetDaemonConfig None) = DefaultDogIdleSessionTimeout \<and>
   DogIdleSessionTimeoutD ParseDurationOrDefault (GetDaemonConfig (Some zeroOperationalConfig)) = DefaultDogIdleSessionTimeout \<and>
   DogIdleRemoveTimeoutD ParseDurationOrDefault (GetDaemonConfig None) = DefaultDogIdleRemoveTimeout \<and>
   DogIdleRemoveTimeoutD ParseDurationOrDefault (GetDaemonConfig (Some zeroOperationalConfig)) = DefaultDogIdleRemoveTimeout \<and>
   StaleWorkingTimeoutD ParseDurationOrDefault (GetDaemonConfig None) = DefaultStaleWorkingTimeout \<and>
   StaleWorkingTimeoutD ParseDurationOrDefault (GetDaemonConfig (Some zeroOperationalConfig)) = DefaultStaleWorkingTimeout \<and>
   MaxDogPoolSizeV (GetDaemonConfig None) = DefaultMaxDogPoolSize \<and>
   MaxDogPoolSizeV (GetDaemonConfig (Some zeroOperationalConfig)) = DefaultMaxDogPoolSize \<and>
   MaxLifecycleMessageAgeD ParseDurationOrDefault (GetDaemonConfig None) = DefaultMaxLifecycleMessageAge \<and>
   MaxLifecycleMessageAgeD ParseDurationOrDefault (GetDaemonConfig (Some zeroOperationalConfig)) = DefaultMaxLifecycleMessageAge \<and>
   SyncFailureEscalationThresholdV (GetDaemonConfig None) = DefaultSyncFailureEscalationThreshold \<and>
   SyncFailureEscalationThresholdV (GetDaemonConfig (Some zeroOperationalConfig)) = DefaultSyncFailureEscalationThreshold \<and>
   DoctorMolCooldownD ParseDurationOrDefault (GetDaemonConfig None) = DefaultDoctorMolCooldown \<and>
   DoctorMolCooldownD ParseDurationOrDefault (GetDaemonConfig (Some zeroOperationalConfig)) = DefaultDoctorMolCooldown \<and>
   RecoveryHeartbeatIntervalD ParseDurationOrDefault (GetDaemonConfig None) = DefaultRecoveryHeartbeatInterval \<and>
   RecoveryHeartbeatIntervalD ParseDurationOrDefault (GetDaemonConfig (Some zeroOperationalConfig)) = DefaultRecoveryHeartbeatInterval \<and>
   BootSpawnCooldownD ParseDurationOrDefault (GetDaemonConfig None) = DefaultBootSpawnCooldown \<and>
   BootSpawnCooldownD ParseDurationOrDefault (GetDaemonConfig (Some zeroOperationalConfig)) = DefaultBootSpawnCooldown \<and>
   DeaconGracePeriodD ParseDurationOrDefault (GetDaemonConfig None) = DefaultDeaconGracePeriod \<and>
   DeaconGracePeriodD ParseDurationOrDefault (GetDaemonConfig (Some zeroOperationalConfig)) = DefaultDeaconGracePeriod"
  using daemon_unset_field [where ParseDurationOrDefault = ParseDurationOrDefault and t = zeroDaemonThresholds, OF assms]
  by (simp add: GetDaemonConfig_of_nil zeroDaemonThresholds_def)

lemma deacon_nil_receiver:
  "PingTimeoutD ParseDurationOrDefault None = DefaultDeaconPingTimeout \<and>
   ConsecutiveFailuresV None = DefaultDeaconConsecutiveFailures \<and>
   CooldownD ParseDurationOrDefault None = DefaultDeaconCooldown \<and>
   HeartbeatStaleThresholdD ParseDurationOrDefault None = DefaultDeaconHeartbeatStaleThreshold \<and>
   HeartbeatVeryStaleThresholdD ParseDurationOrDefault None = DefaultDeaconHeartbeatVeryStale \<and>
   MaxRedispatchesV None = DefaultMaxRedispatches \<and>
   RedispatchCooldownD ParseDurationOrDefault None = DefaultRedispatchCooldown \<and>
   MaxFeedsPerCycleV None = DefaultMaxFeedsPerCycle \<and>
   FeedCooldownD ParseDurationOrDefault None = DefaultFeedCooldown"
  by (simp_all add: PingTimeoutD_def ConsecutiveFailuresV_def CooldownD_def HeartbeatStaleThresholdD_def HeartbeatVeryStaleThresholdD_def MaxRedispatchesV_def RedispatchCooldownD_def MaxFeedsPerCycleV_def FeedCooldownD_def)

lemma deacon_unset_field:
  assumes "\<forall>def. ParseDurationOrDefault [] def = def"
  shows "(PingTimeout t = [] \<longrightarrow> PingTimeoutD ParseDurationOrDefault (Some t) = DefaultDeaconPingTimeout) \<and>
   (ConsecutiveFailures t = None \<longrightarrow> ConsecutiveFailuresV (Some t) = DefaultDeaconConsecutiveFailures) \<and>
   (Cooldown t = [] \<longrightarrow> CooldownD ParseDurationOrDefault (Some t) = DefaultDeaconCooldown) \<and>
   (HeartbeatStaleThreshold t = [] \<longrightarrow> HeartbeatStaleThresholdD ParseDurationOrDefault (Some t) = DefaultDeaconHeartbeatStaleThreshold) \<and>
   (HeartbeatVeryStaleThreshold t = [] \<longrightarrow> HeartbeatVeryStaleThresholdD ParseDurationOrDefault (Some t) = DefaultDeaconHeartbeatVeryStale) \<and>
   (MaxRedispatches t = None \<longrightarrow> MaxRedispatchesV (Some t) = DefaultMaxRedispatches) \<and>
   (RedispatchCooldown t = [] \<longrightarrow> RedispatchCooldownD ParseDurationOrDefault (Some t) = DefaultRedispatchCooldown) \<and>
   (MaxFeedsPerCycle t = None \<longrightarrow> MaxFeedsPerCycleV (Some t) = DefaultMaxFeedsPerCycle) \<and>
   (FeedCooldown t = [] \<longrightarrow> FeedCooldownD ParseDurationOrDefault (Some t) = DefaultFeedCooldown)"
  using assms by (simp add: PingTimeoutD_def ConsecutiveFailuresV_def CooldownD_def HeartbeatStaleThresholdD_def HeartbeatVeryStaleThresholdD_def MaxRedispatchesV_def RedispatchCooldownD_def MaxFeedsPerCycleV_def FeedCooldownD_def)

lemma GetDeaconConfig_not_nil: "GetDeaconConfig c \<noteq> None"
  by (simp add: GetDeaconConfig_def split: option.split)

lemma GetDeaconConfig_of_nil:
  "GetDeaconConfig None = Some zeroDeaconThresholds" "GetDeaconConfig (Some zeroOperationalConfig) = Some zeroDeaconThresholds"
  by (simp_all add: GetDeaconConfig_def zeroOperationalConfig_def)

lemma deacon_through_getter:
  assumes "\<forall>def. ParseDurationOrDefault [] def = def"
  shows "PingTimeoutD ParseDurationOrDefault (GetDeaconConfig None) = DefaultDeaconPingTimeout \<and>
   PingTimeoutD ParseDurationOrDefault (GetDeaconConfig (Some zeroOperationalConfig)) = DefaultDeaconPingTimeout \<and>
   ConsecutiveFailuresV (GetDeaconConfig None) = DefaultDeaconConsecutiveFailures \<and>
   ConsecutiveFailuresV (GetDeaconConfig (Some zeroOperationalConfig)) = DefaultDeaconConsecutiveFailures \<and>
   CooldownD ParseDurationOrDefault (GetDeaconConfig None) = DefaultDeaconCooldown \<and>
   CooldownD ParseDurationOrDefault (GetDeaconConfig (Some zeroOperationalConfig)) = DefaultDeaconCooldown \<and>
   HeartbeatStaleThresholdD ParseDurationOrDefault (GetDeaconConfig None) = DefaultDeaconHeartbeatStaleThreshold \<and>
   HeartbeatStaleThresholdD ParseDurationOrDefault (GetDeaconConfig (Some zeroOperationalConfig)) = DefaultDeaconHeartbeatStaleThreshold \<and>
   HeartbeatVeryStaleThresholdD ParseDurationOrDefault (GetDeaconConfig None) = DefaultDeaconHeartbeatVeryStale \<and>
   HeartbeatVeryStaleThresholdD ParseDurationOrDefault (GetDeaconConfig (Some zeroOperationalConfig)) = DefaultDeaconHeartbeatVeryStale \<and>
   MaxRedispatchesV (GetDeaconConfig None) = DefaultMaxRedispatches \<and>
   MaxRedispatchesV (GetDeaconConfig (Some zeroOperationalConfig)) = DefaultMaxRedispatches \<and>
   RedispatchCooldownD ParseDurationOrDefault (GetDeaconConfig None) = DefaultRedispatchCooldown \<and>
   RedispatchCooldownD ParseDurationOrDefault (GetDeaconConfig (Some zeroOperationalConfig)) = DefaultRedispatchCooldown \<and>
   MaxFeedsPerCycleV (GetDeaconConfig None) = DefaultMaxFeedsPerCycle \<and>
   MaxFeedsPerCycleV (GetDeaconConfig (Some zeroOperationalConfig)) = DefaultMaxFeedsPerCycle \<and>
   FeedCooldownD ParseDurationOrDefault (GetDeaconConfig None) = DefaultFeedCooldown \<and>
   FeedCooldownD ParseDurationOrDefault (GetDeaconConfig (Some zeroOperationalConfig)) = DefaultFeedCooldown"
  using deacon_unset_field [where ParseDurationOrDefault = ParseDurationOrDefault and t = zeroDeaconThresholds, OF assms]
  by (simp add: GetDeaconConfig_of_nil zeroDeaconThresholds_def)

lemma polecat_nil_receiver:
  "HeartbeatStaleThresholdD_polecat ParseDurationOrDefault None = DefaultPolecatHeartbeatStale \<and>
   DoltMaxRetriesV None = DefaultPolecatDoltMaxRetries \<and>
   DoltBaseBackoffD ParseDurationOrDefault None = DefaultPolecatDoltBaseBackoff \<and>
   DoltBackoffMaxD ParseDurationOrDefault None = DefaultPolecatDoltBackoffMax \<and>
   PendingMaxAgeD ParseDurationOrDefault None = DefaultPolecatPendingMaxAge \<and>
   NamepoolSizeV None = DefaultPolecatNamepoolSize"
  by (simp_all add: HeartbeatStaleThresholdD_polecat_def DoltMaxRetriesV_def DoltBaseBackoffD_def DoltBackoffMaxD_def PendingMaxAgeD_def NamepoolSizeV_def)

lemma polecat_unset_field:
  assumes "\<forall>def. ParseDurationOrDefault [] def = def"
  shows "(HeartbeatStaleThreshold_polecat t = [] \<longrightarrow> HeartbeatStaleThresholdD_polecat ParseDurationOrDefault (Some t) = DefaultPolecatHeartbeatStale) \<and>
   (DoltMaxRetries t = None \<longrightarrow> DoltMaxRetriesV (Some t) = DefaultPolecatDoltMaxRetries) \<and>
   (DoltBaseBackoff t = [] \<longrightarrow> DoltBaseBackoffD ParseDurationOrDefault (Some t) = DefaultPolecatDoltBaseBackoff) \<and>
   (DoltBackoffMax t = [] \<longrightarrow> DoltBackoffMaxD ParseDurationOrDefault (Some t) = DefaultPolecatDoltBackoffMax) \<and>
   (PendingMaxAge t = [] \<longrightarrow> PendingMaxAgeD ParseDurationOrDefault (Some t) = DefaultPolecatPendingMaxAge) \<and>
   (NamepoolSize t = None \<longrightarrow> NamepoolSizeV (Some t) = DefaultPolecatNamepoolSize)"
  using assms by (simp add: HeartbeatStaleThresholdD_polecat_def DoltMaxRetriesV_def DoltBaseBackoffD_def DoltBackoffMaxD_def PendingMaxAgeD_def NamepoolSizeV_def)

lemma GetPolecatConfig_not_nil: "GetPolecatConfig c \<noteq> None"
  by (simp add: GetPolecatConfig_def split: option.split)

lemma GetPolecatConfig_of_nil:
  "GetPolecatConfig None = Some zeroPolecatThresholds" "GetPolecatConfig (Some zeroOperationalConfig) = Some zeroPolecatThresholds"
  by (simp_all add: GetPolecatConfig_def zeroOperationalConfig_def)

lemma polecat_through_getter:
  assumes "\<forall>def. ParseDurationOrDefault [] def = def"
  shows "HeartbeatStaleThresholdD_polecat ParseDurationOrDefault (GetPolecatConfig None) = DefaultPolecatHeartbeatStale \<and>
   HeartbeatStaleThresholdD_polecat ParseDurationOrDefault (GetPolecatConfig (Some zeroOperationalConfig)) = DefaultPolecatHeartbeatStale \<and>
   DoltMaxRetriesV (GetPolecatConfig None) = DefaultPolecatDoltMaxRetries \<and>
   DoltMaxRetriesV (GetPolecatConfig (Some zeroOperationalConfig)) = DefaultPolecatDoltMaxRetries \<and>
   DoltBaseBackoffD ParseDurationOrDefault (GetPolecatConfig None) = DefaultPolecatDoltBaseBackoff \<and>
   DoltBaseBackoffD ParseDurationOrDefault (GetPolecatConfig (Some zeroOperationalConfig)) = DefaultPolecatDoltBaseBackoff \<and>
   DoltBackoffMaxD ParseDurationOrDefault (GetPolecatConfig None) = DefaultPolecatDoltBackoffMax \<and>
   DoltBackoffMaxD ParseDurationOrDefault (GetPolecatConfig (Some zeroOperationalConfig)) = DefaultPolecatDoltBackoffMax \<and>
   PendingMaxAgeD ParseDurationOrDefault (GetPolecatConfig None) = DefaultPolecatPendingMaxAge \<and>
   PendingMaxAgeD ParseDurationOrDefault (GetPolecatConfig (Some zeroOperationalConfig)) = DefaultPolecatPendingMaxAge \<and>
   NamepoolSizeV (GetPolecatConfig None) = DefaultPolecatNamepoolSize \<and>
   NamepoolSizeV (GetPolecatConfig (Some zeroOperationalConfig)) = DefaultPolecatNamepoolSize"
  using polecat_unset_field [where ParseDurationOrDefault = ParseDurationOrDefault and t = zeroPolecatThresholds, OF assms]
  by (simp add: GetPolecatConfig_of_nil zeroPolecatThresholds_def)

lemma dolt_nil_receiver:
  "HealthCheckIntervalD ParseDurationOrDefault None = DefaultDoltHealthCheckInterval \<and>
   CmdTimeoutD ParseDurationOrDefault None = DefaultDoltCmdTimeout \<and>
   MaxConnectionsV None = DefaultDoltMaxConnections \<and>
   SlowQueryThresholdD ParseDurationOrDefault None = DefaultDoltSlowQueryThreshold"
  by (simp_all add: HealthCheckIntervalD_def CmdTimeoutD_def MaxConnectionsV_def SlowQueryThresholdD_def)

lemma dolt_unset_field:
  assumes "\<forall>def. ParseDurationOrDefault [] def = def"
  shows "(HealthCheckInterval t = [] \<longrightarrow> HealthCheckIntervalD ParseDurationOrDefault (Some t) = DefaultDoltHealthCheckInterval) \<and>
   (CmdTimeout t = [] \<longrightarrow> CmdTimeoutD ParseDurationOrDefault (Some t) = DefaultDoltCmdTimeout) \<and>
   (MaxConnections t = None \<longrightarrow> MaxConnectionsV (Some t) = DefaultDoltMaxConnections) \<and>
   (SlowQueryThreshold t = [] \<longrightarrow> SlowQueryThresholdD ParseDurationOrDefault (Some t) = DefaultDoltSlowQueryThreshold)"
  using assms by (simp add: HealthCheckIntervalD_def CmdTimeoutD_def MaxConnectionsV_def SlowQueryThresholdD_def)

lemma GetDoltConfig_not_nil: "GetDoltConfig c \<noteq> None"
  by (simp add: GetDoltConfig_def split: option.split)

lemma GetDoltConfig_of_nil:
  "GetDoltConfig None = Some zeroDoltThresholds" "GetDoltConfig (Some zeroOperationalConfig) = Some zeroDoltThresholds"
  by (simp_all add: GetDoltConfig_def zeroOperationalConfig_def)

lemma dolt_through_getter:
  assumes "\<forall>def. ParseDurationOrDefault [] def = def"
  shows "HealthCheckIntervalD ParseDurationOrDefault (GetDoltConfig None) = DefaultDoltHealthCheckInterval \<and>
   HealthCheckIntervalD ParseDurationOrDefault (GetDoltConfig (Some zeroOperationalConfig)) = DefaultDoltHealthCheckInterval \<and>
   CmdTimeoutD ParseDurationOrDefault (GetDoltConfig None) = DefaultDoltCmdTimeout \<and>
   CmdTimeoutD ParseDurationOrDefault (GetDoltConfig (Some zeroOperationalConfig)) = DefaultDoltCmdTimeout \<and>
   MaxConnectionsV (GetDoltConfig None) = DefaultDoltMaxConnections \<and>
   MaxConnectionsV (GetDoltConfig (Some zeroOperationalConfig)) = DefaultDoltMaxConnections \<and>
   SlowQueryThresholdD ParseDurationOrDefault (GetDoltConfig None) = DefaultDoltSlowQueryThreshold \<and>
   SlowQueryThresholdD ParseDurationOrDefault (GetDoltConfig (Some zeroOperationalConfig)) = DefaultDoltSlowQueryThreshold"
  using dolt_unset_field [where ParseDurationOrDefault = ParseDurationOrDefault and t = zeroDoltThresholds, OF assms]
  by (simp add: GetDoltConfig_of_nil zeroDoltThresholds_def)

lemma mail_nil_receiver:
  "IdleNotifyTimeoutD ParseDurationOrDefault None = DefaultMailIdleNotifyTimeout \<and>
   BdReadTimeoutD ParseDurationOrDefault None = DefaultMailBdReadTimeout \<and>
   BdWriteTimeoutD ParseDurationOrDefault None = DefaultMailBdWriteTimeout \<and>
   MaxConcurrentAckOpsV None = DefaultMailMaxConcurrentAcks"
  by (simp_all add: IdleNotifyTimeoutD_def BdReadTimeoutD_def BdWriteTimeoutD_def MaxConcurrentAckOpsV_def)

lemma mail_unset_field:
  assumes "\<forall>def. ParseDurationOrDefault [] def = def"
  shows "(IdleNotifyTimeout t = [] \<longrightarrow> IdleNotifyTimeoutD ParseDurationOrDefault (Some t) = DefaultMailIdleNotifyTimeout) \<and>
   (BdReadTimeout t = [] \<longrightarrow> BdReadTimeoutD ParseDurationOrDefault (Some t) = DefaultMailBdReadTimeout) \<and>
   (BdWriteTimeout t = [] \<longrightarrow> BdWriteTimeoutD ParseDurationOrDefault (Some t) = DefaultMailBdWriteTimeout) \<and>
   (MaxConcurrentAckOps t = None \<longrightarrow> MaxConcurrentAckOpsV (Some t) = DefaultMailMaxConcurrentAcks)"
  using assms by (simp add: IdleNotifyTimeoutD_def BdReadTimeoutD_def BdWriteTimeoutD_def MaxConcurrentAckOpsV_def)

lemma GetMailConfig_not_nil: "GetMailConfig c \<noteq> None"
  by (simp add: GetMailConfig_def split: option.split)

lemma GetMailConfig_of_nil:
  "GetMailConfig None = Some zeroMailThresholds" "GetMailConfig (Some zeroOperationalConfig) = Some zeroMailThresholds"
  by (simp_all add: GetMailConfig_def zeroOperationalConfig_def)

lemma mail_through_getter:
  assumes "\<forall>def. ParseDurationOrDefault [] def = def"
  shows "IdleNotifyTimeoutD ParseDurationOrDefault (GetMailConfig None) = DefaultMailIdleNotifyTimeout \<and>
   IdleNotifyTimeoutD ParseDurationOrDefault (GetMailConfig (Some zeroOperationalConfig)) = DefaultMailIdleNotifyTimeout \<and>
   BdReadTimeoutD ParseDurationOrDefault (GetMailConfig None) = DefaultMailBdReadTimeout \<and>
   BdReadTimeoutD ParseDurationOrDefault (GetMailConfig (Some zeroOperationalConfig)) = DefaultMailBdReadTimeout \<and>
   BdWriteTimeoutD ParseDurationOrDefault (GetMailConfig None) = DefaultMailBdWriteTimeout \<and>
   BdWriteTimeoutD ParseDurationOrDefault (GetMailConfig (Some zeroOperationalConfig)) = DefaultMailBdWriteTimeout \<and>
   MaxConcurrentAckOpsV (GetMailConfig None) = DefaultMailMaxConcurrentAcks \<and>
   MaxConcurrentAckOpsV (GetMailConfig (Some zeroOperationalConfig)) = DefaultMailMaxConcurrentAcks"
  using mail_unset_field [where ParseDurationOrDefault = ParseDurationOrDefault and t = zeroMailThresholds, OF assms]
  by (simp add: GetMailConfig_of_nil zeroMailThresholds_def)

lemma web_nil_receiver:
  "MaxConcurrentCommandsV None = DefaultWebMaxConcurrentCmds \<and>
   MaxSubjectLenV None = DefaultWebMaxSubjectLen \<and>
   MaxBodyLenV None = DefaultWebMaxBodyLen"
  by (simp_all add: MaxConcurrentCommandsV_def MaxSubjectLenV_def MaxBodyLenV_def)

lemma web_unset_field:
  assumes "\<forall>def. ParseDurationOrDefault [] def = def"
  shows "(MaxConcurrentCommands t = None \<longrightarrow> MaxConcurrentCommandsV (Some t) = DefaultWebMaxConcurrentCmds) \<and>
   (MaxSubjectLen t = None \<longrightarrow> MaxSubjectLenV (Some t) = DefaultWebMaxSubjectLen) \<and>
   (MaxBodyLen t = None \<longrightarrow> MaxBodyLenV (Some t) = DefaultWebMaxBodyLen)"
  using assms by (simp add: MaxConcurrentCommandsV_def MaxSubjectLenV_def MaxBodyLenV_def)

lemma GetWebConfig_not_nil: "GetWebConfig c \<noteq> None"
  by (simp add: GetWebConfig_def split: option.split)

lemma GetWebConfig_of_nil:
  "GetWebConfig None = Some zeroWebThresholds" "GetWebConfig (Some zeroOperationalConfig) = Some zeroWebThresholds"
  by (simp_all add: GetWebConfig_def zeroOperationalConfig_def)

lemma web_through_getter:
  assumes "\<forall>def. ParseDurationOrDefault [] def = def"
  shows "MaxConcurrentCommandsV (GetWebConfig None) = DefaultWebMaxConcurrentCmds \<and>
   MaxConcurrentCommandsV (GetWebConfig (Some zeroOperationalConfig)) = DefaultWebMaxConcurrentCmds \<and>
   MaxSubjectLenV (GetWebConfig None) = DefaultWebMaxSubjectLen \<and>
   MaxSubjectLenV (GetWebConfig (Some zeroOperationalConfig)) = DefaultWebMaxSubjectLen \<and>
   MaxBodyLenV (GetWebConfig None) = DefaultWebMaxBodyLen \<and>
   MaxBodyLenV (GetWebConfig (Some zeroOperationalConfig)) = DefaultWebMaxBodyLen"
  using web_unset_field [where ParseDurationOrDefault = ParseDurationOrDefault and t = zeroWebThresholds, OF assms]
  by (simp add: GetWebConfig_of_nil zeroWebThresholds_def)

lemma ParseDurationOrDefault_spec_empty:
  "parse [] = Inl err \<Longrightarrow> \<forall>def. ParseDurationOrDefault_spec parse [] def = def"
  by (simp add: ParseDurationOrDefault_spec_def)

lemma LoadOperationalConfig_not_nil:
  "LoadOperationalConfig load join townRoot \<noteq> None"
  by (simp add: LoadOperationalConfig_def Let_def split: prod.split option.split)

lemma LoadOperationalConfig_on_failure:
  "load (join [townRoot, ''settings'', ''config.json'']) = (ts, Some err) \<Longrightarrow>
   LoadOperationalConfig load join townRoot = Some zeroOperationalConfig"
  "load (join [townRoot, ''settings'', ''config.json'']) = (None, e) \<Longrightarrow>
   LoadOperationalConfig load join townRoot = Some zeroOperationalConfig"
  "load (join [townRoot, ''settings'', ''config.json'']) = (Some t, e) \<Longrightarrow> Operational t = None \<Longrightarrow>
   LoadOperationalConfig load join townRoot = Some zeroOperationalConfig"
  by (simp_all add: LoadOperationalConfig_def Let_def split: option.split)

subsection \<open>Claim C8: the accessors are total on nil\<close>

text \<open>
  C8. \<^verbatim>\<open>LoadOperationalConfig\<close> never returns nil, and returns the empty configuration when
  loading fails or the settings hold no operational section. Every \<^verbatim>\<open>Get...Config\<close>
  returns a struct for every receiver, nil included. Every threshold accessor returns
  its compiled-in default on a nil receiver, on a receiver whose field is unset, and on
  the struct that the getter makes from a nil configuration. For a duration field,
  unset is the empty string, and the accessor hands it to \<^verbatim>\<open>ParseDurationOrDefault\<close>: the
  hypothesis is that this helper returns the default for the empty string, as the
  package's tests of the defaults expect. The helper modelled from the specification
  does so for every parser that refuses the empty string.
\<close>

theorem operational_accessors_total_on_nil:
  assumes empty: "\<forall>def. ParseDurationOrDefault [] def = def"
  shows "LoadOperationalConfig load join townRoot \<noteq> None \<and>
   (\<forall>ts e. load (join [townRoot, ''settings'', ''config.json'']) = (ts, e) \<and>
      (e \<noteq> None \<or> ts = None \<or> (\<exists>t. ts = Some t \<and> Operational t = None)) \<longrightarrow>
      LoadOperationalConfig load join townRoot = Some zeroOperationalConfig) \<and>
   GetSessionConfig c \<noteq> None \<and>
   GetNudgeConfig c \<noteq> None \<and>
   GetDaemonConfig c \<noteq> None \<and>
   GetDeaconConfig c \<noteq> None \<and>
   GetPolecatConfig c \<noteq> None \<and>
   GetDoltConfig c \<noteq> None \<and>
   GetMailConfig c \<noteq> None \<and>
   GetWebConfig c \<noteq> None \<and>
   ClaudeStartTimeoutD ParseDurationOrDefault None = DefaultClaudeStartTimeout \<and>
   ShellReadyTimeoutD ParseDurationOrDefault None = DefaultShellReadyTimeout \<and>
   GracefulShutdownTimeoutD ParseDurationOrDefault None = DefaultGracefulShutdownTimeout \<and>
   BdCommandTimeoutD ParseDurationOrDefault None = DefaultBdCommandTimeout \<and>
   BdSubprocessTimeoutD ParseDurationOrDefault None = DefaultBdSubprocessTimeout \<and>
   GUPPViolationTimeoutD ParseDurationOrDefault None = DefaultGUPPViolationTimeout \<and>
   HungSessionThresholdD ParseDurationOrDefault None = DefaultHungSessionThreshold \<and>
   StartupNudgeVerifyDelayD ParseDurationOrDefault None = DefaultStartupNudgeVerifyDelay \<and>
   StartupNudgeMaxRetriesV None = DefaultStartupNudgeMaxRetries \<and>
   ReadyTimeoutD ParseDurationOrDefault None = DefaultNudgeReadyTimeout \<and>
   RetryIntervalD ParseDurationOrDefault None = DefaultNudgeRetryInterval \<and>
   LockTimeoutD ParseDurationOrDefault None = DefaultNudgeLockTimeout \<and>
   NormalTTLD ParseDurationOrDefault None = DefaultNudgeNormalTTL \<and>
   UrgentTTLD ParseDurationOrDefault None = DefaultNudgeUrgentTTL \<and>
   MaxQueueDepthV None = DefaultNudgeMaxQueueDepth \<and>
   StaleClaimThresholdD ParseDurationOrDefault None = DefaultNudgeStaleClaimTimeout \<and>
   MassDeathWindowD ParseDurationOrDefault None = DefaultMassDeathWindow \<and>
   MassDeathThresholdV None = DefaultMassDeathThreshold \<and>
   DogIdleSessionTimeoutD ParseDurationOrDefault None = DefaultDogIdleSessionTimeout \<and>
   DogIdleRemoveTimeoutD ParseDurationOrDefault None = DefaultDogIdleRemoveTimeout \<and>
   StaleWorkingTimeoutD ParseDurationOrDefault None = DefaultStaleWorkingTimeout \<and>
   MaxDogPoolSizeV None = DefaultMaxDogPoolSize \<and>
   MaxLifecycleMessageAgeD ParseDurationOrDefault None = DefaultMaxLifecycleMessageAge \<and>
   SyncFailureEscalationThresholdV None = DefaultSyncFailureEscalationThreshold \<and>
   DoctorMolCooldownD ParseDurationOrDefault None = DefaultDoctorMolCooldown \<and>
   RecoveryHeartbeatIntervalD ParseDurationOrDefault None = DefaultRecoveryHeartbeatInterval \<and>
   BootSpawnCooldownD ParseDurationOrDefault None = DefaultBootSpawnCooldown \<and>
   DeaconGracePeriodD ParseDurationOrDefault None = DefaultDeaconGracePeriod \<and>
   PingTimeoutD ParseDurationOrDefault None = DefaultDeaconPingTimeout \<and>
   ConsecutiveFailuresV None = DefaultDeaconConsecutiveFailures \<and>
   CooldownD ParseDurationOrDefault None = DefaultDeaconCooldown \<and>
   HeartbeatStaleThresholdD ParseDurationOrDefault None = DefaultDeaconHeartbeatStaleThreshold \<and>
   HeartbeatVeryStaleThresholdD ParseDurationOrDefault None = DefaultDeaconHeartbeatVeryStale \<and>
   MaxRedispatchesV None = DefaultMaxRedispatches \<and>
   RedispatchCooldownD ParseDurationOrDefault None = DefaultRedispatchCooldown \<and>
   MaxFeedsPerCycleV None = DefaultMaxFeedsPerCycle \<and>
   FeedCooldownD ParseDurationOrDefault None = DefaultFeedCooldown \<and>
   HeartbeatStaleThresholdD_polecat ParseDurationOrDefault None = DefaultPolecatHeartbeatStale \<and>
   DoltMaxRetriesV None = DefaultPolecatDoltMaxRetries \<and>
   DoltBaseBackoffD ParseDurationOrDefault None = DefaultPolecatDoltBaseBackoff \<and>
   DoltBackoffMaxD ParseDurationOrDefault None = DefaultPolecatDoltBackoffMax \<and>
   PendingMaxAgeD ParseDurationOrDefault None = DefaultPolecatPendingMaxAge \<and>
   NamepoolSizeV None = DefaultPolecatNamepoolSize \<and>
   HealthCheckIntervalD ParseDurationOrDefault None = DefaultDoltHealthCheckInterval \<and>
   CmdTimeoutD ParseDurationOrDefault None = DefaultDoltCmdTimeout \<and>
   MaxConnectionsV None = DefaultDoltMaxConnections \<and>
   SlowQueryThresholdD ParseDurationOrDefault None = DefaultDoltSlowQueryThreshold \<and>
   IdleNotifyTimeoutD ParseDurationOrDefault None = DefaultMailIdleNotifyTimeout \<and>
   BdReadTimeoutD ParseDurationOrDefault None = DefaultMailBdReadTimeout \<and>
   BdWriteTimeoutD ParseDurationOrDefault None = DefaultMailBdWriteTimeout \<and>
   MaxConcurrentAckOpsV None = DefaultMailMaxConcurrentAcks \<and>
   MaxConcurrentCommandsV None = DefaultWebMaxConcurrentCmds \<and>
   MaxSubjectLenV None = DefaultWebMaxSubjectLen \<and>
   MaxBodyLenV None = DefaultWebMaxBodyLen \<and>
   (\<forall>st. (ClaudeStartTimeout st = [] \<longrightarrow> ClaudeStartTimeoutD ParseDurationOrDefault (Some st) = DefaultClaudeStartTimeout) \<and>
      (ShellReadyTimeout st = [] \<longrightarrow> ShellReadyTimeoutD ParseDurationOrDefault (Some st) = DefaultShellReadyTimeout) \<and>
      (GracefulShutdownTimeout st = [] \<longrightarrow> GracefulShutdownTimeoutD ParseDurationOrDefault (Some st) = DefaultGracefulShutdownTimeout) \<and>
      (BdCommandTimeout st = [] \<longrightarrow> BdCommandTimeoutD ParseDurationOrDefault (Some st) = DefaultBdCommandTimeout) \<and>
      (BdSubprocessTimeout st = [] \<longrightarrow> BdSubprocessTimeoutD ParseDurationOrDefault (Some st) = DefaultBdSubprocessTimeout) \<and>
      (GUPPViolationTimeout st = [] \<longrightarrow> GUPPViolationTimeoutD ParseDurationOrDefault (Some st) = DefaultGUPPViolationTimeout) \<and>
      (HungSessionThreshold st = [] \<longrightarrow> HungSessionThresholdD ParseDurationOrDefault (Some st) = DefaultHungSessionThreshold) \<and>
      (StartupNudgeVerifyDelay st = [] \<longrightarrow> StartupNudgeVerifyDelayD ParseDurationOrDefault (Some st) = DefaultStartupNudgeVerifyDelay) \<and>
      (StartupNudgeMaxRetries st = None \<longrightarrow> StartupNudgeMaxRetriesV (Some st) = DefaultStartupNudgeMaxRetries)) \<and>
   (\<forall>nt. (ReadyTimeout nt = [] \<longrightarrow> ReadyTimeoutD ParseDurationOrDefault (Some nt) = DefaultNudgeReadyTimeout) \<and>
      (RetryInterval nt = [] \<longrightarrow> RetryIntervalD ParseDurationOrDefault (Some nt) = DefaultNudgeRetryInterval) \<and>
      (LockTimeout nt = [] \<longrightarrow> LockTimeoutD ParseDurationOrDefault (Some nt) = DefaultNudgeLockTimeout) \<and>
      (NormalTTL nt = [] \<longrightarrow> NormalTTLD ParseDurationOrDefault (Some nt) = DefaultNudgeNormalTTL) \<and>
      (UrgentTTL nt = [] \<longrightarrow> UrgentTTLD ParseDurationOrDefault (Some nt) = DefaultNudgeUrgentTTL) \<and>
      (MaxQueueDepth nt = None \<longrightarrow> MaxQueueDepthV (Some nt) = DefaultNudgeMaxQueueDepth) \<and>
      (StaleClaimThreshold nt = [] \<longrightarrow> StaleClaimThresholdD ParseDurationOrDefault (Some nt) = DefaultNudgeStaleClaimTimeout)) \<and>
   (\<forall>dm. (MassDeathWindow dm = [] \<longrightarrow> MassDeathWindowD ParseDurationOrDefault (Some dm) = DefaultMassDeathWindow) \<and>
      (MassDeathThreshold dm = None \<longrightarrow> MassDeathThresholdV (Some dm) = DefaultMassDeathThreshold) \<and>
      (DogIdleSessionTimeout dm = [] \<longrightarrow> DogIdleSessionTimeoutD ParseDurationOrDefault (Some dm) = DefaultDogIdleSessionTimeout) \<and>
      (DogIdleRemoveTimeout dm = [] \<longrightarrow> DogIdleRemoveTimeoutD ParseDurationOrDefault (Some dm) = DefaultDogIdleRemoveTimeout) \<and>
      (StaleWorkingTimeout dm = [] \<longrightarrow> StaleWorkingTimeoutD ParseDurationOrDefault (Some dm) = DefaultStaleWorkingTimeout) \<and>
      (MaxDogPoolSize dm = None \<longrightarrow> MaxDogPoolSizeV (Some dm) = DefaultMaxDogPoolSize) \<and>
      (MaxLifecycleMessageAge dm = [] \<longrightarrow> MaxLifecycleMessageAgeD ParseDurationOrDefault (Some dm) = DefaultMaxLifecycleMessageAge) \<and>
      (SyncFailureEscalationThreshold dm = None \<longrightarrow> SyncFailureEscalationThresholdV (Some dm) = DefaultSyncFailureEscalationThreshold) \<and>
      (DoctorMolCooldown dm = [] \<longrightarrow> DoctorMolCooldownD ParseDurationOrDefault (Some dm) = DefaultDoctorMolCooldown) \<and>
      (RecoveryHeartbeatInterval dm = [] \<longrightarrow> RecoveryHeartbeatIntervalD ParseDurationOrDefault (Some dm) = DefaultRecoveryHeartbeatInterval) \<and>
      (BootSpawnCooldown dm = [] \<longrightarrow> BootSpawnCooldownD ParseDurationOrDefault (Some dm) = DefaultBootSpawnCooldown) \<and>
      (DeaconGracePeriod dm = [] \<longrightarrow> DeaconGracePeriodD ParseDurationOrDefault (Some dm) = DefaultDeaconGracePeriod)) \<and>
   (\<forall>dc. (PingTimeout dc = [] \<longrightarrow> PingTimeoutD ParseDurationOrDefault (Some dc) = DefaultDeaconPingTimeout) \<and>
      (ConsecutiveFailures dc = None \<longrightarrow> ConsecutiveFailuresV (Some dc) = DefaultDeaconConsecutiveFailures) \<and>
      (Cooldown dc = [] \<longrightarrow> CooldownD ParseDurationOrDefault (Some dc) = DefaultDeaconCooldown) \<and>
      (HeartbeatStaleThreshold dc = [] \<longrightarrow> HeartbeatStaleThresholdD ParseDurationOrDefault (Some dc) = DefaultDeaconHeartbeatStaleThreshold) \<and>
      (HeartbeatVeryStaleThreshold dc = [] \<longrightarrow> HeartbeatVeryStaleThresholdD ParseDurationOrDefault (Some dc) = DefaultDeaconHeartbeatVeryStale) \<and>
      (MaxRedispatches dc = None \<longrightarrow> MaxRedispatchesV (Some dc) = DefaultMaxRedispatches) \<and>
      (RedispatchCooldown dc = [] \<longrightarrow> RedispatchCooldownD ParseDurationOrDefault (Some dc) = DefaultRedispatchCooldown) \<and>
      (MaxFeedsPerCycle dc = None \<longrightarrow> MaxFeedsPerCycleV (Some dc) = DefaultMaxFeedsPerCycle) \<and>
      (FeedCooldown dc = [] \<longrightarrow> FeedCooldownD ParseDurationOrDefault (Some dc) = DefaultFeedCooldown)) \<and>
   (\<forall>pt. (HeartbeatStaleThreshold_polecat pt = [] \<longrightarrow> HeartbeatStaleThresholdD_polecat ParseDurationOrDefault (Some pt) = DefaultPolecatHeartbeatStale) \<and>
      (DoltMaxRetries pt = None \<longrightarrow> DoltMaxRetriesV (Some pt) = DefaultPolecatDoltMaxRetries) \<and>
      (DoltBaseBackoff pt = [] \<longrightarrow> DoltBaseBackoffD ParseDurationOrDefault (Some pt) = DefaultPolecatDoltBaseBackoff) \<and>
      (DoltBackoffMax pt = [] \<longrightarrow> DoltBackoffMaxD ParseDurationOrDefault (Some pt) = DefaultPolecatDoltBackoffMax) \<and>
      (PendingMaxAge pt = [] \<longrightarrow> PendingMaxAgeD ParseDurationOrDefault (Some pt) = DefaultPolecatPendingMaxAge) \<and>
      (NamepoolSize pt = None \<longrightarrow> NamepoolSizeV (Some pt) = DefaultPolecatNamepoolSize)) \<and>
   (\<forall>dl. (HealthCheckInterval dl = [] \<longrightarrow> HealthCheckIntervalD ParseDurationOrDefault (Some dl) = DefaultDoltHealthCheckInterval) \<and>
      (CmdTimeout dl = [] \<longrightarrow> CmdTimeoutD ParseDurationOrDefault (Some dl) = DefaultDoltCmdTimeout) \<and>
      (MaxConnections dl = None \<longrightarrow> MaxConnectionsV (Some dl) = DefaultDoltMaxConnections) \<and>
      (SlowQueryThreshold dl = [] \<longrightarrow> SlowQueryThresholdD ParseDurationOrDefault (Some dl) = DefaultDoltSlowQueryThreshold)) \<and>
   (\<forall>mt. (IdleNotifyTimeout mt = [] \<longrightarrow> IdleNotifyTimeoutD ParseDurationOrDefault (Some mt) = DefaultMailIdleNotifyTimeout) \<and>
      (BdReadTimeout mt = [] \<longrightarrow> BdReadTimeoutD ParseDurationOrDefault (Some mt) = DefaultMailBdReadTimeout) \<and>
      (BdWriteTimeout mt = [] \<longrightarrow> BdWriteTimeoutD ParseDurationOrDefault (Some mt) = DefaultMailBdWriteTimeout) \<and>
      (MaxConcurrentAckOps mt = None \<longrightarrow> MaxConcurrentAckOpsV (Some mt) = DefaultMailMaxConcurrentAcks)) \<and>
   (\<forall>wt. (MaxConcurrentCommands wt = None \<longrightarrow> MaxConcurrentCommandsV (Some wt) = DefaultWebMaxConcurrentCmds) \<and>
      (MaxSubjectLen wt = None \<longrightarrow> MaxSubjectLenV (Some wt) = DefaultWebMaxSubjectLen) \<and>
      (MaxBodyLen wt = None \<longrightarrow> MaxBodyLenV (Some wt) = DefaultWebMaxBodyLen)) \<and>
   ClaudeStartTimeoutD ParseDurationOrDefault (GetSessionConfig None) = DefaultClaudeStartTimeout \<and>
   ShellReadyTimeoutD ParseDurationOrDefault (GetSessionConfig None) = DefaultShellReadyTimeout \<and>
   GracefulShutdownTimeoutD ParseDurationOrDefault (GetSessionConfig None) = DefaultGracefulShutdownTimeout \<and>
   BdCommandTimeoutD ParseDurationOrDefault (GetSessionConfig None) = DefaultBdCommandTimeout \<and>
   BdSubprocessTimeoutD ParseDurationOrDefault (GetSessionConfig None) = DefaultBdSubprocessTimeout \<and>
   GUPPViolationTimeoutD ParseDurationOrDefault (GetSessionConfig None) = DefaultGUPPViolationTimeout \<and>
   HungSessionThresholdD ParseDurationOrDefault (GetSessionConfig None) = DefaultHungSessionThreshold \<and>
   StartupNudgeVerifyDelayD ParseDurationOrDefault (GetSessionConfig None) = DefaultStartupNudgeVerifyDelay \<and>
   StartupNudgeMaxRetriesV (GetSessionConfig None) = DefaultStartupNudgeMaxRetries \<and>
   ReadyTimeoutD ParseDurationOrDefault (GetNudgeConfig None) = DefaultNudgeReadyTimeout \<and>
   RetryIntervalD ParseDurationOrDefault (GetNudgeConfig None) = DefaultNudgeRetryInterval \<and>
   LockTimeoutD ParseDurationOrDefault (GetNudgeConfig None) = DefaultNudgeLockTimeout \<and>
   NormalTTLD ParseDurationOrDefault (GetNudgeConfig None) = DefaultNudgeNormalTTL \<and>
   UrgentTTLD ParseDurationOrDefault (GetNudgeConfig None) = DefaultNudgeUrgentTTL \<and>
   MaxQueueDepthV (GetNudgeConfig None) = DefaultNudgeMaxQueueDepth \<and>
   StaleClaimThresholdD ParseDurationOrDefault (GetNudgeConfig None) = DefaultNudgeStaleClaimTimeout \<and>
   MassDeathWindowD ParseDurationOrDefault (GetDaemonConfig None) = DefaultMassDeathWindow \<and>
   MassDeathThresholdV (GetDaemonConfig None) = DefaultMassDeathThreshold \<and>
   DogIdleSessionTimeoutD ParseDurationOrDefault (GetDaemonConfig None) = DefaultDogIdleSessionTimeout \<and>
   DogIdleRemoveTimeoutD ParseDurationOrDefault (GetDaemonConfig None) = DefaultDogIdleRemoveTimeout \<and>
   StaleWorkingTimeoutD ParseDurationOrDefault (GetDaemonConfig None) = DefaultStaleWorkingTimeout \<and>
   MaxDogPoolSizeV (GetDaemonConfig None) = DefaultMaxDogPoolSize \<and>
   MaxLifecycleMessageAgeD ParseDurationOrDefault (GetDaemonConfig None) = DefaultMaxLifecycleMessageAge \<and>
   SyncFailureEscalationThresholdV (GetDaemonConfig None) = DefaultSyncFailureEscalationThreshold \<and>
   DoctorMolCooldownD ParseDurationOrDefault (GetDaemonConfig None) = DefaultDoctorMolCooldown \<and>
   RecoveryHeartbeatIntervalD ParseDurationOrDefault (GetDaemonConfig None) = DefaultRecoveryHeartbeatInterval \<and>
   BootSpawnCooldownD ParseDurationOrDefault (GetDaemonConfig None) = DefaultBootSpawnCooldown \<and>
   DeaconGracePeriodD ParseDurationOrDefault (GetDaemonConfig None) = DefaultDeaconGracePeriod \<and>
   PingTimeoutD ParseDurationOrDefault (GetDeaconConfig None) = DefaultDeaconPingTimeout \<and>
   ConsecutiveFailuresV (GetDeaconConfig None) = DefaultDeaconConsecutiveFailures \<and>
   CooldownD ParseDurationOrDefault (GetDeaconConfig None) = DefaultDeaconCooldown \<and>
   HeartbeatStaleThresholdD ParseDurationOrDefault (GetDeaconConfig None) = DefaultDeaconHeartbeatStaleThreshold \<and>
   HeartbeatVeryStaleThresholdD ParseDurationOrDefault (GetDeaconConfig None) = DefaultDeaconHeartbeatVeryStale \<and>
   MaxRedispatchesV (GetDeaconConfig None) = DefaultMaxRedispatches \<and>
   RedispatchCooldownD ParseDurationOrDefault (GetDeaconConfig None) = DefaultRedispatchCooldown \<and>
   MaxFeedsPerCycleV (GetDeaconConfig None) = DefaultMaxFeedsPerCycle \<and>
   FeedCooldownD ParseDurationOrDefault (GetDeaconConfig None) = DefaultFeedCooldown \<and>
   HeartbeatStaleThresholdD_polecat ParseDurationOrDefault (GetPolecatConfig None) = DefaultPolecatHeartbeatStale \<and>
   DoltMaxRetriesV (GetPolecatConfig None) = DefaultPolecatDoltMaxRetries \<and>
   DoltBaseBackoffD ParseDurationOrDefault (GetPolecatConfig None) = DefaultPolecatDoltBaseBackoff \<and>
   DoltBackoffMaxD ParseDurationOrDefault (GetPolecatConfig None) = DefaultPolecatDoltBackoffMax \<and>
   PendingMaxAgeD ParseDurationOrDefault (GetPolecatConfig None) = DefaultPolecatPendingMaxAge \<and>
   NamepoolSizeV (GetPolecatConfig None) = DefaultPolecatNamepoolSize \<and>
   HealthCheckIntervalD ParseDurationOrDefault (GetDoltConfig None) = DefaultDoltHealthCheckInterval \<and>
   CmdTimeoutD ParseDurationOrDefault (GetDoltConfig None) = DefaultDoltCmdTimeout \<and>
   MaxConnectionsV (GetDoltConfig None) = DefaultDoltMaxConnections \<and>
   SlowQueryThresholdD ParseDurationOrDefault (GetDoltConfig None) = DefaultDoltSlowQueryThreshold \<and>
   IdleNotifyTimeoutD ParseDurationOrDefault (GetMailConfig None) = DefaultMailIdleNotifyTimeout \<and>
   BdReadTimeoutD ParseDurationOrDefault (GetMailConfig None) = DefaultMailBdReadTimeout \<and>
   BdWriteTimeoutD ParseDurationOrDefault (GetMailConfig None) = DefaultMailBdWriteTimeout \<and>
   MaxConcurrentAckOpsV (GetMailConfig None) = DefaultMailMaxConcurrentAcks \<and>
   MaxConcurrentCommandsV (GetWebConfig None) = DefaultWebMaxConcurrentCmds \<and>
   MaxSubjectLenV (GetWebConfig None) = DefaultWebMaxSubjectLen \<and>
   MaxBodyLenV (GetWebConfig None) = DefaultWebMaxBodyLen"
    (is "?notnil \<and> ?onfailure \<and> ?rest")
proof -
  have notnil: ?notnil
    by (rule LoadOperationalConfig_not_nil)
  have onfailure: ?onfailure
    by (auto simp add: LoadOperationalConfig_def Let_def)
  have rest: ?rest
    by (simp add: session_nil_receiver
        session_unset_field [where ParseDurationOrDefault = ParseDurationOrDefault, OF empty]
        GetSessionConfig_not_nil
        session_through_getter [where ParseDurationOrDefault = ParseDurationOrDefault, OF empty]
        nudge_nil_receiver
        nudge_unset_field [where ParseDurationOrDefault = ParseDurationOrDefault, OF empty]
        GetNudgeConfig_not_nil
        nudge_through_getter [where ParseDurationOrDefault = ParseDurationOrDefault, OF empty]
        daemon_nil_receiver
        daemon_unset_field [where ParseDurationOrDefault = ParseDurationOrDefault, OF empty]
        GetDaemonConfig_not_nil
        daemon_through_getter [where ParseDurationOrDefault = ParseDurationOrDefault, OF empty]
        deacon_nil_receiver
        deacon_unset_field [where ParseDurationOrDefault = ParseDurationOrDefault, OF empty]
        GetDeaconConfig_not_nil
        deacon_through_getter [where ParseDurationOrDefault = ParseDurationOrDefault, OF empty]
        polecat_nil_receiver
        polecat_unset_field [where ParseDurationOrDefault = ParseDurationOrDefault, OF empty]
        GetPolecatConfig_not_nil
        polecat_through_getter [where ParseDurationOrDefault = ParseDurationOrDefault, OF empty]
        dolt_nil_receiver
        dolt_unset_field [where ParseDurationOrDefault = ParseDurationOrDefault, OF empty]
        GetDoltConfig_not_nil
        dolt_through_getter [where ParseDurationOrDefault = ParseDurationOrDefault, OF empty]
        mail_nil_receiver
        mail_unset_field [where ParseDurationOrDefault = ParseDurationOrDefault, OF empty]
        GetMailConfig_not_nil
        mail_through_getter [where ParseDurationOrDefault = ParseDurationOrDefault, OF empty]
        web_nil_receiver
        web_unset_field [where ParseDurationOrDefault = ParseDurationOrDefault, OF empty]
        GetWebConfig_not_nil
        web_through_getter [where ParseDurationOrDefault = ParseDurationOrDefault, OF empty])
  show ?thesis
    by (rule conjI [OF notnil conjI [OF onfailure rest]])
qed

theorem operational_accessors_total_on_nil_witness:
  "(\<forall>def. ParseDurationOrDefault_spec (ParseDuration sampleEnv) [] def = def) \<and>
   LoadOperationalConfig sampleLoad sampleJoin ''/nowhere'' = Some zeroOperationalConfig \<and>
   LoadOperationalConfig sampleLoad sampleJoin ''/bare'' = Some zeroOperationalConfig \<and>
   GUPPViolationTimeoutD (ParseDurationOrDefault_spec (ParseDuration sampleEnv))
     (GetSessionConfig (LoadOperationalConfig sampleLoad sampleJoin ''/nowhere'')) = 30 * Minute \<and>
   StartupNudgeMaxRetriesV
     (GetSessionConfig (LoadOperationalConfig sampleLoad sampleJoin ''/nowhere'')) = 3 \<and>
   GUPPViolationTimeoutD (ParseDurationOrDefault_spec (ParseDuration sampleEnv))
     (GetSessionConfig (LoadOperationalConfig sampleLoad sampleJoin ''/town'')) = Hour \<and>
   StartupNudgeMaxRetriesV
     (GetSessionConfig (LoadOperationalConfig sampleLoad sampleJoin ''/town'')) = 7 \<and>
   ClaudeStartTimeoutD (ParseDurationOrDefault_spec (ParseDuration sampleEnv))
     (GetSessionConfig (LoadOperationalConfig sampleLoad sampleJoin ''/town'')) = 60 * Second \<and>
   MaxQueueDepthV (GetNudgeConfig (LoadOperationalConfig sampleLoad sampleJoin ''/town'')) = 50 \<and>
   DogIdleSessionTimeoutD (ParseDurationOrDefault_spec (ParseDuration sampleEnv)) None = Hour \<and>
   MaxBodyLenV (GetWebConfig None) = 100000"
proof -
  have refuses: "ParseDuration sampleEnv [] = Inl ''time: invalid duration''"
    by (simp add: sampleEnv_def)
  note empty = ParseDurationOrDefault_spec_empty [where parse = "ParseDuration sampleEnv", OF refuses]
  have nowhere: "LoadOperationalConfig sampleLoad sampleJoin ''/nowhere'' = Some zeroOperationalConfig"
    by (simp add: LoadOperationalConfig_def sampleLoad_def sampleJoin_def)
  have bare: "LoadOperationalConfig sampleLoad sampleJoin ''/bare'' = Some zeroOperationalConfig"
    by (simp add: LoadOperationalConfig_def sampleLoad_def sampleJoin_def)
  have town: "LoadOperationalConfig sampleLoad sampleJoin ''/town'' =
      Some (zeroOperationalConfig
              \<lparr>Session := Some (zeroSessionThresholds
                 \<lparr>GUPPViolationTimeout := ''1h'', StartupNudgeMaxRetries := Some 7\<rparr>)\<rparr>)"
    by (simp add: LoadOperationalConfig_def sampleLoad_def sampleJoin_def)
  have parse1h: "ParseDurationOrDefault_spec (ParseDuration sampleEnv) ''1h'' d = Hour" for d
    by (simp add: ParseDurationOrDefault_spec_def sampleEnv_def Hour_def Minute_def Second_def
        Millisecond_def)
  show ?thesis
    using operational_accessors_total_on_nil
      [where ParseDurationOrDefault = "ParseDurationOrDefault_spec (ParseDuration sampleEnv)"
         and load = sampleLoad and join = sampleJoin and townRoot = "''/nowhere''"
         and c = None, OF empty]
    by (simp add: empty nowhere bare town parse1h
        GetSessionConfig_def GetNudgeConfig_def zeroOperationalConfig_def
        zeroSessionThresholds_def zeroNudgeThresholds_def
        GUPPViolationTimeoutD_def StartupNudgeMaxRetriesV_def ClaudeStartTimeoutD_def
        MaxQueueDepthV_def
        DefaultGUPPViolationTimeout_def DefaultStartupNudgeMaxRetries_def
        DefaultClaudeStartTimeout_def DefaultNudgeMaxQueueDepth_def
        DefaultDogIdleSessionTimeout_def DefaultWebMaxBodyLen_def)
qed

end
